theory Spec2Isabelle
  imports Complex_Main "HOL-Library.AList" "HOL-Library.Product_Lexorder"
begin

section \<open>Python values and strings\<close>

text \<open>
  The program passes JSON-shaped dictionaries between its layers. The scalar values that
  the modelled functions read are \<open>None\<close>, booleans, integers and strings. Strings are
  modelled as ASCII text (\<open>char list\<close>); \<open>str.lower\<close> and \<open>str.strip\<close> are modelled on
  the ASCII range, where IMDb identifiers and tag labels live.
\<close>

datatype pyval = PyNone | PyBool bool | PyInt int | PyStr string

text \<open>A dictionary key that may be missing is an \<open>option\<close>; \<open>d.get(k, default)\<close>:\<close>

definition dget :: "'a option \<Rightarrow> 'a \<Rightarrow> 'a" where
  "dget f d = (case f of None \<Rightarrow> d | Some v \<Rightarrow> v)"

text \<open>Decimal digits of a natural number, as \<open>str\<close> prints them.\<close>

definition digit_char :: "nat \<Rightarrow> char" where
  "digit_char d = (''0123456789'' ! d)"

function string_of_nat :: "nat \<Rightarrow> string" where
  "string_of_nat n = (if n < 10 then [digit_char n]
                      else string_of_nat (n div 10) @ [digit_char (n mod 10)])"
  by pat_completeness auto
termination
  by (relation "measure id") auto

declare string_of_nat.simps [simp del]

definition string_of_int :: "int \<Rightarrow> string" where
  "string_of_int i = (if i < 0 then CHR ''-'' # string_of_nat (nat (- i))
                      else string_of_nat (nat i))"

text \<open>Python's \<open>str(v)\<close>.\<close>

fun py_str :: "pyval \<Rightarrow> string" where
  "py_str PyNone = ''None''"
| "py_str (PyBool b) = (if b then ''True'' else ''False'')"
| "py_str (PyInt i) = string_of_int i"
| "py_str (PyStr s) = s"

text \<open>Python's truthiness of a value (\<open>if v:\<close>).\<close>

fun truthy :: "pyval \<Rightarrow> bool" where
  "truthy PyNone = False"
| "truthy (PyBool b) = b"
| "truthy (PyInt i) = (i \<noteq> 0)"
| "truthy (PyStr s) = (s \<noteq> [])"

text \<open>Python's \<open>==\<close> on these values: \<open>bool\<close> is a subtype of \<open>int\<close>, so \<open>True == 1\<close>.\<close>

fun py_num :: "pyval \<Rightarrow> int option" where
  "py_num (PyBool b) = Some (if b then 1 else 0)"
| "py_num (PyInt i) = Some i"
| "py_num _ = None"

fun py_eq :: "pyval \<Rightarrow> pyval \<Rightarrow> bool" where
  "py_eq PyNone PyNone = True"
| "py_eq (PyStr s) (PyStr t) = (s = t)"
| "py_eq a b = (case (py_num a, py_num b) of (Some x, Some y) \<Rightarrow> x = y | _ \<Rightarrow> False)"

text \<open>\<open>str.lower()\<close> and \<open>str.strip()\<close> on ASCII text.\<close>

definition lower_char :: "char \<Rightarrow> char" where
  "lower_char c =
     (case map_of (zip ''ABCDEFGHIJKLMNOPQRSTUVWXYZ'' ''abcdefghijklmnopqrstuvwxyz'') c of
        Some d \<Rightarrow> d | None \<Rightarrow> c)"

definition py_lower :: "string \<Rightarrow> string" where
  "py_lower s = map lower_char s"

definition is_space :: "char \<Rightarrow> bool" where
  "is_space c = (c \<in> set [CHR '' '', CHR 0x09, CHR 0x0A, CHR 0x0B, CHR 0x0C, CHR 0x0D,
                            CHR 0x1C, CHR 0x1D, CHR 0x1E, CHR 0x1F])"

definition py_strip :: "string \<Rightarrow> string" where
  "py_strip s = rev (dropWhile is_space (rev (dropWhile is_space s)))"

section \<open>The dictionaries that flow between the layers\<close>

text \<open>
  Every movie dictionary, from the watchlist or from the target library, carries the
  identifying keys that database.py reads: \<open>title\<close>, \<open>ratingKey\<close>, \<open>imdbId\<close>, \<open>tmdbId\<close> and
  \<open>year\<close>. A key that may be missing (or hold \<open>None\<close>) is an \<open>option\<close>. \<open>tmdbId\<close> is a
  string when it comes from the watchlist source or the cache and an integer when it comes
  from the target library, so it is a \<open>pyval\<close>; \<open>Some PyNone\<close> is the key present with the
  value \<open>None\<close>, which \<open>str(movie.get('tmdbId', ''))\<close> tells apart from the missing key.
\<close>

record movie_data =
  title :: "string option"
  ratingKey :: "string option"
  imdbId :: "string option"
  tmdbId :: "pyval option"
  year :: "int option"

text \<open>A watchlist item; \<open>plex_author_id\<close> is set on items of the friends' feed.\<close>

record plex_movie = movie_data +
  plex_author_id :: "string option"

text \<open>
  A record of the target library, as the Radarr API returns it and as the update payload
  is built. The numeric id is always present in what the service returns (the code reads
  it with \<open>radarr_movie["id"]\<close>); \<open>path\<close> is a string when present (the code calls
  \<open>path.split\<close> on it). \<open>searchForMovie\<close> stands for
  \<open>d.get("addOptions", {}).get("searchForMovie")\<close>: \<open>None\<close> when either key is missing.
\<close>

record radarr_movie = movie_data +
  radarr_id :: int
  sizeOnDisk :: "int option"
  tags :: "int list option"
  monitored :: "pyval option"
  qualityProfileId :: "pyval option"
  rootFolderPath :: "pyval option"
  path :: "string option"
  minimumAvailability :: "pyval option"
  searchForMovie :: "pyval option"

section \<open>The payload differ (main.py)\<close>

text \<open>\<open>d.get(key)\<close> on a library record, for the keys that \<open>needs_update\<close> reads.\<close>

definition mget :: "radarr_movie \<Rightarrow> string \<Rightarrow> pyval" where
  "mget m k =
     (if k = ''monitored'' then dget (monitored m) PyNone
      else if k = ''qualityProfileId'' then dget (qualityProfileId m) PyNone
      else if k = ''rootFolderPath'' then dget (rootFolderPath m) PyNone
      else if k = ''path'' then (case path m of None \<Rightarrow> PyNone | Some s \<Rightarrow> PyStr s)
      else if k = ''minimumAvailability'' then dget (minimumAvailability m) PyNone
      else PyNone)"

definition keys_to_check :: "string list" where
  "keys_to_check =
     [''monitored'', ''qualityProfileId'', ''rootFolderPath'', ''path'', ''minimumAvailability'']"

text \<open>The \<open>for key in keys_to_check\<close> loop with its early \<open>return True\<close>.\<close>

fun keys_differ :: "string list \<Rightarrow> radarr_movie \<Rightarrow> radarr_movie \<Rightarrow> bool" where
  "keys_differ [] cur new = False"
| "keys_differ (k # ks) cur new =
     (if py_str (mget cur k) \<noteq> py_str (mget new k) then True
      else keys_differ ks cur new)"

definition needs_update :: "radarr_movie \<Rightarrow> radarr_movie \<Rightarrow> bool" where
  "needs_update current_movie new_payload =
     (if keys_differ keys_to_check current_movie new_payload then True
      else if set (dget (tags current_movie) []) \<noteq> set (dget (tags new_payload) []) then True
      else if \<not> py_eq (dget (searchForMovie current_movie) PyNone)
                       (dget (searchForMovie new_payload) PyNone) then True
      else False)"

section \<open>Merging the two watchlists (plex_api.py)\<close>

text \<open>\<open>(item.get("imdbId") or "").strip().lower()\<close>\<close>

definition norm_imdb :: "'a movie_data_scheme \<Rightarrow> string" where
  "norm_imdb item = py_lower (py_strip (dget (imdbId item) []))"

text \<open>
  \<open>key = imdb if imdb else item.get("ratingKey")\<close>, with the test \<open>if key:\<close> folded in:
  \<open>None\<close> when the item has no usable key.
\<close>

definition personal_key :: "plex_movie \<Rightarrow> string option" where
  "personal_key item =
     (let imdb = norm_imdb item in
      if imdb \<noteq> [] then Some imdb
      else (case ratingKey item of
              None \<Rightarrow> None
            | Some rk \<Rightarrow> if rk \<noteq> [] then Some rk else None))"

text \<open>
  The dictionary \<open>merged\<close> keeps insertion order, and an assignment to a key that is
  present replaces the value in place: \<open>AList.update\<close>.
\<close>

fun merge_personal :: "(string \<times> plex_movie) list \<Rightarrow> plex_movie list \<Rightarrow> (string \<times> plex_movie) list" where
  "merge_personal merged [] = merged"
| "merge_personal merged (item # rest) =
     (case personal_key item of
        Some key \<Rightarrow> merge_personal (AList.update key item merged) rest
      | None \<Rightarrow> merge_personal merged rest)"

fun merge_friends :: "(string \<times> plex_movie) list \<Rightarrow> plex_movie list \<Rightarrow> (string \<times> plex_movie) list" where
  "merge_friends merged [] = merged"
| "merge_friends merged (item # rest) =
     (let imdb = norm_imdb item in
      if imdb \<noteq> [] \<and> imdb \<notin> fst ` set merged
      then merge_friends (AList.update imdb item merged) rest
      else merge_friends merged rest)"

definition merged_dict :: "plex_movie list \<Rightarrow> plex_movie list \<Rightarrow> (string \<times> plex_movie) list" where
  "merged_dict personal_list friends_list =
     merge_friends (merge_personal [] personal_list) friends_list"

definition merge_watchlists :: "plex_movie list \<Rightarrow> plex_movie list \<Rightarrow> plex_movie list" where
  "merge_watchlists personal_list friends_list =
     map snd (merged_dict personal_list friends_list)"

section \<open>The tag registry and its cache (radarr_api.py)\<close>

record radarr_tag =
  tag_id :: int
  label :: string

text \<open>
  The module-level \<open>_tag_cache\<close>: \<open>None\<close> until the first listing succeeds, then a
  dictionary from lower-cased label to id.
\<close>

type_synonym tag_cache = "(string \<times> int) list option"

text \<open>The calls that reach the target library service, in the order they are issued.\<close>

datatype tag_call = ListTags | CreateTag string

text \<open>
  \<open>get_all_tags\<close>: \<open>listing\<close> is what \<open>_make_request("GET", "/api/v3/tag")\<close> returns
  (\<open>None\<close> on any failure). The dictionary comprehension lets a later tag with the same
  lower-cased label replace an earlier one.
\<close>

fun cache_of_tags :: "(string \<times> int) list \<Rightarrow> radarr_tag list \<Rightarrow> (string \<times> int) list" where
  "cache_of_tags c [] = c"
| "cache_of_tags c (t # ts) = cache_of_tags (AList.update (py_lower (label t)) (tag_id t) c) ts"

definition get_all_tags :: "radarr_tag list option \<Rightarrow> tag_cache \<Rightarrow> tag_cache" where
  "get_all_tags listing cache =
     (case listing of
        Some result \<Rightarrow> Some (cache_of_tags [] result)
      | None \<Rightarrow> cache)"

text \<open>
  \<open>create_tag\<close>: \<open>created\<close> is what the POST returns (\<open>None\<close> on failure). Returns the
  created tag and the cache.
\<close>

definition create_tag :: "string \<Rightarrow> radarr_tag option \<Rightarrow> tag_cache \<Rightarrow> radarr_tag option \<times> tag_cache" where
  "create_tag tag_name created cache =
     (case created of
        Some result \<Rightarrow>
          (Some result,
           (case cache of
              Some c \<Rightarrow> Some (AList.update (py_lower tag_name) (tag_id result) c)
            | None \<Rightarrow> None))
      | None \<Rightarrow> (None, cache))"

text \<open>
  \<open>get_or_create_tag\<close>: returns the id (or \<open>None\<close>), the cache afterwards and the calls
  issued. \<open>if _tag_cache and tag_name_lower in _tag_cache\<close> tests that the dictionary is
  not empty before it looks the key up.
\<close>

definition get_or_create_tag ::
  "string \<Rightarrow> radarr_tag list option \<Rightarrow> radarr_tag option \<Rightarrow> tag_cache
     \<Rightarrow> int option \<times> tag_cache \<times> tag_call list" where
  "get_or_create_tag tag_name listing created cache0 =
     (let (cache1, calls1) =
            (if cache0 = None then (get_all_tags listing cache0, [ListTags]) else (cache0, []));
          tag_name_lower = py_lower tag_name
      in case (case cache1 of
                 Some c \<Rightarrow> if c \<noteq> [] then map_of c tag_name_lower else None
               | None \<Rightarrow> None) of
           Some i \<Rightarrow> (Some i, cache1, calls1)
         | None \<Rightarrow>
             (let (result, cache2) = create_tag tag_name created cache1
              in (case result of
                    Some t \<Rightarrow> (Some (tag_id t), cache2, calls1 @ [CreateTag tag_name])
                  | None \<Rightarrow> (None, cache2, calls1 @ [CreateTag tag_name]))))"

section \<open>The persisted daily search counter (search_conditions.py, main.py)\<close>

text \<open>
  The counter file holds \<open>{"date": ..., "count": ...}\<close>; \<open>None\<close> is a file that does not
  exist or cannot be read. \<open>today\<close> is \<open>datetime.date.today().isoformat()\<close>. Writes are
  taken to succeed.
\<close>

type_synonym counter_file = "(string \<times> int) option"

definition read_daily_search_count :: "string \<Rightarrow> counter_file \<Rightarrow> int" where
  "read_daily_search_count today file =
     (case file of
        None \<Rightarrow> 0
      | Some (d, c) \<Rightarrow> if d \<noteq> today then 0 else c)"

definition increment_daily_search_count :: "string \<Rightarrow> counter_file \<Rightarrow> counter_file" where
  "increment_daily_search_count today file = Some (today, read_daily_search_count today file + 1)"

definition save_daily_search_count :: "string \<Rightarrow> int \<Rightarrow> counter_file" where
  "save_daily_search_count today count = Some (today, count)"

section \<open>The identity cache (database.py)\<close>

text \<open>
  One row of the table \<open>plex_metadata\<close> (the columns \<open>id\<close>, \<open>rating_key\<close>, \<open>imdb_id\<close>,
  \<open>tmdb_id\<close>, \<open>title\<close> and \<open>year\<close> carry the prefix \<open>row_\<close> here, as the code uses the
  same names for its local variables). The table is the list of its rows in rowid order,
  which is the order in which \<open>fetchone\<close> meets them. The store is taken to be reachable:
  every function of database.py catches and logs a failure of the store and changes
  nothing then.
\<close>

record cache_row =
  row_id :: nat
  row_rating_key :: "string option"
  row_imdb_id :: "string option"
  row_tmdb_id :: "string option"
  row_title :: "string option"
  row_year :: "int option"
  last_radarr_search :: "string option"
  last_processed :: "string option"

text \<open>\<open>if x: x = str(x).strip()\<close> followed by the test \<open>if x:\<close> on the result.\<close>

definition clean_id :: "string option \<Rightarrow> string option" where
  "clean_id p =
     (case p of
        None \<Rightarrow> None
      | Some s \<Rightarrow> (let s' = (if s \<noteq> [] then py_strip s else s)
                   in if s' \<noteq> [] then Some s' else None))"

text \<open>
  The \<open>WHERE\<close> clause: the conditions of the identifiers supplied, joined by \<open>OR\<close>.
  SQLite compares text with \<open>=\<close> exactly (case-sensitive), and a \<open>NULL\<close> column matches
  nothing.
\<close>

definition row_matches :: "string option \<Rightarrow> string option \<Rightarrow> string option \<Rightarrow> cache_row \<Rightarrow> bool" where
  "row_matches rk imdb tmdb row =
     ((rk \<noteq> None \<and> row_rating_key row = rk)
      \<or> (imdb \<noteq> None \<and> row_imdb_id row = imdb)
      \<or> (tmdb \<noteq> None \<and> row_tmdb_id row = tmdb))"

definition get_plex_metadata ::
  "string option \<Rightarrow> string option \<Rightarrow> string option \<Rightarrow> cache_row list \<Rightarrow> cache_row option" where
  "get_plex_metadata rk imdb tmdb table =
     (let rk' = clean_id rk; imdb' = clean_id imdb; tmdb' = clean_id tmdb
      in if rk' = None \<and> imdb' = None \<and> tmdb' = None then None
         else find (row_matches rk' imdb' tmdb') table)"

text \<open>\<open>x or None\<close> on a string; and the text stored for \<open>tmdbId\<close>.\<close>

definition or_none :: "string option \<Rightarrow> string option" where
  "or_none x = (case x of None \<Rightarrow> None | Some s \<Rightarrow> if s \<noteq> [] then Some s else None)"

definition tmdb_text :: "pyval option \<Rightarrow> string option" where
  "tmdb_text v =
     (case v of
        None \<Rightarrow> None
      | Some x \<Rightarrow> if x \<noteq> PyNone \<and> x \<noteq> PyStr [] then Some (py_str x) else None)"

definition title_or_unknown :: "string option \<Rightarrow> string" where
  "title_or_unknown t = (case or_none t of None \<Rightarrow> ''Unknown'' | Some s \<Rightarrow> s)"

definition year_or_0 :: "int option \<Rightarrow> int" where
  "year_or_0 y = dget y 0"

text \<open>\<open>id INTEGER PRIMARY KEY AUTOINCREMENT\<close>: one more than the largest id in use.\<close>

definition next_id :: "cache_row list \<Rightarrow> nat" where
  "next_id table = Suc (foldr max (map row_id table) 0)"

text \<open>
  \<open>INSERT\<close>: \<open>rating_key\<close> is \<open>UNIQUE\<close>, so a second row with the same non-null rating key
  is refused; the caller catches the error and nothing is committed.
\<close>

definition insert_row :: "cache_row \<Rightarrow> cache_row list \<Rightarrow> cache_row list" where
  "insert_row row table =
     (if row_rating_key row \<noteq> None \<and> (\<exists>r \<in> set table. row_rating_key r = row_rating_key row) then table
      else table @ [row])"

text \<open>\<open>save_plex_metadata\<close>: \<open>INSERT ... ON CONFLICT(rating_key) DO UPDATE\<close>.\<close>

definition save_plex_metadata :: "'a movie_data_scheme \<Rightarrow> cache_row list \<Rightarrow> cache_row list" where
  "save_plex_metadata movie_data table =
     (let rk = or_none (ratingKey movie_data);
          imdb = or_none (imdbId movie_data);
          tmdb = tmdb_text (tmdbId movie_data);
          t = title_or_unknown (title movie_data);
          y = year_or_0 (year movie_data)
      in if rk \<noteq> None \<and> (\<exists>r \<in> set table. row_rating_key r = rk)
         then map (\<lambda>r. if row_rating_key r = rk
                        then r\<lparr>row_imdb_id := imdb, row_tmdb_id := tmdb, row_title := Some t, row_year := Some y\<rparr>
                        else r) table
         else table @ [\<lparr>row_id = next_id table, row_rating_key = rk, row_imdb_id = imdb, row_tmdb_id = tmdb,
                         row_title = Some t, row_year = Some y,
                         last_radarr_search = None, last_processed = None\<rparr>])"

text \<open>
  The lookup shared by \<open>mark_movie_as_searched\<close> and \<open>mark_movie_as_processed\<close>: the first
  row that matches any identifier of the movie, taken as given (not stripped, not
  lower-cased); \<open>if existing_id:\<close> refuses the id 0.
\<close>

definition existing_row :: "'a movie_data_scheme \<Rightarrow> cache_row list \<Rightarrow> cache_row option" where
  "existing_row movie table =
     (let rk = or_none (ratingKey movie);
          imdb = or_none (imdbId movie);
          tmdb = tmdb_text (tmdbId movie)
      in if rk \<noteq> None \<or> imdb \<noteq> None \<or> tmdb \<noteq> None
         then (case find (row_matches rk imdb tmdb) table of
                 Some r \<Rightarrow> if row_id r \<noteq> 0 then Some r else None
               | None \<Rightarrow> None)
         else None)"

definition mark_movie_as_searched :: "'a movie_data_scheme \<Rightarrow> string \<Rightarrow> cache_row list \<Rightarrow> cache_row list" where
  "mark_movie_as_searched movie timestamp table =
     (let rk = or_none (ratingKey movie);
          imdb = or_none (imdbId movie);
          tmdb = tmdb_text (tmdbId movie);
          t = title_or_unknown (title movie);
          y = year_or_0 (year movie)
      in case existing_row movie table of
           Some ex \<Rightarrow>
             map (\<lambda>r. if row_id r = row_id ex
                       then r\<lparr>row_imdb_id := imdb, row_tmdb_id := tmdb, row_title := Some t, row_year := Some y,
                              last_radarr_search := Some timestamp\<rparr>
                       else r) table
         | None \<Rightarrow>
             insert_row \<lparr>row_id = next_id table, row_rating_key = rk, row_imdb_id = imdb, row_tmdb_id = tmdb,
                         row_title = Some t, row_year = Some y,
                         last_radarr_search = Some timestamp, last_processed = None\<rparr> table)"

definition mark_movie_as_processed :: "'a movie_data_scheme \<Rightarrow> string \<Rightarrow> cache_row list \<Rightarrow> cache_row list" where
  "mark_movie_as_processed movie timestamp table =
     (let rk = or_none (ratingKey movie);
          imdb = or_none (imdbId movie);
          tmdb = tmdb_text (tmdbId movie);
          t = title_or_unknown (title movie);
          y = year_or_0 (year movie)
      in case existing_row movie table of
           Some ex \<Rightarrow>
             map (\<lambda>r. if row_id r = row_id ex
                       then r\<lparr>row_imdb_id := imdb, row_tmdb_id := tmdb, row_title := Some t, row_year := Some y,
                              last_processed := Some timestamp\<rparr>
                       else r) table
         | None \<Rightarrow>
             insert_row \<lparr>row_id = next_id table, row_rating_key = rk, row_imdb_id = imdb, row_tmdb_id = tmdb,
                         row_title = Some t, row_year = Some y,
                         last_radarr_search = None, last_processed = Some timestamp\<rparr> table)"

section \<open>The cooldown check (search_conditions.py)\<close>

text \<open>
  A \<open>datetime\<close> is its distance from \<open>datetime.min\<close> in microseconds, so \<open>datetime.min\<close> is
  0 and the difference of two of them is a \<open>timedelta\<close> in microseconds. The standard
  library's parsers are parameters of the model: \<open>fromisoformat\<close> returns \<open>None\<close> where
  Python raises \<open>ValueError\<close>, and \<open>py_int\<close> is \<open>int(s)\<close> on a string.
\<close>

type_synonym datetime = int

record pylib =
  fromisoformat :: "string \<Rightarrow> datetime option"
  py_int :: "string \<Rightarrow> int option"

definition microseconds_per_day :: int where
  "microseconds_per_day = 86400 * 1000000"

definition microseconds_per_hour :: int where
  "microseconds_per_hour = 3600 * 1000000"

text \<open>\<open>timedelta.days\<close>: the number of whole days, rounded towards minus infinity.\<close>

definition timedelta_days :: "int \<Rightarrow> int" where
  "timedelta_days delta = delta div microseconds_per_day"

text \<open>Lines 23 to 35: the cache record of the movie, by the first identifier it has.\<close>

definition search_db_movie :: "cache_row list \<Rightarrow> 'a movie_data_scheme \<Rightarrow> cache_row option" where
  "search_db_movie table movie =
     (let rk = dget (ratingKey movie) [];
          imdb = dget (imdbId movie) [];
          tmdb = py_str (dget (tmdbId movie) (PyStr []))
      in if rk \<noteq> [] then get_plex_metadata (Some rk) None None table
         else if imdb \<noteq> [] then get_plex_metadata None (Some imdb) None table
         else if tmdb \<noteq> [] then get_plex_metadata None None (Some tmdb) table
         else None)"

definition should_trigger_search ::
  "pylib \<Rightarrow> datetime \<Rightarrow> cache_row list \<Rightarrow> 'a movie_data_scheme \<Rightarrow> bool" where
  "should_trigger_search lib now table movie =
     (case search_db_movie table movie of
        None \<Rightarrow> True
      | Some row \<Rightarrow>
          (case or_none (last_radarr_search row) of
             None \<Rightarrow> True
           | Some last_search_str \<Rightarrow>
               (case fromisoformat lib last_search_str of
                  None \<Rightarrow> True
                | Some last_search \<Rightarrow>
                    (let days_since_last_search = timedelta_days (now - last_search)
                     in if days_since_last_search \<ge> 7 then True else False))))"

section \<open>Configuration, outside answers and the state of a run\<close>

text \<open>
  The keys of config.yaml that the two jobs read. \<open>max_daily_searches\<close> is \<open>None\<close> when
  the key is missing or null; \<open>searches_per_run\<close> is \<open>None\<close> when the key is missing
  (the code then takes 3) and \<open>Some None\<close> when it is null. \<open>min_file_size_gb\<close> is a
  rational: YAML gives an integer or a float, every float is a rational, and dividing or
  multiplying by \<open>1024 ** 3\<close> is exact in binary floating point for sizes below \<open>2 ^ 53\<close>
  bytes, so the comparisons of the code are comparisons of rationals.
\<close>

record config =
  max_daily_searches :: "int option"
  searches_per_run :: "int option option"
  watchlist_tag :: int
  plex_upgrade_tag :: int
  min_file_size_gb :: "rat option"
  default_quality_profile :: "int option"
  root_folder :: string

definition global_daily_search_limit :: "config \<Rightarrow> int option" where
  "global_daily_search_limit cfg = max_daily_searches cfg"

definition per_run_search_limit :: "config \<Rightarrow> int option" where
  "per_run_search_limit cfg = dget (searches_per_run cfg) (Some 3)"

text \<open>
  What the outside world answers while one item is processed: the friend tag that
  \<open>get_or_create_tag\<close> gave for the item (\<open>None\<close> when tagging is off, the item has no
  author, or the call failed), the results of \<open>add_movie\<close>, \<open>trigger_search\<close> and of the
  PUT that updates a record, and the readings of the clock.
\<close>

record responses =
  friend_tag_id :: "int option"
  add_result :: "radarr_movie option"
  search_result :: bool
  update_result :: bool
  processed_at :: string
  searched_at :: string
  now :: datetime

text \<open>The calls that leave the process, and the writes of the counter file, in order.\<close>

datatype call =
    AddMovie radarr_movie
  | UpdateMovie int radarr_movie
  | TriggerSearch int bool
  | WriteCounter string int

record run_state =
  db :: "cache_row list"
  counter :: counter_file
  daily_search_count :: int
  run_search_count :: int
  calls :: "call list"

text \<open>
  The statements that follow a successful \<open>trigger_search\<close> at each of its call sites:
  \<open>run_search_count += 1; daily_search_count += 1; increment_daily_search_count(file)\<close>.
\<close>

definition count_search :: "string \<Rightarrow> run_state \<Rightarrow> run_state" where
  "count_search today s =
     s\<lparr>run_search_count := run_search_count s + 1,
       daily_search_count := daily_search_count s + 1,
       counter := increment_daily_search_count today (counter s),
       calls := calls s @ [WriteCounter today (read_daily_search_count today (counter s) + 1)]\<rparr>"

definition daily_limit_reached :: "config \<Rightarrow> run_state \<Rightarrow> bool" where
  "daily_limit_reached cfg s =
     (case global_daily_search_limit cfg of
        None \<Rightarrow> False
      | Some limit \<Rightarrow> daily_search_count s \<ge> limit)"

definition run_limit_reached :: "config \<Rightarrow> run_state \<Rightarrow> bool" where
  "run_limit_reached cfg s =
     (case per_run_search_limit cfg of
        None \<Rightarrow> False
      | Some limit \<Rightarrow> run_search_count s \<ge> limit)"

section \<open>The watchlist sync (main.py)\<close>

text \<open>\<open>build_radarr_index\<close> (radarr_api.py): keyed by the normalised IMDb id.\<close>

fun index_movies :: "(string \<times> radarr_movie) list \<Rightarrow> radarr_movie list \<Rightarrow> (string \<times> radarr_movie) list" where
  "index_movies index [] = index"
| "index_movies index (movie # rest) =
     (let imdb = norm_imdb movie
      in if imdb \<noteq> [] then index_movies (AList.update imdb movie index) rest
         else index_movies index rest)"

definition build_radarr_index :: "radarr_movie list \<Rightarrow> (string \<times> radarr_movie) list" where
  "build_radarr_index movies = index_movies [] movies"

text \<open>\<open>str(movie.get("tmdbId", "")).strip() if movie.get("tmdbId") else ""\<close>\<close>

definition tmdb_key :: "'a movie_data_scheme \<Rightarrow> string" where
  "tmdb_key movie =
     (case tmdbId movie of
        None \<Rightarrow> []
      | Some v \<Rightarrow> if truthy v then py_strip (py_str v) else [])"

text \<open>\<open>str(m.get("tmdbId", "")).strip()\<close>\<close>

definition tmdb_str :: "'a movie_data_scheme \<Rightarrow> string" where
  "tmdb_str m = py_strip (py_str (dget (tmdbId m) (PyStr [])))"

text \<open>Lines 216 to 223: the record by IMDb id, else by a scan for the TMDB id.\<close>

definition find_in_radarr :: "(string \<times> radarr_movie) list \<Rightarrow> string \<Rightarrow> string \<Rightarrow> radarr_movie option" where
  "find_in_radarr radarr_index imdb_id tmdb_id =
     (if imdb_id \<noteq> [] then map_of radarr_index imdb_id
      else if tmdb_id \<noteq> [] then find (\<lambda>m. tmdb_str m = tmdb_id) (map snd radarr_index)
      else None)"

text \<open>\<open>if friend_tag_id:\<close> holds for an id that is neither \<open>None\<close> nor 0.\<close>

definition friend_tag :: "responses \<Rightarrow> int option" where
  "friend_tag env = (case friend_tag_id env of None \<Rightarrow> None | Some i \<Rightarrow> if i \<noteq> 0 then Some i else None)"

definition add_payload :: "config \<Rightarrow> plex_movie \<Rightarrow> responses \<Rightarrow> int \<Rightarrow> radarr_movie" where
  "add_payload cfg movie env tmdb_id_int =
     \<lparr>title = title movie, ratingKey = None, imdbId = None, tmdbId = Some (PyInt tmdb_id_int),
      year = None, radarr_id = 0, sizeOnDisk = None,
      tags = Some ([watchlist_tag cfg, plex_upgrade_tag cfg]
                   @ (case friend_tag env of None \<Rightarrow> [] | Some i \<Rightarrow> [i])),
      monitored = Some (PyBool True),
      qualityProfileId = Some (PyInt (dget (default_quality_profile cfg) 1)),
      rootFolderPath = Some (PyStr (root_folder cfg)),
      path = None,
      minimumAvailability = Some (PyStr ''announced''),
      searchForMovie = Some (PyBool False)\<rparr>"

text \<open>Lines 230 to 292: the item is not in the library.\<close>

definition handle_new_movie ::
  "config \<Rightarrow> pylib \<Rightarrow> bool \<Rightarrow> string \<Rightarrow> plex_movie \<Rightarrow> responses \<Rightarrow> string \<Rightarrow> run_state \<Rightarrow> run_state" where
  "handle_new_movie cfg lib dry_run today movie env tmdb_id s =
     (if tmdb_id = [] then s
      else case py_int lib tmdb_id of
        None \<Rightarrow> s
      | Some tmdb_id_int \<Rightarrow>
          if dry_run then s
          else
            (let s1 = s\<lparr>calls := calls s @ [AddMovie (add_payload cfg movie env tmdb_id_int)]\<rparr>
             in case add_result env of
                  None \<Rightarrow> s1
                | Some added \<Rightarrow>
                    (let s2 = s1\<lparr>db := mark_movie_as_processed added (processed_at env) (db s1)\<rparr>;
                         search_for_movie = (\<not> daily_limit_reached cfg s2 \<and> \<not> run_limit_reached cfg s2)
                     in if search_for_movie
                        then (let s3 = s2\<lparr>calls := calls s2 @ [TriggerSearch (radarr_id added) (search_result env)]\<rparr>
                              in if search_result env
                                 then count_search today
                                        (s3\<lparr>db := mark_movie_as_searched added (searched_at env) (db s3)\<rparr>)
                                 else s3)
                        else s2)))"

text \<open>Lines 297 to 301: the size test, in gigabytes.\<close>

definition eligible_for_upgrade :: "config \<Rightarrow> radarr_movie \<Rightarrow> bool" where
  "eligible_for_upgrade cfg radarr_movie =
     (let size_bytes = dget (sizeOnDisk radarr_movie) 0;
          movie_size_gb = (if size_bytes \<noteq> 0 then of_int size_bytes / (1024 ^ 3) else 0);
          min_upgrade_gb = dget (min_file_size_gb cfg) 0
      in movie_size_gb < min_upgrade_gb)"

text \<open>
  Lines 308 to 317: the tags of the payload. \<open>list(set(xs))\<close> keeps one copy of each
  element; the order Python gives them is unspecified and nothing reads it.
\<close>

definition payload_tags :: "config \<Rightarrow> radarr_movie \<Rightarrow> responses \<Rightarrow> int list" where
  "payload_tags cfg radarr_movie env =
     (let tags0 = remdups (dget (tags radarr_movie) [] @ [watchlist_tag cfg]);
          tags1 = (if eligible_for_upgrade cfg radarr_movie
                   then remdups (tags0 @ [plex_upgrade_tag cfg])
                   else filter (\<lambda>tag. tag \<noteq> plex_upgrade_tag cfg) tags0)
      in case friend_tag env of
           None \<Rightarrow> tags1
         | Some i \<Rightarrow> if i \<notin> set tags1 then tags1 @ [i] else tags1)"

text \<open>\<open>str.split('/')\<close> and \<open>'/'.join\<close>.\<close>

fun split_slash :: "string \<Rightarrow> string list" where
  "split_slash [] = [[]]"
| "split_slash (c # cs) =
     (if c = CHR ''/'' then [] # split_slash cs
      else (case split_slash cs of
              [] \<Rightarrow> [[c]]
            | part # parts \<Rightarrow> (c # part) # parts))"

fun join_slash :: "string list \<Rightarrow> string" where
  "join_slash [] = []"
| "join_slash [part] = part"
| "join_slash (part # parts) = part @ CHR ''/'' # join_slash parts"

fun movies_index :: "nat \<Rightarrow> string list \<Rightarrow> nat option" where
  "movies_index i [] = None"
| "movies_index i (part # rest) =
     (if py_lower part = ''movies'' \<and> i > 0 then Some i else movies_index (Suc i) rest)"

definition fix_paths_for_radarr :: "config \<Rightarrow> radarr_movie \<Rightarrow> radarr_movie" where
  "fix_paths_for_radarr cfg movie =
     (let p = dget (path movie) []
      in if p = [] then movie\<lparr>rootFolderPath := Some (PyStr (root_folder cfg))\<rparr>
         else (let parts = split_slash p;
                   root = (case movies_index 0 parts of
                             Some i \<Rightarrow> join_slash (take (i + 1) parts) @ ''/''
                           | None \<Rightarrow> [])
               in movie\<lparr>rootFolderPath :=
                          Some (PyStr (if root = [] then root_folder cfg else root))\<rparr>))"

text \<open>Lines 319 to 344: the update payload.\<close>

definition update_payload :: "config \<Rightarrow> radarr_movie \<Rightarrow> responses \<Rightarrow> string \<Rightarrow> string \<Rightarrow> radarr_movie" where
  "update_payload cfg radarr_movie env imdb_id tmdb_id =
     (let payload =
            \<lparr>title = title radarr_movie, ratingKey = None,
             imdbId = (if imdb_id \<noteq> [] then Some imdb_id else None),
             tmdbId = (if tmdb_id \<noteq> [] then Some (PyStr tmdb_id) else None),
             year = None, radarr_id = radarr_id radarr_movie, sizeOnDisk = None,
             tags = Some (payload_tags cfg radarr_movie env),
             monitored = Some (dget (monitored radarr_movie) (PyBool True)),
             qualityProfileId =
               Some (dget (qualityProfileId radarr_movie) (PyInt (dget (default_quality_profile cfg) 1))),
             rootFolderPath = Some (dget (rootFolderPath radarr_movie) (PyStr (root_folder cfg))),
             path = Some (dget (path radarr_movie) []),
             minimumAvailability = Some (dget (minimumAvailability radarr_movie) (PyStr ''released'')),
             searchForMovie = Some (PyBool False)\<rparr>;
          payload1 = (if imdbId payload \<noteq> None \<and> py_strip (dget (imdbId payload) []) = []
                      then payload\<lparr>imdbId := None\<rparr> else payload);
          payload2 = (if tmdbId payload1 \<noteq> None \<and> py_strip (py_str (dget (tmdbId payload1) (PyStr []))) = []
                      then payload1\<lparr>tmdbId := None\<rparr> else payload1)
      in fix_paths_for_radarr cfg payload2)"

text \<open>Lines 364 to 373: the cache record of the item, and whether it was searched before.\<close>

definition sync_db_movie :: "plex_movie \<Rightarrow> string \<Rightarrow> string \<Rightarrow> cache_row list \<Rightarrow> cache_row option" where
  "sync_db_movie movie imdb_id tmdb_id table =
     (if imdb_id \<noteq> [] then get_plex_metadata None (Some imdb_id) None table
      else if tmdb_id \<noteq> [] then get_plex_metadata None None (Some tmdb_id) table
      else (case or_none (ratingKey movie) of
              Some rk \<Rightarrow> get_plex_metadata (Some rk) None None table
            | None \<Rightarrow> None))"

definition searched_before :: "cache_row option \<Rightarrow> bool" where
  "searched_before db_movie =
     (case db_movie of
        None \<Rightarrow> False
      | Some row \<Rightarrow> or_none (last_radarr_search row) \<noteq> None)"

text \<open>Lines 346 to 359: the record is updated only if the payload differs from it.\<close>

definition update_existing ::
  "config \<Rightarrow> bool \<Rightarrow> responses \<Rightarrow> radarr_movie \<Rightarrow> radarr_movie \<Rightarrow> run_state \<Rightarrow> run_state" where
  "update_existing cfg dry_run env radarr_movie payload s =
     (if \<not> dry_run \<and> needs_update radarr_movie payload
      then (let s' = s\<lparr>calls := calls s @ [UpdateMovie (radarr_id radarr_movie) payload]\<rparr>
            in if update_result env
               then s'\<lparr>db := mark_movie_as_processed radarr_movie (processed_at env) (db s')\<rparr>
               else s')
      else s)"

text \<open>
  Lines 361 to 402: the search, if the record is eligible and within the limits. In a
  dry run this part only logs.
\<close>

definition search_existing ::
  "config \<Rightarrow> bool \<Rightarrow> string \<Rightarrow> plex_movie \<Rightarrow> responses \<Rightarrow> string \<Rightarrow> string \<Rightarrow> radarr_movie
     \<Rightarrow> run_state \<Rightarrow> run_state" where
  "search_existing cfg dry_run today movie env imdb_id tmdb_id radarr_movie s =
     (if \<not> dry_run \<and> eligible_for_upgrade cfg radarr_movie
      then (if searched_before (sync_db_movie movie imdb_id tmdb_id (db s)) then s
            else if daily_limit_reached cfg s then s
            else if run_limit_reached cfg s then s
            else (let s2 = s\<lparr>calls := calls s @ [TriggerSearch (radarr_id radarr_movie) (search_result env)]\<rparr>
                  in if search_result env
                     then count_search today
                            (s2\<lparr>db := mark_movie_as_searched movie (searched_at env) (db s2)\<rparr>)
                     else s2))
      else s)"

text \<open>Lines 294 to 402: the item is in the library and lacks the watchlist tag.\<close>

definition handle_existing_movie ::
  "config \<Rightarrow> bool \<Rightarrow> string \<Rightarrow> plex_movie \<Rightarrow> responses \<Rightarrow> string \<Rightarrow> string \<Rightarrow> radarr_movie
     \<Rightarrow> run_state \<Rightarrow> run_state" where
  "handle_existing_movie cfg dry_run today movie env imdb_id tmdb_id radarr_movie s =
     (let payload = update_payload cfg radarr_movie env imdb_id tmdb_id;
          s1 = update_existing cfg dry_run env radarr_movie payload s
      in search_existing cfg dry_run today movie env imdb_id tmdb_id radarr_movie s1)"

text \<open>The body of the loop over the merged watchlist (lines 196 to 402).\<close>

definition process_movie ::
  "config \<Rightarrow> pylib \<Rightarrow> bool \<Rightarrow> string \<Rightarrow> (string \<times> radarr_movie) list \<Rightarrow> plex_movie \<Rightarrow> responses
     \<Rightarrow> run_state \<Rightarrow> run_state" where
  "process_movie cfg lib dry_run today radarr_index movie env s =
     (let s0 = s\<lparr>db := save_plex_metadata movie (db s)\<rparr>;
          imdb_id = norm_imdb movie;
          tmdb_id = tmdb_key movie
      in case find_in_radarr radarr_index imdb_id tmdb_id of
           Some radarr_movie \<Rightarrow>
             if watchlist_tag cfg \<in> set (dget (tags radarr_movie) []) then s0
             else handle_existing_movie cfg dry_run today movie env imdb_id tmdb_id radarr_movie s0
         | None \<Rightarrow> handle_new_movie cfg lib dry_run today movie env tmdb_id s0)"

text \<open>The loop; \<open>env i\<close> holds the outside answers for the item at position \<open>i\<close>.\<close>

fun process_movies ::
  "config \<Rightarrow> pylib \<Rightarrow> bool \<Rightarrow> string \<Rightarrow> (string \<times> radarr_movie) list \<Rightarrow> (nat \<Rightarrow> responses)
     \<Rightarrow> nat \<Rightarrow> plex_movie list \<Rightarrow> run_state \<Rightarrow> run_state" where
  "process_movies cfg lib dry_run today radarr_index env i [] s = s"
| "process_movies cfg lib dry_run today radarr_index env i (movie # rest) s =
     process_movies cfg lib dry_run today radarr_index env (Suc i) rest
       (process_movie cfg lib dry_run today radarr_index movie (env i) s)"

text \<open>
  The inputs of one sync run: the flags, the date, whether the target library answers the
  connection test, the two watchlists as fetched, the records of the library and the
  outside answers.
\<close>

record sync_input =
  sync_dry_run :: bool
  sync_today :: string
  connected :: bool
  personal_list :: "plex_movie list"
  friends_list :: "plex_movie list"
  library :: "radarr_movie list"
  sync_env :: "nat \<Rightarrow> responses"

definition start_state :: "cache_row list \<Rightarrow> counter_file \<Rightarrow> int \<Rightarrow> run_state" where
  "start_state table file daily =
     \<lparr>db = table, counter = file, daily_search_count = daily, run_search_count = 0, calls = []\<rparr>"

definition finish_run :: "string \<Rightarrow> run_state \<Rightarrow> run_state" where
  "finish_run today s =
     s\<lparr>counter := save_daily_search_count today (daily_search_count s),
       calls := calls s @ [WriteCounter today (daily_search_count s)]\<rparr>"

definition process_watchlist ::
  "config \<Rightarrow> pylib \<Rightarrow> sync_input \<Rightarrow> cache_row list \<times> counter_file \<Rightarrow> run_state" where
  "process_watchlist cfg lib inp persisted =
     (case persisted of (table, file) \<Rightarrow>
        if \<not> connected inp then start_state table file 0
        else
          (let combined_list = merge_watchlists (personal_list inp) (friends_list inp);
               radarr_index = build_radarr_index (library inp);
               s0 = start_state table file (read_daily_search_count (sync_today inp) file);
               s1 = process_movies cfg lib (sync_dry_run inp) (sync_today inp) radarr_index
                      (sync_env inp) 0 combined_list s0
           in finish_run (sync_today inp) s1))"

section \<open>The upgrade sweep (scheduled_upgrader.py)\<close>

definition has_upgrade_tag :: "config \<Rightarrow> radarr_movie \<Rightarrow> bool" where
  "has_upgrade_tag cfg movie = (plex_upgrade_tag cfg \<in> set (dget (tags movie) []))"

text \<open>\<open>min_size_bytes = min_size_gb * (1024 ** 3)\<close>\<close>

definition min_size_bytes :: "config \<Rightarrow> rat" where
  "min_size_bytes cfg = dget (min_file_size_gb cfg) 0 * (1024 ^ 3)"

definition meets_threshold :: "config \<Rightarrow> radarr_movie \<Rightarrow> bool" where
  "meets_threshold cfg movie = (of_int (dget (sizeOnDisk movie) 0) \<ge> min_size_bytes cfg)"

text \<open>The payload of \<open>remove_tag_from_movie\<close>: a copy of the record without the tag.\<close>

definition remove_tag_payload :: "radarr_movie \<Rightarrow> int \<Rightarrow> radarr_movie" where
  "remove_tag_payload movie tag =
     movie\<lparr>tags := Some (filter (\<lambda>t. t \<noteq> tag) (dget (tags movie) []))\<rparr>"

text \<open>
  Phase 1, one record: \<open>not movie_id\<close> holds for a record whose id is missing or 0. The
  records come with the outside answers for them.
\<close>

definition clear_tag :: "config \<Rightarrow> bool \<Rightarrow> radarr_movie \<Rightarrow> responses \<Rightarrow> run_state \<Rightarrow> run_state" where
  "clear_tag cfg dry_run movie env s =
     (if radarr_id movie = 0 then s
      else if meets_threshold cfg movie
      then (if has_upgrade_tag cfg movie
            then (if \<not> dry_run
                  then (let s' = s\<lparr>calls := calls s @ [UpdateMovie (radarr_id movie)
                                                         (remove_tag_payload movie (plex_upgrade_tag cfg))]\<rparr>
                        in if update_result env
                           then s'\<lparr>db := mark_movie_as_processed movie (processed_at env) (db s')\<rparr>
                           else s')
                  else s)
            else s)
      else s)"

fun clear_tags :: "config \<Rightarrow> bool \<Rightarrow> (radarr_movie \<times> responses) list \<Rightarrow> run_state \<Rightarrow> run_state" where
  "clear_tags cfg dry_run [] s = s"
| "clear_tags cfg dry_run ((movie, env) # rest) s =
     clear_tags cfg dry_run rest (clear_tag cfg dry_run movie env s)"

definition datetime_min :: datetime where
  "datetime_min = 0"

text \<open>Lines 247 to 263: the time of the last search, \<open>datetime.min\<close> when none is known.\<close>

definition upgrade_db_record :: "cache_row list \<Rightarrow> radarr_movie \<Rightarrow> cache_row option" where
  "upgrade_db_record table movie =
     (let tmdb_id = tmdb_str movie;
          imdb_id = py_strip (dget (imdbId movie) []);
          db_record = (if tmdb_id \<noteq> [] then get_plex_metadata None None (Some tmdb_id) table else None)
      in if db_record = None \<and> imdb_id \<noteq> []
         then get_plex_metadata None (Some imdb_id) None table
         else db_record)"

definition last_search_time :: "pylib \<Rightarrow> cache_row list \<Rightarrow> radarr_movie \<Rightarrow> datetime" where
  "last_search_time lib table movie =
     (case upgrade_db_record table movie of
        None \<Rightarrow> datetime_min
      | Some row \<Rightarrow>
          (case or_none (last_radarr_search row) of
             None \<Rightarrow> datetime_min
           | Some str \<Rightarrow>
               (case fromisoformat lib str of
                  None \<Rightarrow> datetime_min
                | Some t \<Rightarrow> t)))"

text \<open>
  \<open>hours_since_last < 24\<close>, where \<open>hours_since_last\<close> is
  \<open>(datetime.now() - last_search_time).total_seconds() / 3600\<close>.
\<close>

definition searched_recently :: "datetime \<Rightarrow> datetime \<Rightarrow> bool" where
  "searched_recently now_time last_time = (now_time - last_time < 24 * microseconds_per_hour)"

type_synonym candidate = "radarr_movie \<times> int \<times> datetime \<times> responses"

text \<open>Lines 234 to 272: the records that are searched for, in the order of the library.\<close>

fun find_candidates ::
  "config \<Rightarrow> pylib \<Rightarrow> cache_row list \<Rightarrow> (radarr_movie \<times> responses) list \<Rightarrow> candidate list" where
  "find_candidates cfg lib table [] = []"
| "find_candidates cfg lib table ((movie, env) # rest) =
     (if radarr_id movie = 0 then find_candidates cfg lib table rest
      else if meets_threshold cfg movie then find_candidates cfg lib table rest
      else (let last_time = last_search_time lib table movie
            in if searched_recently (now env) last_time then find_candidates cfg lib table rest
               else (movie, dget (sizeOnDisk movie) 0, last_time, env) # find_candidates cfg lib table rest))"

text \<open>\<open>search_candidates.sort(key=lambda x: (x[2], x[1]))\<close>: a stable sort.\<close>

definition candidate_key :: "candidate \<Rightarrow> datetime \<times> int" where
  "candidate_key c = (case c of (movie, size_bytes, last_time, env) \<Rightarrow> (last_time, size_bytes))"

definition prioritize :: "candidate list \<Rightarrow> candidate list" where
  "prioritize cands = sort_key candidate_key cands"

text \<open>
  Lines 288 to 314: the loop over the candidates, with its two \<open>break\<close>s; \<open>i\<close> is the
  index that \<open>enumerate\<close> gives.
\<close>

fun search_loop ::
  "config \<Rightarrow> bool \<Rightarrow> string \<Rightarrow> int \<Rightarrow> nat \<Rightarrow> candidate list \<Rightarrow> run_state \<Rightarrow> run_state" where
  "search_loop cfg dry_run today limit i [] s = s"
| "search_loop cfg dry_run today limit i ((movie, size_bytes, last_time, env) # rest) s =
     (if int i \<ge> limit then s
      else if daily_limit_reached cfg s then s
      else search_loop cfg dry_run today limit (Suc i) rest
             (if \<not> dry_run
              then (let s1 = s\<lparr>calls := calls s @ [TriggerSearch (radarr_id movie) (search_result env)]\<rparr>
                    in if search_result env
                       then count_search today
                              (s1\<lparr>db := mark_movie_as_searched movie (searched_at env) (db s1)\<rparr>)
                       else s1)
              else s\<lparr>run_search_count := run_search_count s + 1\<rparr>))"

text \<open>
  The inputs of one sweep: the flag, the date and the records of the library, each with
  the outside answers for it.
\<close>

record upgrade_input =
  upgrade_dry_run :: bool
  upgrade_today :: string
  all_radarr_movies :: "(radarr_movie \<times> responses) list"

text \<open>
  \<open>job_upgrade\<close>. With \<open>searches_per_run\<close> null, \<open>per_run_search_limit <= 0\<close> raises
  \<open>TypeError\<close>; the handler around the body of the job logs it and the job ends there,
  after phase 1 and before any search.
\<close>

definition job_upgrade ::
  "config \<Rightarrow> pylib \<Rightarrow> upgrade_input \<Rightarrow> cache_row list \<times> counter_file \<Rightarrow> run_state" where
  "job_upgrade cfg lib inp persisted =
     (case persisted of (table, file) \<Rightarrow>
        (let movies_from_radarr = filter (\<lambda>(movie, env). has_upgrade_tag cfg movie) (all_radarr_movies inp)
         in if movies_from_radarr = [] then start_state table file 0
            else
              (let s1 = clear_tags cfg (upgrade_dry_run inp) movies_from_radarr (start_state table file 0);
                   s2 = s1\<lparr>daily_search_count := read_daily_search_count (upgrade_today inp) (counter s1)\<rparr>;
                   sorted = prioritize (find_candidates cfg lib (db s2) movies_from_radarr);
                   search_candidates = (if daily_limit_reached cfg s2 then [] else sorted)
               in case per_run_search_limit cfg of
                    None \<Rightarrow> s2
                  | Some limit \<Rightarrow>
                      (let search_candidates' = (if limit \<le> 0 then [] else search_candidates);
                           s3 = search_loop cfg (upgrade_dry_run inp) (upgrade_today inp) limit 0
                                  search_candidates' s2
                       in finish_run (upgrade_today inp) s3))))"

section \<open>Sequences of runs over the persisted state\<close>

text \<open>
  The scheduler runs the two jobs one after the other, each to completion; the cache and
  the counter file are what a run leaves to the next.
\<close>

datatype job = Sync sync_input | Upgrade upgrade_input

definition run_job :: "config \<Rightarrow> pylib \<Rightarrow> job \<Rightarrow> cache_row list \<times> counter_file \<Rightarrow> run_state" where
  "run_job cfg lib j persisted =
     (case j of
        Sync inp \<Rightarrow> process_watchlist cfg lib inp persisted
      | Upgrade inp \<Rightarrow> job_upgrade cfg lib inp persisted)"

definition persisted_of :: "run_state \<Rightarrow> cache_row list \<times> counter_file" where
  "persisted_of s = (db s, counter s)"

fun run_jobs :: "config \<Rightarrow> pylib \<Rightarrow> job list \<Rightarrow> cache_row list \<times> counter_file \<Rightarrow> run_state list" where
  "run_jobs cfg lib [] persisted = []"
| "run_jobs cfg lib (j # js) persisted =
     (let s = run_job cfg lib j persisted in s # run_jobs cfg lib js (persisted_of s))"

text \<open>
  The calls of \<open>trigger_search\<close> that a run issued, whatever they answered; those among
  them that answered success, which are the ones the counters count; and the counts the
  run wrote to the counter file.
\<close>

fun is_search_call :: "call \<Rightarrow> bool" where
  "is_search_call (TriggerSearch movie_id ok) = True"
| "is_search_call _ = False"

definition searches_issued :: "run_state \<Rightarrow> nat" where
  "searches_issued s = length (filter is_search_call (calls s))"

fun is_successful_search :: "call \<Rightarrow> bool" where
  "is_successful_search (TriggerSearch movie_id ok) = ok"
| "is_successful_search _ = False"

definition searches_succeeded :: "run_state \<Rightarrow> nat" where
  "searches_succeeded s = length (filter is_successful_search (calls s))"

fun counts_written :: "call list \<Rightarrow> int list" where
  "counts_written [] = []"
| "counts_written (WriteCounter d c # rest) = c # counts_written rest"
| "counts_written (_ # rest) = counts_written rest"

definition stored_count :: "counter_file \<Rightarrow> int" where
  "stored_count file = (case file of None \<Rightarrow> 0 | Some (d, c) \<Rightarrow> c)"

section \<open>Example inputs\<close>

definition example_record :: radarr_movie where
  "example_record =
     \<lparr>title = Some ''Heat'', ratingKey = None, imdbId = Some ''tt0113277'',
      tmdbId = Some (PyInt 949), year = Some 1995, radarr_id = 7,
      sizeOnDisk = Some 1000, tags = Some [1, 2],
      monitored = Some (PyBool True), qualityProfileId = Some (PyInt 1),
      rootFolderPath = Some (PyStr ''/data/Movies/''), path = Some ''/data/Movies/Heat (1995)'',
      minimumAvailability = Some (PyStr ''released''), searchForMovie = None\<rparr>"

text \<open>The keys under which the items of the primary list are stored.\<close>

definition primary_keys :: "plex_movie list \<Rightarrow> string set" where
  "primary_keys P = {k. \<exists>p \<in> set P. personal_key p = Some k}"

definition p_heat1 :: plex_movie where
  "p_heat1 = \<lparr>title = Some ''Heat'', ratingKey = Some ''r1'', imdbId = Some '' TT0113277'',
              tmdbId = Some (PyStr ''949''), year = Some 1995, plex_author_id = None\<rparr>"

definition p_heat2 :: plex_movie where
  "p_heat2 = \<lparr>title = Some ''Heat'', ratingKey = Some ''r2'', imdbId = Some ''tt0113277'',
              tmdbId = Some (PyStr ''949''), year = Some 1995, plex_author_id = None\<rparr>"

definition p_nokey :: plex_movie where
  "p_nokey = \<lparr>title = Some ''Lost'', ratingKey = None, imdbId = None,
              tmdbId = None, year = None, plex_author_id = None\<rparr>"

definition p_rk :: plex_movie where
  "p_rk = \<lparr>title = Some ''Ran'', ratingKey = Some ''r9'', imdbId = None,
           tmdbId = Some PyNone, year = Some 1985, plex_author_id = None\<rparr>"

definition f_heat :: plex_movie where
  "f_heat = \<lparr>title = Some ''Heat'', ratingKey = None, imdbId = Some ''tt0113277'',
             tmdbId = None, year = None, plex_author_id = Some ''u1''\<rparr>"

definition f_ronin :: plex_movie where
  "f_ronin = \<lparr>title = Some ''Ronin'', ratingKey = None, imdbId = Some ''tt0122690'',
              tmdbId = None, year = None, plex_author_id = Some ''u1''\<rparr>"

definition example_tags :: "radarr_tag list" where
  "example_tags = [\<lparr>tag_id = 1, label = ''watchlist''\<rparr>, \<lparr>tag_id = 3, label = ''Friend-BOB''\<rparr>]"

definition example_new_tag :: radarr_tag where
  "example_new_tag = \<lparr>tag_id = 5, label = ''friend-Bob''\<rparr>"

definition example_stamp :: string where
  "example_stamp = ''0001-01-02T00:00:00''"

definition example_lib :: pylib where
  "example_lib =
     \<lparr>fromisoformat = (\<lambda>s. if s = example_stamp then Some microseconds_per_day else None),
      py_int = (\<lambda>s. if s = ''949'' then Some 949 else None)\<rparr>"

definition example_row :: cache_row where
  "example_row =
     \<lparr>row_id = 1, row_rating_key = Some ''r1'', row_imdb_id = Some ''tt0113277'',
      row_tmdb_id = Some ''949'', row_title = Some ''Heat'', row_year = Some 1995,
      last_radarr_search = Some example_stamp, last_processed = None\<rparr>"

definition example_cfg :: config where
  "example_cfg =
     \<lparr>max_daily_searches = Some 5, searches_per_run = None, watchlist_tag = 1,
      plex_upgrade_tag = 2, min_file_size_gb = Some 4, default_quality_profile = Some 1,
      root_folder = ''/data/Movies/''\<rparr>"

definition example_env :: "datetime \<Rightarrow> responses" where
  "example_env t =
     \<lparr>friend_tag_id = None, add_result = None, search_result = True, update_result = True,
      processed_at = ''0001-01-05T00:00:00'', searched_at = ''0001-01-05T00:00:01'', now = t\<rparr>"

definition example_row_unparsable :: cache_row where
  "example_row_unparsable = example_row\<lparr>last_radarr_search := Some ''not-a-date''\<rparr>"

definition example_upgrade_input :: upgrade_input where
  "example_upgrade_input =
     \<lparr>upgrade_dry_run = False, upgrade_today = ''0001-01-05'',
      all_radarr_movies = [(example_record, example_env (4 * microseconds_per_day))]\<rparr>"

definition example_record_at_threshold :: radarr_movie where
  "example_record_at_threshold = example_record\<lparr>sizeOnDisk := Some (4 * 1024 ^ 3)\<rparr>"

text \<open>The invariants of a run under a per-run limit \<open>L\<close> and a daily limit \<open>G\<close>.\<close>

definition run_inv :: "int \<Rightarrow> run_state \<Rightarrow> bool" where
  "run_inv L s \<longleftrightarrow> int (searches_succeeded s) = run_search_count s \<and> run_search_count s \<le> max 0 L"

definition daily_inv :: "int \<Rightarrow> string \<Rightarrow> run_state \<Rightarrow> bool" where
  "daily_inv G today s \<longleftrightarrow>
     read_daily_search_count today (counter s) = daily_search_count s
     \<and> daily_search_count s \<le> G
     \<and> stored_count (counter s) \<le> G
     \<and> (\<forall>c \<in> set (counts_written (calls s)). c \<le> G)"

definition counter_ok :: "int \<Rightarrow> run_state \<Rightarrow> bool" where
  "counter_ok G s \<longleftrightarrow>
     stored_count (counter s) \<le> G \<and> (\<forall>c \<in> set (counts_written (calls s)). c \<le> G)"

text \<open>
  A sync run over an empty library in which the one watchlist item is created and searched
  for, and the cache rows it leaves behind.
\<close>

definition example_env_added :: responses where
  "example_env_added = (example_env 0)\<lparr>add_result := Some example_record\<rparr>"

definition example_sync_input :: sync_input where
  "example_sync_input =
     \<lparr>sync_dry_run = False, sync_today = ''0001-01-05'', connected = True,
      personal_list = [p_heat2], friends_list = [], library = [],
      sync_env = (\<lambda>i. example_env_added)\<rparr>"

definition example_saved_row :: cache_row where
  "example_saved_row =
     \<lparr>row_id = 1, row_rating_key = Some ''r2'', row_imdb_id = Some ''tt0113277'',
      row_tmdb_id = Some ''949'', row_title = Some ''Heat'', row_year = Some 1995,
      last_radarr_search = None, last_processed = None\<rparr>"

definition example_searched_row :: cache_row where
  "example_searched_row =
     example_saved_row\<lparr>last_radarr_search := Some ''0001-01-05T00:00:01'',
                        last_processed := Some ''0001-01-05T00:00:00''\<rparr>"

text \<open>
  A library record at the threshold that carries the upgrade tag and not the watchlist tag,
  a sync run that resolves its one item to it, and a sweep over a record at the threshold.
\<close>

definition example_record_unsynced :: radarr_movie where
  "example_record_unsynced = example_record_at_threshold\<lparr>tags := Some [2]\<rparr>"

definition example_sync_existing :: sync_input where
  "example_sync_existing =
     \<lparr>sync_dry_run = False, sync_today = ''0001-01-05'', connected = True,
      personal_list = [p_heat2], friends_list = [], library = [example_record_unsynced],
      sync_env = (\<lambda>i. example_env 0)\<rparr>"

definition example_sweep_at_threshold :: upgrade_input where
  "example_sweep_at_threshold =
     \<lparr>upgrade_dry_run = False, upgrade_today = ''0001-01-05'',
      all_radarr_movies = [(example_record_at_threshold, example_env 0)]\<rparr>"

text \<open>
  The counters of a run count the searches that succeeded: \<open>run_search_count\<close> from
  zero, \<open>daily_search_count\<close> from the count read at the start of the run.
\<close>

definition run_counted :: "run_state \<Rightarrow> bool" where
  "run_counted s \<longleftrightarrow> run_search_count s = int (searches_succeeded s)"

definition daily_counted :: "int \<Rightarrow> run_state \<Rightarrow> bool" where
  "daily_counted base s \<longleftrightarrow> daily_search_count s = base + int (searches_succeeded s)"

text \<open>
  A configuration with a per-run limit of 1 and a daily limit of 2, a second watchlist item
  and library record, and a sync run and a sweep over the two in which every search
  succeeds or every search fails.
\<close>

definition example_cfg_limited :: config where
  "example_cfg_limited = example_cfg\<lparr>max_daily_searches := Some 2, searches_per_run := Some (Some 1)\<rparr>"

definition p_ronin :: plex_movie where
  "p_ronin = \<lparr>title = Some ''Ronin'', ratingKey = Some ''r3'', imdbId = Some ''tt0122690'',
              tmdbId = Some (PyStr ''8195''), year = Some 1998, plex_author_id = None\<rparr>"

definition example_record_ronin :: radarr_movie where
  "example_record_ronin =
     example_record\<lparr>title := Some ''Ronin'', imdbId := Some ''tt0122690'',
                     tmdbId := Some (PyInt 8195), year := Some 1998, radarr_id := 8,
                     sizeOnDisk := Some 2000\<rparr>"

definition example_lib_two :: pylib where
  "example_lib_two =
     example_lib\<lparr>py_int := (\<lambda>s. if s = ''949'' then Some 949
                                else if s = ''8195'' then Some 8195 else None)\<rparr>"

definition example_env_two :: "bool \<Rightarrow> nat \<Rightarrow> responses" where
  "example_env_two ok i =
     (example_env (4 * microseconds_per_day))
       \<lparr>add_result := Some (if i = 0 then example_record else example_record_ronin),
        search_result := ok\<rparr>"

definition example_two_sync :: "bool \<Rightarrow> sync_input" where
  "example_two_sync ok =
     \<lparr>sync_dry_run = False, sync_today = ''0001-01-05'', connected = True,
      personal_list = [p_heat2, p_ronin], friends_list = [], library = [],
      sync_env = example_env_two ok\<rparr>"

definition example_two_sweep :: "bool \<Rightarrow> upgrade_input" where
  "example_two_sweep ok =
     \<lparr>upgrade_dry_run = False, upgrade_today = ''0001-01-05'',
      all_radarr_movies = [(example_record, example_env_two ok 0),
                           (example_record_ronin, example_env_two ok 1)]\<rparr>"

section \<open>Verified properties\<close>

subsection \<open>The payload differ\<close>

lemma py_eq_refl: "py_eq v v"
  by (cases v) auto

lemma keys_differ_refl: "\<not> keys_differ ks X X"
  by (induction ks) auto

lemma keys_differ_iff:
  "keys_differ ks cur new \<longleftrightarrow> (\<exists>k \<in> set ks. py_str (mget cur k) \<noteq> py_str (mget new k))"
  by (induction ks) auto

text \<open>
  C7. \<open>needs_update X X\<close> is false for every record \<open>X\<close>; and whenever one of the five
  compared keys (monitored, qualityProfileId, rootFolderPath, path, minimumAvailability)
  differs between \<open>X\<close> and \<open>Y\<close> after \<open>str\<close> coercion, or the tags differ as sets, or the
  \<open>searchForMovie\<close> sub-option differs, \<open>needs_update X Y\<close> is true.
\<close>

theorem needs_update_reflexive_and_sensitive:
  "\<not> needs_update X X
   \<and> ((py_str (mget X ''monitored'') \<noteq> py_str (mget Y ''monitored'')
       \<or> py_str (mget X ''qualityProfileId'') \<noteq> py_str (mget Y ''qualityProfileId'')
       \<or> py_str (mget X ''rootFolderPath'') \<noteq> py_str (mget Y ''rootFolderPath'')
       \<or> py_str (mget X ''path'') \<noteq> py_str (mget Y ''path'')
       \<or> py_str (mget X ''minimumAvailability'') \<noteq> py_str (mget Y ''minimumAvailability'')
       \<or> set (dget (tags X) []) \<noteq> set (dget (tags Y) [])
       \<or> \<not> py_eq (dget (searchForMovie X) PyNone) (dget (searchForMovie Y) PyNone))
      \<longrightarrow> needs_update X Y)"
proof -
  have refl: "\<not> needs_update X X"
    by (simp add: needs_update_def keys_differ_refl py_eq_refl)
  have sens: "needs_update X Y"
    if "py_str (mget X ''monitored'') \<noteq> py_str (mget Y ''monitored'')
       \<or> py_str (mget X ''qualityProfileId'') \<noteq> py_str (mget Y ''qualityProfileId'')
       \<or> py_str (mget X ''rootFolderPath'') \<noteq> py_str (mget Y ''rootFolderPath'')
       \<or> py_str (mget X ''path'') \<noteq> py_str (mget Y ''path'')
       \<or> py_str (mget X ''minimumAvailability'') \<noteq> py_str (mget Y ''minimumAvailability'')
       \<or> set (dget (tags X) []) \<noteq> set (dget (tags Y) [])
       \<or> \<not> py_eq (dget (searchForMovie X) PyNone) (dget (searchForMovie Y) PyNone)"
    using that unfolding needs_update_def keys_differ_iff keys_to_check_def
    by auto
  from refl sens show ?thesis by blast
qed

theorem needs_update_witness:
  "py_str (mget example_record ''qualityProfileId'')
     \<noteq> py_str (mget (example_record\<lparr>qualityProfileId := Some (PyInt 2)\<rparr>) ''qualityProfileId'')
   \<and> needs_update example_record (example_record\<lparr>qualityProfileId := Some (PyInt 2)\<rparr>)
   \<and> \<not> needs_update example_record example_record"
proof -
  have h: "py_str (mget example_record ''qualityProfileId'')
     \<noteq> py_str (mget (example_record\<lparr>qualityProfileId := Some (PyInt 2)\<rparr>) ''qualityProfileId'')"
    by (simp add: example_record_def mget_def dget_def string_of_int_def string_of_nat.simps
          digit_char_def)
  from h needs_update_reflexive_and_sensitive
          [of example_record "example_record\<lparr>qualityProfileId := Some (PyInt 2)\<rparr>"]
  show ?thesis by blast
qed

subsection \<open>Merging the watchlists\<close>

lemma distinct_merge_personal:
  "distinct (map fst m) \<Longrightarrow> distinct (map fst (merge_personal m P))"
  by (induction P arbitrary: m) (auto simp: distinct_update split: option.splits)

lemma distinct_merge_friends:
  "distinct (map fst m) \<Longrightarrow> distinct (map fst (merge_friends m F))"
  by (induction F arbitrary: m) (auto simp: distinct_update Let_def)

lemma map_of_merge_personal:
  "map_of (merge_personal m P) k =
     (case filter (\<lambda>p. personal_key p = Some k) P of
        [] \<Rightarrow> map_of m k
      | p # ps \<Rightarrow> Some (last (p # ps)))"
proof (induction P arbitrary: m)
  case Nil
  then show ?case by simp
next
  case (Cons a P)
  show ?case
  proof (cases "personal_key a")
    case None
    then show ?thesis using Cons.IH [of m] by simp
  next
    case (Some key)
    then show ?thesis using Cons.IH [of "AList.update key a m"]
      by (auto simp: update_conv' split: list.splits)
  qed
qed

lemma map_of_merge_friends:
  "map_of (merge_friends m F) k =
     (case map_of m k of
        Some v \<Rightarrow> Some v
      | None \<Rightarrow> (if k \<noteq> [] then find (\<lambda>f. norm_imdb f = k) F else None))"
proof (induction F arbitrary: m)
  case Nil
  then show ?case by (simp split: option.splits)
next
  case (Cons a F)
  show ?case
  proof (cases "norm_imdb a \<noteq> [] \<and> norm_imdb a \<notin> fst ` set m")
    case True
    then have none: "map_of m (norm_imdb a) = None"
      by (simp add: map_of_eq_None_iff)
    show ?thesis using True none Cons.IH [of "AList.update (norm_imdb a) a m"]
      by (auto simp: update_conv' Let_def split: option.splits)
  next
    case False
    then have "norm_imdb a = [] \<or> map_of m (norm_imdb a) \<noteq> None"
      by (auto simp: map_of_eq_None_iff)
    then show ?thesis using False Cons.IH [of m]
      by (auto simp: Let_def split: option.splits)
  qed
qed

lemma map_of_merged_dict:
  "map_of (merged_dict P F) k =
     (case filter (\<lambda>p. personal_key p = Some k) P of
        [] \<Rightarrow> (if k \<noteq> [] then find (\<lambda>f. norm_imdb f = k) F else None)
      | p # ps \<Rightarrow> Some (last (p # ps)))"
  by (simp add: merged_dict_def map_of_merge_friends map_of_merge_personal split: list.splits)

lemma distinct_merged_dict: "distinct (map fst (merged_dict P F))"
  by (simp add: merged_dict_def distinct_merge_friends distinct_merge_personal)

lemma merged_entry_iff:
  "(k, x) \<in> set (merged_dict P F) \<longleftrightarrow> map_of (merged_dict P F) k = Some x"
  using distinct_merged_dict [of P F] by simp

lemma primary_keys_filter:
  "k \<in> primary_keys P \<longleftrightarrow> filter (\<lambda>p. personal_key p = Some k) P \<noteq> []"
  by (auto simp: primary_keys_def filter_empty_conv)

lemma personal_key_imdb: "norm_imdb x \<noteq> [] \<Longrightarrow> personal_key x = Some (norm_imdb x)"
  by (simp add: personal_key_def Let_def)

lemma merged_entry_primary:
  assumes "(k, x) \<in> set (merged_dict P F)" and "k \<in> primary_keys P"
  shows "x \<in> set P \<and> personal_key x = Some k"
proof -
  from assms(2) obtain p ps where ps: "filter (\<lambda>p. personal_key p = Some k) P = p # ps"
    by (auto simp: primary_keys_filter neq_Nil_conv)
  with assms(1) have "x = last (p # ps)"
    by (simp add: merged_entry_iff map_of_merged_dict)
  then have "x \<in> set (filter (\<lambda>p. personal_key p = Some k) P)"
    using ps last_in_set [of "p # ps"] by simp
  then show ?thesis by simp
qed

lemma merged_entry_secondary:
  assumes "(k, x) \<in> set (merged_dict P F)" and "k \<notin> primary_keys P"
  shows "x \<in> set F \<and> norm_imdb x = k \<and> k \<noteq> [] \<and> personal_key x = Some k"
proof -
  from assms(2) have "filter (\<lambda>p. personal_key p = Some k) P = []"
    by (simp add: primary_keys_filter)
  with assms(1) have f: "k \<noteq> []" "find (\<lambda>f. norm_imdb f = k) F = Some x"
    by (auto simp: merged_entry_iff map_of_merged_dict split: if_splits)
  then have "x \<in> set F \<and> norm_imdb x = k"
    by (auto simp: find_Some_iff)
  with f(1) show ?thesis by (auto simp: personal_key_imdb)
qed

lemma merged_primary_key_present:
  assumes "p \<in> set P" and "personal_key p = Some k"
  shows "\<exists>q \<in> set P. personal_key q = Some k \<and> (k, q) \<in> set (merged_dict P F)
           \<and> q = last (filter (\<lambda>p. personal_key p = Some k) P)"
proof -
  from assms have ne: "filter (\<lambda>p. personal_key p = Some k) P \<noteq> []"
    by (auto simp: filter_empty_conv)
  then obtain a as where as: "filter (\<lambda>p. personal_key p = Some k) P = a # as"
    by (auto simp: neq_Nil_conv)
  let ?q = "last (filter (\<lambda>p. personal_key p = Some k) P)"
  have "?q \<in> set (filter (\<lambda>p. personal_key p = Some k) P)"
    using ne by (rule last_in_set)
  moreover have "(k, ?q) \<in> set (merged_dict P F)"
    using as by (simp add: merged_entry_iff map_of_merged_dict)
  ultimately show ?thesis by auto
qed


lemmas string_eval = py_lower_def lower_char_def py_strip_def is_space_def dget_def norm_imdb_def

lemma example_norm_imdb:
  "norm_imdb p_heat1 = ''tt0113277''" "norm_imdb p_heat2 = ''tt0113277''"
  "norm_imdb p_nokey = []" "norm_imdb p_rk = []"
  "norm_imdb f_heat = ''tt0113277''" "norm_imdb f_ronin = ''tt0122690''"
  by (simp_all add: string_eval p_heat1_def p_heat2_def p_nokey_def p_rk_def f_heat_def f_ronin_def)

lemma example_personal_key:
  "personal_key p_heat1 = Some ''tt0113277''" "personal_key p_heat2 = Some ''tt0113277''"
  "personal_key p_nokey = None" "personal_key p_rk = Some ''r9''"
  by (simp_all add: personal_key_def example_norm_imdb)
     (simp_all add: p_nokey_def p_rk_def)



lemma merged_entry_key:
  "(k, x) \<in> set (merged_dict P F) \<Longrightarrow> personal_key x = Some k"
  using merged_entry_primary merged_entry_secondary by (cases "k \<in> primary_keys P") blast+

lemma merged_no_shared_imdb:
  assumes "i < j" and "j < length (merge_watchlists P F)"
    and "norm_imdb (merge_watchlists P F ! i) \<noteq> []"
  shows "norm_imdb (merge_watchlists P F ! i) \<noteq> norm_imdb (merge_watchlists P F ! j)"
proof
  let ?D = "merged_dict P F"
  assume eq: "norm_imdb (merge_watchlists P F ! i) = norm_imdb (merge_watchlists P F ! j)"
  from assms have len: "i < length ?D" "j < length ?D"
    by (simp_all add: merge_watchlists_def)
  then have "(fst (?D ! i), snd (?D ! i)) \<in> set ?D" "(fst (?D ! j), snd (?D ! j)) \<in> set ?D"
    by simp_all
  then have "personal_key (snd (?D ! i)) = Some (fst (?D ! i))"
    "personal_key (snd (?D ! j)) = Some (fst (?D ! j))"
    by (simp_all add: merged_entry_key)
  moreover from len have "merge_watchlists P F ! i = snd (?D ! i)" "merge_watchlists P F ! j = snd (?D ! j)"
    by (simp_all add: merge_watchlists_def)
  ultimately have "fst (?D ! i) = fst (?D ! j)"
    using assms(3) eq by (simp add: personal_key_imdb)
  then have "map fst ?D ! i = map fst ?D ! j"
    using len by simp
  moreover have "i < length (map fst ?D)" "j < length (map fst ?D)"
    using len by simp_all
  ultimately have "i = j"
    using distinct_merged_dict [of P F] nth_eq_iff_index_eq by blast
  with assms(1) show False by simp
qed

text \<open>
  C6, as amended. No two items of the output share the same normalised IMDb id (for
  items that have one). For every item of the primary list that has a key, the last item
  of the primary list with that key is in the output; so an item of the primary list
  whose key no other item of the primary list has is in the output. An earlier item of
  the primary list is replaced by a later one with the same key.
\<close>

theorem merge_watchlists_unique_last_primary_kept:
  "(\<forall>i j. i < j \<and> j < length (merge_watchlists P F)
          \<and> norm_imdb (merge_watchlists P F ! i) \<noteq> []
        \<longrightarrow> norm_imdb (merge_watchlists P F ! i) \<noteq> norm_imdb (merge_watchlists P F ! j))
   \<and> (\<forall>p \<in> set P. \<forall>k. personal_key p = Some k \<longrightarrow>
         last (filter (\<lambda>q. personal_key q = Some k) P) \<in> set (merge_watchlists P F))
   \<and> (\<forall>p \<in> set P. \<forall>k. personal_key p = Some k
          \<and> (\<forall>q \<in> set P. personal_key q = Some k \<longrightarrow> q = p)
        \<longrightarrow> p \<in> set (merge_watchlists P F))"
proof -
  have kept: "last (filter (\<lambda>q. personal_key q = Some k) P) \<in> set (merge_watchlists P F)"
    if "p \<in> set P" "personal_key p = Some k" for p k
  proof -
    from merged_primary_key_present [OF that, of F]
    have "(k, last (filter (\<lambda>q. personal_key q = Some k) P)) \<in> set (merged_dict P F)"
      by blast
    then show ?thesis by (force simp: merge_watchlists_def)
  qed
  have only: "p \<in> set (merge_watchlists P F)"
    if "p \<in> set P" "personal_key p = Some k"
      "\<forall>q \<in> set P. personal_key q = Some k \<longrightarrow> q = p" for p k
  proof -
    from merged_primary_key_present [OF that(1,2), of F] obtain q
      where "q \<in> set P" "personal_key q = Some k" "(k, q) \<in> set (merged_dict P F)" by blast
    with that(3) have "(k, p) \<in> set (merged_dict P F)" by auto
    then show ?thesis by (force simp: merge_watchlists_def)
  qed
  from merged_no_shared_imdb kept only show ?thesis by blast
qed

text \<open>
  C6, as stated, fails: of two different items of the primary list with the same IMDb id,
  the first has a key and is not in the output.
\<close>

theorem merge_watchlists_primary_replaced:
  "p_heat1 \<in> set [p_heat1, p_heat2]
   \<and> personal_key p_heat1 = Some ''tt0113277''
   \<and> merge_watchlists [p_heat1, p_heat2] [] = [p_heat2]
   \<and> p_heat1 \<notin> set (merge_watchlists [p_heat1, p_heat2] [])"
proof -
  have m: "merge_watchlists [p_heat1, p_heat2] [] = [p_heat2]"
    by (simp add: merge_watchlists_def merged_dict_def example_personal_key)
  have "p_heat1 \<noteq> p_heat2"
    by (simp add: p_heat1_def p_heat2_def)
  with m show ?thesis by (simp add: example_personal_key)
qed

theorem merge_watchlists_unique_last_primary_kept_witness:
  "p_rk \<in> set [p_heat1, p_nokey, p_rk, p_heat2] \<and> personal_key p_rk = Some ''r9''
   \<and> p_rk \<in> set (merge_watchlists [p_heat1, p_nokey, p_rk, p_heat2] [f_heat, f_ronin])
   \<and> last (filter (\<lambda>q. personal_key q = Some ''tt0113277'') [p_heat1, p_nokey, p_rk, p_heat2]) = p_heat2
   \<and> p_heat2 \<in> set (merge_watchlists [p_heat1, p_nokey, p_rk, p_heat2] [f_heat, f_ronin])"
proof -
  let ?P = "[p_heat1, p_nokey, p_rk, p_heat2]" and ?F = "[f_heat, f_ronin]"
  have a: "p_rk \<in> set ?P" "personal_key p_rk = Some ''r9''"
    by (simp_all add: example_personal_key)
  have b: "\<forall>q \<in> set ?P. personal_key q = Some ''r9'' \<longrightarrow> q = p_rk"
    by (simp add: example_personal_key)
  have l: "last (filter (\<lambda>q. personal_key q = Some ''tt0113277'') ?P) = p_heat2"
    by (simp add: example_personal_key)
  have c: "p_heat1 \<in> set ?P" "personal_key p_heat1 = Some ''tt0113277''"
    by (simp_all add: example_personal_key)
  from merge_watchlists_unique_last_primary_kept [of ?P ?F] a b
  have r1: "p_rk \<in> set (merge_watchlists ?P ?F)" by blast
  from merge_watchlists_unique_last_primary_kept [of ?P ?F] c
  have "last (filter (\<lambda>q. personal_key q = Some ''tt0113277'') ?P) \<in> set (merge_watchlists ?P ?F)"
    by blast
  with l have r2: "p_heat2 \<in> set (merge_watchlists ?P ?F)" by simp
  from a r1 l r2 show ?thesis by simp
qed

subsection \<open>The tag cache\<close>

lemma cache_of_tags_miss:
  "\<forall>t \<in> set ts. py_lower (label t) \<noteq> k \<Longrightarrow> map_of (cache_of_tags c ts) k = map_of c k"
  by (induction ts arbitrary: c) (auto simp: update_conv')

lemma cache_of_tags_hit:
  "\<exists>t \<in> set ts. py_lower (label t) = k \<Longrightarrow>
     \<exists>t \<in> set ts. py_lower (label t) = k \<and> map_of (cache_of_tags c ts) k = Some (tag_id t)"
proof (induction ts arbitrary: c)
  case Nil
  then show ?case by simp
next
  case (Cons a ts)
  show ?case
  proof (cases "\<exists>t \<in> set ts. py_lower (label t) = k")
    case True
    from Cons.IH [OF True, of "AList.update (py_lower (label a)) (tag_id a) c"]
    show ?thesis by auto
  next
    case False
    with Cons.prems have a: "py_lower (label a) = k" by auto
    from False have "map_of (cache_of_tags (AList.update k (tag_id a) c) ts) k
        = map_of (AList.update k (tag_id a) c) k"
      by (intro cache_of_tags_miss) auto
    with a show ?thesis by (auto simp: update_conv')
  qed
qed

lemma map_of_Some_nonempty: "map_of c k = Some i \<Longrightarrow> c \<noteq> []"
  by auto

lemma get_or_create_tag_listed:
  assumes "cache0 = None" "listing = Some ts" "\<exists>t \<in> set ts. py_lower (label t) = py_lower name"
  shows "\<exists>t \<in> set ts. py_lower (label t) = py_lower name
           \<and> get_or_create_tag name listing created cache0
               = (Some (tag_id t), Some (cache_of_tags [] ts), [ListTags])"
proof -
  from cache_of_tags_hit [OF assms(3), of "[]"] obtain t where
    t: "t \<in> set ts" "py_lower (label t) = py_lower name"
       "map_of (cache_of_tags [] ts) (py_lower name) = Some (tag_id t)" by blast
  from t(3) have "cache_of_tags [] ts \<noteq> []" by (rule map_of_Some_nonempty)
  with t assms(1,2) have "get_or_create_tag name listing created cache0
               = (Some (tag_id t), Some (cache_of_tags [] ts), [ListTags])"
    by (simp add: get_or_create_tag_def get_all_tags_def)
  with t show ?thesis by blast
qed

lemma get_or_create_tag_cached:
  assumes "cache0 = Some c" "map_of c (py_lower name) = Some i"
  shows "get_or_create_tag name listing created cache0 = (Some i, cache0, [])"
  using assms map_of_Some_nonempty [OF assms(2)]
  by (simp add: get_or_create_tag_def)

lemma get_or_create_tag_creates_on_miss:
  assumes "CreateTag name \<in> set (snd (snd (get_or_create_tag name listing created cache0)))"
  shows "(\<forall>c. cache0 = Some c \<longrightarrow> map_of c (py_lower name) = None)
       \<and> (\<forall>ts. cache0 = None \<and> listing = Some ts \<longrightarrow> (\<forall>t \<in> set ts. py_lower (label t) \<noteq> py_lower name))"
proof (intro conjI allI impI)
  fix c assume c: "cache0 = Some c"
  show "map_of c (py_lower name) = None"
  proof (rule ccontr)
    assume "map_of c (py_lower name) \<noteq> None"
    then obtain i where "map_of c (py_lower name) = Some i" by auto
    from get_or_create_tag_cached [OF c this] assms show False by simp
  qed
next
  fix ts assume h: "cache0 = None \<and> listing = Some ts"
  show "\<forall>t \<in> set ts. py_lower (label t) \<noteq> py_lower name"
  proof (rule ccontr)
    assume "\<not> (\<forall>t \<in> set ts. py_lower (label t) \<noteq> py_lower name)"
    then have "\<exists>t \<in> set ts. py_lower (label t) = py_lower name" by blast
    from get_or_create_tag_listed [OF _ _ this, of cache0 listing created] h assms
    show False by auto
  qed
qed

lemma get_or_create_tag_created_cached:
  assumes "CreateTag name \<in> set (snd (snd (get_or_create_tag name listing created cache0)))"
    and "created = Some new" and "cache0 \<noteq> None \<or> listing \<noteq> None"
  shows "fst (get_or_create_tag name listing created cache0) = Some (tag_id new)
       \<and> (\<exists>c'. fst (snd (get_or_create_tag name listing created cache0)) = Some c'
              \<and> map_of c' (py_lower name) = Some (tag_id new))"
  using assms
  by (auto simp: get_or_create_tag_def get_all_tags_def create_tag_def update_conv'
      split: option.splits if_splits)

lemma get_or_create_tag_unlisted:
  assumes "cache0 = None" "listing = None" "created = Some new"
  shows "get_or_create_tag name listing created cache0
           = (Some (tag_id new), None, [ListTags, CreateTag name])"
  using assms by (simp add: get_or_create_tag_def get_all_tags_def create_tag_def)

text \<open>
  C10, as amended. The lookup of \<open>get_or_create_tag\<close> ignores case. On first use with a
  listing that succeeds, a tag of the listing whose label equals the requested label
  ignoring case has its id returned, with no creation call. With a populated cache that
  holds the lower-cased label, the cached id is returned with no call at all. A creation
  call is issued only when no tag known to the cache matches ignoring case. When the
  creation succeeds and the cache is populated, the new id is returned and the cache maps
  the lower-cased label to it. When the listing fails, the cache stays unpopulated: the
  creation call is issued and its id is returned without being cached.
\<close>

theorem get_or_create_tag_case_insensitive:
  "(cache0 = None \<and> listing = Some ts \<and> (\<exists>t \<in> set ts. py_lower (label t) = py_lower name)
      \<longrightarrow> (\<exists>t \<in> set ts. py_lower (label t) = py_lower name
            \<and> get_or_create_tag name listing created cache0
                = (Some (tag_id t), Some (cache_of_tags [] ts), [ListTags])))
   \<and> (cache0 = Some c \<and> map_of c (py_lower name) = Some i
      \<longrightarrow> get_or_create_tag name listing created cache0 = (Some i, cache0, []))
   \<and> (CreateTag name \<in> set (snd (snd (get_or_create_tag name listing created cache0)))
      \<longrightarrow> (\<forall>c. cache0 = Some c \<longrightarrow> map_of c (py_lower name) = None)
        \<and> (\<forall>ts. cache0 = None \<and> listing = Some ts
              \<longrightarrow> (\<forall>t \<in> set ts. py_lower (label t) \<noteq> py_lower name)))
   \<and> (CreateTag name \<in> set (snd (snd (get_or_create_tag name listing created cache0)))
        \<and> created = Some new \<and> (cache0 \<noteq> None \<or> listing \<noteq> None)
      \<longrightarrow> fst (get_or_create_tag name listing created cache0) = Some (tag_id new)
        \<and> (\<exists>c'. fst (snd (get_or_create_tag name listing created cache0)) = Some c'
               \<and> map_of c' (py_lower name) = Some (tag_id new)))
   \<and> (cache0 = None \<and> listing = None \<and> created = Some new
      \<longrightarrow> get_or_create_tag name listing created cache0
            = (Some (tag_id new), None, [ListTags, CreateTag name]))"
  using get_or_create_tag_listed [of cache0 listing ts name created]
    get_or_create_tag_cached [of cache0 c name i listing created]
    get_or_create_tag_creates_on_miss [of name listing created cache0]
    get_or_create_tag_created_cached [of name listing created cache0 new]
    get_or_create_tag_unlisted [of cache0 listing created new name]
  by blast

theorem get_or_create_tag_case_insensitive_witness:
  "(\<exists>t \<in> set example_tags. py_lower (label t) = py_lower ''friend-bob'')
   \<and> (\<exists>t \<in> set example_tags. py_lower (label t) = py_lower ''friend-bob''
        \<and> get_or_create_tag ''friend-bob'' (Some example_tags) None None
            = (Some (tag_id t), Some (cache_of_tags [] example_tags), [ListTags]))
   \<and> map_of [(''friend-bob'', 3::int)] (py_lower ''Friend-Bob'') = Some 3
   \<and> get_or_create_tag ''Friend-Bob'' None None (Some [(''friend-bob'', 3)])
        = (Some 3, Some [(''friend-bob'', 3)], [])"
proof -
  have a: "\<exists>t \<in> set example_tags. py_lower (label t) = py_lower ''friend-bob''"
    by (simp add: example_tags_def py_lower_def lower_char_def)
  have b: "map_of [(''friend-bob'', 3::int)] (py_lower ''Friend-Bob'') = Some 3"
    by (simp add: py_lower_def lower_char_def)
  from a get_or_create_tag_case_insensitive
         [of None "Some example_tags" example_tags "''friend-bob''" None]
  have r1: "\<exists>t \<in> set example_tags. py_lower (label t) = py_lower ''friend-bob''
        \<and> get_or_create_tag ''friend-bob'' (Some example_tags) None None
            = (Some (tag_id t), Some (cache_of_tags [] example_tags), [ListTags])"
    by blast
  from b get_or_create_tag_case_insensitive
         [of "Some [(''friend-bob'', 3)]" None _ "''Friend-Bob''" None "[(''friend-bob'', 3)]" 3]
  have r2: "get_or_create_tag ''Friend-Bob'' None None (Some [(''friend-bob'', 3)])
        = (Some 3, Some [(''friend-bob'', 3)], [])"
    by blast
  from a b r1 r2 show ?thesis by blast
qed

text \<open>
  C10, as stated, fails: when the listing fails on first use, a new tag is created and
  the cache is not updated with its id.
\<close>

theorem get_or_create_tag_unlisted_not_cached:
  "get_or_create_tag ''friend-Bob'' None (Some example_new_tag) None
     = (Some 5, None, [ListTags, CreateTag ''friend-Bob''])"
  by (simp add: get_or_create_tag_def get_all_tags_def create_tag_def example_new_tag_def)

subsection \<open>The cooldown checks\<close>

lemma int_le_div_iff:
  fixes i j k :: int
  assumes "0 < k"
  shows "i \<le> j div k \<longleftrightarrow> i * k \<le> j"
proof
  assume "i \<le> j div k"
  then have "i * k \<le> (j div k) * k"
    using assms by (simp add: mult_right_mono)
  also have "\<dots> \<le> j"
  proof -
    have "j = (j div k) * k + j mod k" by simp
    moreover have "0 \<le> j mod k" using assms by simp
    ultimately show ?thesis by linarith
  qed
  finally show "i * k \<le> j" .
next
  assume "i * k \<le> j"
  from zdiv_mono1 [OF this assms] assms show "i \<le> j div k" by simp
qed

lemma timedelta_days_ge7: "timedelta_days d \<ge> 7 \<longleftrightarrow> d \<ge> 7 * microseconds_per_day"
  unfolding timedelta_days_def microseconds_per_day_def
  by (simp add: int_le_div_iff)

lemma should_trigger_search_parsed:
  assumes "search_db_movie table movie = Some row" "last_radarr_search row = Some s" "s \<noteq> []"
    "fromisoformat lib s = Some t"
  shows "should_trigger_search lib now_time table movie \<longleftrightarrow> now_time - t \<ge> 7 * microseconds_per_day"
  using assms by (simp add: should_trigger_search_def or_none_def timedelta_days_ge7)

lemma last_search_time_parsed:
  assumes "upgrade_db_record table movie = Some row" "last_radarr_search row = Some s" "s \<noteq> []"
    "fromisoformat lib s = Some t"
  shows "last_search_time lib table movie = t"
  using assms by (simp add: last_search_time_def or_none_def)

text \<open>
  C2. When the cache record that \<open>should_trigger_search\<close> finds for a movie has a
  last-search timestamp that parses to \<open>t\<close>, the check is false when \<open>t\<close> is 3 days before
  now and true when it is 8 days before now (it is true exactly from 7 days on). In the
  upgrade sweep, a record below the size threshold whose last search was 20 hours ago is
  skipped (it is no candidate), and one whose last search was 25 hours ago is a candidate
  (it is skipped exactly when fewer than 24 hours have passed).
\<close>

theorem cooldown_checks:
  "(search_db_movie table movie = Some row \<and> last_radarr_search row = Some s \<and> s \<noteq> []
      \<and> fromisoformat lib s = Some t
    \<longrightarrow> (now_time - t = 3 * microseconds_per_day \<longrightarrow> \<not> should_trigger_search lib now_time table movie)
      \<and> (now_time - t = 8 * microseconds_per_day \<longrightarrow> should_trigger_search lib now_time table movie)
      \<and> (should_trigger_search lib now_time table movie \<longleftrightarrow> now_time - t \<ge> 7 * microseconds_per_day))
   \<and> (upgrade_db_record table rmovie = Some row \<and> last_radarr_search row = Some s \<and> s \<noteq> []
      \<and> fromisoformat lib s = Some t \<and> radarr_id rmovie \<noteq> 0 \<and> \<not> meets_threshold cfg rmovie
    \<longrightarrow> (now env - t = 20 * microseconds_per_hour
          \<longrightarrow> find_candidates cfg lib table ((rmovie, env) # rest) = find_candidates cfg lib table rest)
      \<and> (now env - t = 25 * microseconds_per_hour
          \<longrightarrow> find_candidates cfg lib table ((rmovie, env) # rest)
                = (rmovie, dget (sizeOnDisk rmovie) 0, t, env) # find_candidates cfg lib table rest)
      \<and> (find_candidates cfg lib table ((rmovie, env) # rest) = find_candidates cfg lib table rest
          \<longleftrightarrow> now env - t < 24 * microseconds_per_hour))"
proof -
  have a: "(now_time - t = 3 * microseconds_per_day \<longrightarrow> \<not> should_trigger_search lib now_time table movie)
      \<and> (now_time - t = 8 * microseconds_per_day \<longrightarrow> should_trigger_search lib now_time table movie)
      \<and> (should_trigger_search lib now_time table movie \<longleftrightarrow> now_time - t \<ge> 7 * microseconds_per_day)"
    if "search_db_movie table movie = Some row" "last_radarr_search row = Some s" "s \<noteq> []"
      "fromisoformat lib s = Some t"
    using should_trigger_search_parsed [OF that, of now_time]
    by (simp add: microseconds_per_day_def)
  have b: "(now env - t = 20 * microseconds_per_hour
          \<longrightarrow> find_candidates cfg lib table ((rmovie, env) # rest) = find_candidates cfg lib table rest)
      \<and> (now env - t = 25 * microseconds_per_hour
          \<longrightarrow> find_candidates cfg lib table ((rmovie, env) # rest)
                = (rmovie, dget (sizeOnDisk rmovie) 0, t, env) # find_candidates cfg lib table rest)
      \<and> (find_candidates cfg lib table ((rmovie, env) # rest) = find_candidates cfg lib table rest
          \<longleftrightarrow> now env - t < 24 * microseconds_per_hour)"
    if "upgrade_db_record table rmovie = Some row" "last_radarr_search row = Some s" "s \<noteq> []"
      "fromisoformat lib s = Some t" "radarr_id rmovie \<noteq> 0" "\<not> meets_threshold cfg rmovie"
    using last_search_time_parsed [OF that(1-4)] that(5,6)
    by (simp add: searched_recently_def microseconds_per_hour_def Let_def)
  from a b show ?thesis by blast
qed

lemma example_search_db_movie: "search_db_movie [example_row] p_heat1 = Some example_row"
  by (simp add: search_db_movie_def get_plex_metadata_def clean_id_def row_matches_def
        dget_def py_strip_def is_space_def p_heat1_def example_row_def)

lemma example_tmdb_str: "tmdb_str example_record = ''949''"
  by (simp add: tmdb_str_def example_record_def dget_def string_of_int_def string_of_nat.simps
        digit_char_def py_strip_def is_space_def)

lemma example_upgrade_db_record: "upgrade_db_record [example_row] example_record = Some example_row"
  by (simp add: upgrade_db_record_def example_tmdb_str get_plex_metadata_def clean_id_def
        row_matches_def py_strip_def is_space_def)
     (simp add: example_row_def)

lemma example_below_threshold: "\<not> meets_threshold example_cfg example_record"
  by (simp add: meets_threshold_def min_size_bytes_def example_cfg_def example_record_def dget_def)

theorem cooldown_checks_witness:
  "\<not> should_trigger_search example_lib (4 * microseconds_per_day) [example_row] p_heat1
   \<and> should_trigger_search example_lib (9 * microseconds_per_day) [example_row] p_heat1
   \<and> find_candidates example_cfg example_lib [example_row]
        [(example_record, example_env (microseconds_per_day + 20 * microseconds_per_hour))] = []
   \<and> find_candidates example_cfg example_lib [example_row]
        [(example_record, example_env (microseconds_per_day + 25 * microseconds_per_hour))]
      = [(example_record, 1000, microseconds_per_day,
          example_env (microseconds_per_day + 25 * microseconds_per_hour))]"
proof -
  have row: "last_radarr_search example_row = Some example_stamp" "example_stamp \<noteq> []"
    "fromisoformat example_lib example_stamp = Some microseconds_per_day"
    by (simp_all add: example_row_def example_stamp_def example_lib_def)
  have rec: "radarr_id example_record \<noteq> 0" "dget (sizeOnDisk example_record) 0 = 1000"
    by (simp_all add: example_record_def dget_def)
  have n: "now (example_env t) = t" for t
    by (simp add: example_env_def)
  have d3: "4 * microseconds_per_day - microseconds_per_day = 3 * microseconds_per_day"
    and d8: "9 * microseconds_per_day - microseconds_per_day = 8 * microseconds_per_day"
    by simp_all
  from cooldown_checks [of "[example_row]" p_heat1 example_row example_stamp example_lib
      microseconds_per_day "4 * microseconds_per_day"]
    example_search_db_movie row d3
  have r1: "\<not> should_trigger_search example_lib (4 * microseconds_per_day) [example_row] p_heat1"
    by blast
  from cooldown_checks [of "[example_row]" p_heat1 example_row example_stamp example_lib
      microseconds_per_day "9 * microseconds_per_day"]
    example_search_db_movie row d8
  have r2: "should_trigger_search example_lib (9 * microseconds_per_day) [example_row] p_heat1"
    by blast
  have h20: "now (example_env (microseconds_per_day + 20 * microseconds_per_hour)) - microseconds_per_day
      = 20 * microseconds_per_hour"
    and h25: "now (example_env (microseconds_per_day + 25 * microseconds_per_hour)) - microseconds_per_day
      = 25 * microseconds_per_hour"
    by (simp_all add: n)
  let ?e20 = "example_env (microseconds_per_day + 20 * microseconds_per_hour)"
  let ?e25 = "example_env (microseconds_per_day + 25 * microseconds_per_hour)"
  from cooldown_checks [where table = "[example_row]" and row = example_row and s = example_stamp
      and lib = example_lib and t = microseconds_per_day and rmovie = example_record
      and cfg = example_cfg and rest = "[]" and env = ?e20]
    example_upgrade_db_record row rec(1) example_below_threshold h20
  have "find_candidates example_cfg example_lib [example_row] [(example_record, ?e20)]
      = find_candidates example_cfg example_lib [example_row] []"
    by blast
  then have r3: "find_candidates example_cfg example_lib [example_row] [(example_record, ?e20)] = []"
    by simp
  from cooldown_checks [where table = "[example_row]" and row = example_row and s = example_stamp
      and lib = example_lib and t = microseconds_per_day and rmovie = example_record
      and cfg = example_cfg and rest = "[]" and env = ?e25]
    example_upgrade_db_record row rec(1) example_below_threshold h25
  have "find_candidates example_cfg example_lib [example_row] [(example_record, ?e25)]
      = (example_record, dget (sizeOnDisk example_record) 0, microseconds_per_day, ?e25)
        # find_candidates example_cfg example_lib [example_row] []"
    by blast
  then have r4: "find_candidates example_cfg example_lib [example_row] [(example_record, ?e25)]
      = [(example_record, 1000, microseconds_per_day, ?e25)]"
    by (simp add: rec(2))
  from r1 r2 r3 r4 show ?thesis by blast
qed

subsection \<open>Data-integrity faults\<close>

lemma handle_new_movie_unidentified:
  "tmdb_id = [] \<or> py_int lib tmdb_id = None \<Longrightarrow>
     handle_new_movie cfg lib dry_run today movie env tmdb_id s = s"
  by (auto simp: handle_new_movie_def)

lemma process_movie_unidentified:
  assumes "find_in_radarr radarr_index (norm_imdb movie) (tmdb_key movie) = None"
    and "tmdb_key movie = [] \<or> py_int lib (tmdb_key movie) = None"
  shows "process_movie cfg lib dry_run today radarr_index movie env s
           = s\<lparr>db := save_plex_metadata movie (db s)\<rparr>"
  using assms by (simp add: process_movie_def handle_new_movie_unidentified)

lemma should_trigger_search_unparsable:
  assumes "search_db_movie table movie = Some row" "last_radarr_search row = Some str" "str \<noteq> []"
    "fromisoformat lib str = None"
  shows "should_trigger_search lib now_time table movie"
  using assms by (simp add: should_trigger_search_def or_none_def)

lemma last_search_time_unparsable:
  assumes "upgrade_db_record table movie = Some row" "last_radarr_search row = Some str" "str \<noteq> []"
    "fromisoformat lib str = None"
  shows "last_search_time lib table movie = datetime_min"
  using assms by (simp add: last_search_time_def or_none_def)

text \<open>
  C8, as amended. A data-integrity fault is not fatal and the run continues. An item that
  is not in the library and has no TMDB id, or one that \<open>int\<close> refuses, is skipped rather
  than created: the loop body only saves its metadata, issues no call, and the loop goes
  on with the remaining items. An unparsable last-search timestamp does not skip the
  item: \<open>should_trigger_search\<close> is true for it, and the upgrade sweep takes
  \<open>datetime.min\<close> as the time of its last search, so that a record below the size
  threshold stays a candidate for a search.
\<close>

theorem data_integrity_faults:
  "(find_in_radarr radarr_index (norm_imdb movie) (tmdb_key movie) = None
      \<and> (tmdb_key movie = [] \<or> py_int lib (tmdb_key movie) = None)
    \<longrightarrow> process_movie cfg lib dry_run today radarr_index movie (envs i) s
          = s\<lparr>db := save_plex_metadata movie (db s)\<rparr>
      \<and> process_movies cfg lib dry_run today radarr_index envs i (movie # rest) s
          = process_movies cfg lib dry_run today radarr_index envs (Suc i) rest
              (s\<lparr>db := save_plex_metadata movie (db s)\<rparr>))
   \<and> (search_db_movie table m = Some row \<and> last_radarr_search row = Some str \<and> str \<noteq> []
      \<and> fromisoformat lib str = None
    \<longrightarrow> should_trigger_search lib now_time table m)
   \<and> (upgrade_db_record table rmovie = Some row \<and> last_radarr_search row = Some str \<and> str \<noteq> []
      \<and> fromisoformat lib str = None
    \<longrightarrow> last_search_time lib table rmovie = datetime_min
      \<and> (radarr_id rmovie \<noteq> 0 \<and> \<not> meets_threshold cfg rmovie \<and> 24 * microseconds_per_hour \<le> now env
         \<longrightarrow> find_candidates cfg lib table ((rmovie, env) # cands)
              = (rmovie, dget (sizeOnDisk rmovie) 0, datetime_min, env)
                # find_candidates cfg lib table cands))"
proof -
  have a: "process_movie cfg lib dry_run today radarr_index movie (envs i) s
          = s\<lparr>db := save_plex_metadata movie (db s)\<rparr>
      \<and> process_movies cfg lib dry_run today radarr_index envs i (movie # rest) s
          = process_movies cfg lib dry_run today radarr_index envs (Suc i) rest
              (s\<lparr>db := save_plex_metadata movie (db s)\<rparr>)"
    if "find_in_radarr radarr_index (norm_imdb movie) (tmdb_key movie) = None"
      "tmdb_key movie = [] \<or> py_int lib (tmdb_key movie) = None"
    using process_movie_unidentified [OF that] by simp
  have b: "last_search_time lib table rmovie = datetime_min
      \<and> (radarr_id rmovie \<noteq> 0 \<and> \<not> meets_threshold cfg rmovie \<and> 24 * microseconds_per_hour \<le> now env
         \<longrightarrow> find_candidates cfg lib table ((rmovie, env) # cands)
              = (rmovie, dget (sizeOnDisk rmovie) 0, datetime_min, env)
                # find_candidates cfg lib table cands)"
    if "upgrade_db_record table rmovie = Some row" "last_radarr_search row = Some str" "str \<noteq> []"
      "fromisoformat lib str = None"
    using last_search_time_unparsable [OF that]
    by (simp add: searched_recently_def datetime_min_def Let_def)
  from a b should_trigger_search_unparsable [of table m row str lib now_time]
  show ?thesis by blast
qed

lemma example_unparsable:
  "last_radarr_search example_row_unparsable = Some ''not-a-date''"
  "fromisoformat example_lib ''not-a-date'' = None"
  by (simp_all add: example_row_unparsable_def example_lib_def example_stamp_def)

lemma example_upgrade_db_record_unparsable:
  "upgrade_db_record [example_row_unparsable] example_record = Some example_row_unparsable"
  by (simp add: upgrade_db_record_def example_tmdb_str get_plex_metadata_def clean_id_def
        row_matches_def py_strip_def is_space_def)
     (simp add: example_row_unparsable_def example_row_def)

lemma example_search_db_movie_unparsable:
  "search_db_movie [example_row_unparsable] p_heat1 = Some example_row_unparsable"
  by (simp add: search_db_movie_def get_plex_metadata_def clean_id_def row_matches_def
        dget_def py_strip_def is_space_def p_heat1_def example_row_unparsable_def example_row_def)

lemma example_has_upgrade_tag: "has_upgrade_tag example_cfg example_record"
  by (simp add: has_upgrade_tag_def example_cfg_def example_record_def dget_def)

lemma example_candidates:
  "find_candidates example_cfg example_lib [example_row_unparsable]
     [(example_record, example_env (4 * microseconds_per_day))]
   = [(example_record, 1000, datetime_min, example_env (4 * microseconds_per_day))]"
proof -
  have lst: "last_search_time example_lib [example_row_unparsable] example_record = datetime_min"
    by (simp add: last_search_time_def example_upgrade_db_record_unparsable example_unparsable
          or_none_def)
  have rec: "radarr_id example_record \<noteq> 0" "dget (sizeOnDisk example_record) 0 = 1000"
    by (simp_all add: example_record_def dget_def)
  have recent: "\<not> searched_recently (now (example_env (4 * microseconds_per_day))) datetime_min"
    by (simp add: searched_recently_def example_env_def datetime_min_def
          microseconds_per_day_def microseconds_per_hour_def)
  show ?thesis
    by (simp add: Let_def lst rec recent example_below_threshold)
qed

text \<open>
  C8, as stated, fails: a record whose cache row holds an unparsable last-search
  timestamp is searched for by the upgrade sweep, and \<open>should_trigger_search\<close> admits it.
\<close>

theorem unparsable_timestamp_is_searched:
  "upgrade_db_record [example_row_unparsable] example_record = Some example_row_unparsable
   \<and> last_radarr_search example_row_unparsable = Some ''not-a-date''
   \<and> fromisoformat example_lib ''not-a-date'' = None
   \<and> TriggerSearch 7 True
        \<in> set (calls (job_upgrade example_cfg example_lib example_upgrade_input
                        ([example_row_unparsable], None)))
   \<and> should_trigger_search example_lib (4 * microseconds_per_day) [example_row_unparsable] p_heat1"
proof -
  have limits: "per_run_search_limit example_cfg = Some 3"
    "global_daily_search_limit example_cfg = Some 5"
    by (simp_all add: per_run_search_limit_def global_daily_search_limit_def example_cfg_def dget_def)
  have env: "search_result (example_env t)" "update_result (example_env t)" for t
    by (simp_all add: example_env_def)
  have rec: "radarr_id example_record = 7"
    by (simp add: example_record_def)
  have "TriggerSearch 7 True
        \<in> set (calls (job_upgrade example_cfg example_lib example_upgrade_input
                        ([example_row_unparsable], None)))"
    by (simp add: job_upgrade_def example_upgrade_input_def example_has_upgrade_tag
          clear_tag_def example_below_threshold start_state_def read_daily_search_count_def
          example_candidates prioritize_def daily_limit_reached_def limits env rec
          count_search_def finish_run_def Let_def del: find_candidates.simps)
  moreover have "should_trigger_search example_lib (4 * microseconds_per_day)
      [example_row_unparsable] p_heat1"
    by (simp add: should_trigger_search_def example_search_db_movie_unparsable example_unparsable
          or_none_def)
  ultimately show ?thesis
    using example_upgrade_db_record_unparsable example_unparsable by simp
qed

lemma example_tmdb_key_nokey: "tmdb_key p_nokey = []" "find_in_radarr [] (norm_imdb p_nokey) (tmdb_key p_nokey) = None"
  by (simp_all add: tmdb_key_def find_in_radarr_def example_norm_imdb) (simp_all add: p_nokey_def)

theorem data_integrity_faults_witness:
  "find_in_radarr [] (norm_imdb p_nokey) (tmdb_key p_nokey) = None \<and> tmdb_key p_nokey = []
   \<and> process_movie example_cfg example_lib False ''0001-01-05'' [] p_nokey (example_env 0)
        (start_state [] None 0)
      = (start_state [] None 0)\<lparr>db := save_plex_metadata p_nokey []\<rparr>
   \<and> should_trigger_search example_lib (4 * microseconds_per_day) [example_row_unparsable] p_heat1
   \<and> last_search_time example_lib [example_row_unparsable] example_record = datetime_min"
proof -
  have d: "db (start_state [] None 0) = []"
    by (simp add: start_state_def)
  from data_integrity_faults [where radarr_index = "[]" and movie = p_nokey and lib = example_lib
      and cfg = example_cfg and dry_run = False and today = "''0001-01-05''"
      and envs = "\<lambda>i. example_env 0" and s = "start_state [] None 0"]
    example_tmdb_key_nokey
  have r1: "process_movie example_cfg example_lib False ''0001-01-05'' [] p_nokey (example_env 0)
        (start_state [] None 0)
      = (start_state [] None 0)\<lparr>db := save_plex_metadata p_nokey (db (start_state [] None 0))\<rparr>"
    by blast
  from data_integrity_faults [where table = "[example_row_unparsable]" and m = p_heat1
      and row = example_row_unparsable and str = "''not-a-date''" and lib = example_lib
      and now_time = "4 * microseconds_per_day"]
    example_search_db_movie_unparsable example_unparsable
  have r2: "should_trigger_search example_lib (4 * microseconds_per_day) [example_row_unparsable] p_heat1"
    by blast
  from data_integrity_faults [where table = "[example_row_unparsable]" and rmovie = example_record
      and row = example_row_unparsable and str = "''not-a-date''" and lib = example_lib]
    example_upgrade_db_record_unparsable example_unparsable
  have r3: "last_search_time example_lib [example_row_unparsable] example_record = datetime_min"
    by blast
  from r1 r2 r3 d example_tmdb_key_nokey show ?thesis by simp
qed

subsection \<open>The upgrade tag\<close>

lemma eligible_for_upgrade_iff:
  "eligible_for_upgrade cfg r \<longleftrightarrow> of_int (dget (sizeOnDisk r) 0) < min_size_bytes cfg"
proof (cases "dget (sizeOnDisk r) 0 = 0")
  case True
  then show ?thesis
    by (simp add: eligible_for_upgrade_def min_size_bytes_def Let_def zero_less_mult_iff)
next
  case False
  have "(of_int (dget (sizeOnDisk r) 0) :: rat) / 1024 ^ 3 < dget (min_file_size_gb cfg) 0
      \<longleftrightarrow> of_int (dget (sizeOnDisk r) 0) < dget (min_file_size_gb cfg) 0 * 1024 ^ 3"
    by (rule pos_divide_less_eq) simp
  with False show ?thesis
    by (simp add: eligible_for_upgrade_def min_size_bytes_def Let_def)
qed

lemma meets_threshold_iff: "meets_threshold cfg r \<longleftrightarrow> \<not> eligible_for_upgrade cfg r"
  by (auto simp: meets_threshold_def eligible_for_upgrade_iff)

lemma upgrade_tag_in_payload_tags:
  assumes "friend_tag env \<noteq> Some (plex_upgrade_tag cfg)"
  shows "plex_upgrade_tag cfg \<in> set (payload_tags cfg r env) \<longleftrightarrow> eligible_for_upgrade cfg r"
  using assms by (auto simp: payload_tags_def Let_def split: option.splits)

lemma tags_update_payload:
  "tags (update_payload cfg r env imdb_id tmdb_id) = Some (payload_tags cfg r env)"
  by (simp add: update_payload_def fix_paths_for_radarr_def Let_def)

lemma remove_tag_payload_clears:
  "tag \<notin> set (dget (tags (remove_tag_payload movie tag)) [])"
  by (simp add: remove_tag_payload_def dget_def)

lemma clear_tag_calls:
  assumes "radarr_id movie \<noteq> 0" "has_upgrade_tag cfg movie"
  shows "calls (clear_tag cfg False movie env s)
           = (if meets_threshold cfg movie
              then calls s @ [UpdateMovie (radarr_id movie) (remove_tag_payload movie (plex_upgrade_tag cfg))]
              else calls s)"
  using assms by (simp add: clear_tag_def Let_def)

text \<open>The calls of a run only grow, so a call issued for one item is in the calls of the run.\<close>

lemma calls_update_existing:
  "set (calls s) \<subseteq> set (calls (update_existing cfg dry_run env r payload s))"
  by (auto simp: update_existing_def Let_def)

lemma calls_count_search: "calls (count_search today s) = calls s @ [WriteCounter today (read_daily_search_count today (counter s) + 1)]"
  by (simp add: count_search_def)

lemma calls_search_existing:
  "set (calls s) \<subseteq> set (calls (search_existing cfg dry_run today movie env imdb_id tmdb_id r s))"
  by (auto simp: search_existing_def Let_def calls_count_search)

lemma calls_handle_new_movie:
  "set (calls s) \<subseteq> set (calls (handle_new_movie cfg lib dry_run today movie env tmdb_id s))"
  by (auto simp: handle_new_movie_def Let_def calls_count_search split: option.splits)

lemma calls_process_movie:
  "set (calls s) \<subseteq> set (calls (process_movie cfg lib dry_run today radarr_index movie env s))"
proof -
  let ?s0 = "s\<lparr>db := save_plex_metadata movie (db s)\<rparr>"
  have s0: "calls ?s0 = calls s" by simp
  have new: "set (calls s) \<subseteq> set (calls (handle_new_movie cfg lib dry_run today movie env t ?s0))" for t
    using calls_handle_new_movie [of ?s0] unfolding s0 .
  have old: "set (calls s) \<subseteq> set (calls (search_existing cfg dry_run today movie env i t r
                (update_existing cfg dry_run env r p ?s0)))" for i t r p
    using calls_update_existing [of ?s0 cfg dry_run env r p]
      calls_search_existing [of "update_existing cfg dry_run env r p ?s0"]
    unfolding s0 by blast
  show ?thesis
    using new old
    by (simp add: process_movie_def handle_existing_movie_def Let_def split: option.splits)
qed

lemma calls_process_movies:
  "set (calls s) \<subseteq> set (calls (process_movies cfg lib dry_run today radarr_index env k movies s))"
proof (induction movies arbitrary: k s)
  case Nil
  then show ?case by simp
next
  case (Cons m movies)
  from calls_process_movie Cons.IH show ?case
    by (simp del: process_movie_def) blast
qed

lemma process_movies_item:
  assumes "i < length movies"
    and "\<And>s. c \<in> set (calls (process_movie cfg lib dry_run today radarr_index (movies ! i) (env (k + i)) s))"
  shows "c \<in> set (calls (process_movies cfg lib dry_run today radarr_index env k movies s))"
  using assms
proof (induction movies arbitrary: i k s)
  case Nil
  then show ?case by simp
next
  case (Cons m movies)
  show ?case
  proof (cases i)
    case 0
    with Cons.prems(2) [of s]
    have "c \<in> set (calls (process_movie cfg lib dry_run today radarr_index m (env k) s))"
      by simp
    with calls_process_movies show ?thesis
      by (simp) blast
  next
    case (Suc j)
    with Cons.prems have j: "j < length movies"
      and step: "\<And>s. c \<in> set (calls (process_movie cfg lib dry_run today radarr_index (movies ! j) (env (Suc k + j)) s))"
      by simp_all
    from Cons.IH [OF j step] show ?thesis by simp
  qed
qed

lemma watchlist_tag_in_payload_tags:
  "watchlist_tag cfg \<noteq> plex_upgrade_tag cfg \<Longrightarrow> watchlist_tag cfg \<in> set (payload_tags cfg r env)"
  by (auto simp: payload_tags_def Let_def split: option.splits)

lemma needs_update_tags:
  "set (dget (tags r) []) \<noteq> set (dget (tags p) []) \<Longrightarrow> needs_update r p"
  by (simp add: needs_update_def)

lemma update_existing_issues:
  "\<not> dry_run \<Longrightarrow> needs_update r payload \<Longrightarrow>
     UpdateMovie (radarr_id r) payload \<in> set (calls (update_existing cfg dry_run env r payload s))"
  by (simp add: update_existing_def Let_def)

lemma process_movie_updates_or_same:
  assumes "find_in_radarr radarr_index (norm_imdb movie) (tmdb_key movie) = Some r"
    and "watchlist_tag cfg \<notin> set (dget (tags r) [])" and "\<not> dry_run"
  shows "UpdateMovie (radarr_id r) (update_payload cfg r env (norm_imdb movie) (tmdb_key movie))
           \<in> set (calls (process_movie cfg lib dry_run today radarr_index movie env s))
         \<or> set (dget (tags r) []) = set (payload_tags cfg r env)"
proof (cases "set (dget (tags r) []) = set (payload_tags cfg r env)")
  case True
  then show ?thesis by simp
next
  case False
  let ?p = "update_payload cfg r env (norm_imdb movie) (tmdb_key movie)"
  let ?s0 = "s\<lparr>db := save_plex_metadata movie (db s)\<rparr>"
  from False have "needs_update r ?p"
    by (intro needs_update_tags) (simp add: tags_update_payload dget_def)
  with assms(3) have "UpdateMovie (radarr_id r) ?p \<in> set (calls (update_existing cfg dry_run env r ?p ?s0))"
    by (rule update_existing_issues)
  with calls_search_existing
  have "UpdateMovie (radarr_id r) ?p
      \<in> set (calls (search_existing cfg dry_run today movie env (norm_imdb movie) (tmdb_key movie) r
                      (update_existing cfg dry_run env r ?p ?s0)))"
    by blast
  with assms(1,2) show ?thesis
    by (simp add: process_movie_def handle_existing_movie_def Let_def)
qed

lemma process_movie_updates:
  assumes "find_in_radarr radarr_index (norm_imdb movie) (tmdb_key movie) = Some r"
    and "watchlist_tag cfg \<notin> set (dget (tags r) [])" and "\<not> dry_run"
    and "watchlist_tag cfg \<noteq> plex_upgrade_tag cfg"
  shows "UpdateMovie (radarr_id r) (update_payload cfg r env (norm_imdb movie) (tmdb_key movie))
           \<in> set (calls (process_movie cfg lib dry_run today radarr_index movie env s))"
  using process_movie_updates_or_same [OF assms(1-3), of env lib today s]
    watchlist_tag_in_payload_tags [OF assms(4), of r env] assms(2)
  by auto

lemma process_movie_skips_tagged:
  assumes "find_in_radarr radarr_index (norm_imdb movie) (tmdb_key movie) = Some r"
    and "watchlist_tag cfg \<in> set (dget (tags r) [])"
  shows "calls (process_movie cfg lib dry_run today radarr_index movie env s) = calls s"
  using assms by (simp add: process_movie_def Let_def)

lemma calls_finish_run: "calls (finish_run today s) = calls s @ [WriteCounter today (daily_search_count s)]"
  by (simp add: finish_run_def)

lemma process_watchlist_item:
  assumes "connected inp" "i < length (merge_watchlists (personal_list inp) (friends_list inp))"
    and "\<And>s. c \<in> set (calls (process_movie cfg lib (sync_dry_run inp) (sync_today inp)
                   (build_radarr_index (library inp))
                   (merge_watchlists (personal_list inp) (friends_list inp) ! i) (sync_env inp i) s))"
  shows "c \<in> set (calls (process_watchlist cfg lib inp persisted))"
proof (cases persisted)
  case (Pair table cf)
  from process_movies_item [where k = 0 and env = "sync_env inp", OF assms(2)] assms(3)
  have "c \<in> set (calls (process_movies cfg lib (sync_dry_run inp) (sync_today inp)
                   (build_radarr_index (library inp)) (sync_env inp) 0
                   (merge_watchlists (personal_list inp) (friends_list inp)) s))" for s
    by simp
  with assms(1) Pair show ?thesis
    by (simp add: process_watchlist_def Let_def calls_finish_run)
qed

lemma clear_tag_updates:
  "UpdateMovie n p \<in> set (calls (clear_tag cfg False m env s))
     \<longleftrightarrow> UpdateMovie n p \<in> set (calls s)
         \<or> (has_upgrade_tag cfg m \<and> radarr_id m \<noteq> 0 \<and> meets_threshold cfg m
            \<and> n = radarr_id m \<and> p = remove_tag_payload m (plex_upgrade_tag cfg))"
  by (auto simp: clear_tag_def Let_def)

lemma clear_tags_updates:
  "UpdateMovie n p \<in> set (calls (clear_tags cfg False movies s))
     \<longleftrightarrow> UpdateMovie n p \<in> set (calls s)
         \<or> (\<exists>(m, env) \<in> set movies. has_upgrade_tag cfg m \<and> radarr_id m \<noteq> 0
               \<and> meets_threshold cfg m
               \<and> n = radarr_id m \<and> p = remove_tag_payload m (plex_upgrade_tag cfg))"
proof (induction movies arbitrary: s)
  case Nil
  then show ?case by simp
next
  case (Cons a movies)
  obtain m env where a: "a = (m, env)" by (cases a)
  show ?case
    unfolding a by (auto simp: Cons.IH clear_tag_updates)
qed

lemma search_loop_updates:
  "UpdateMovie n p \<in> set (calls (search_loop cfg dry_run today limit i cands s))
     \<longleftrightarrow> UpdateMovie n p \<in> set (calls s)"
proof (induction cands arbitrary: i s)
  case Nil
  then show ?case by simp
next
  case (Cons c cands)
  obtain movie size_bytes last_time env where c: "c = (movie, size_bytes, last_time, env)"
    by (cases c) auto
  show ?case
    unfolding c by (simp add: Cons.IH Let_def calls_count_search)
qed

lemma job_upgrade_updates:
  assumes "\<not> upgrade_dry_run inp"
  shows "UpdateMovie n p \<in> set (calls (job_upgrade cfg lib inp persisted))
     \<longleftrightarrow> (\<exists>(m, env) \<in> set (all_radarr_movies inp). has_upgrade_tag cfg m \<and> radarr_id m \<noteq> 0
               \<and> meets_threshold cfg m
               \<and> n = radarr_id m \<and> p = remove_tag_payload m (plex_upgrade_tag cfg))"
proof (cases persisted)
  case (Pair table cf)
  let ?movies = "filter (\<lambda>(movie, env). has_upgrade_tag cfg movie) (all_radarr_movies inp)"
  let ?R = "\<exists>(m, env) \<in> set (all_radarr_movies inp). has_upgrade_tag cfg m \<and> radarr_id m \<noteq> 0
               \<and> meets_threshold cfg m
               \<and> n = radarr_id m \<and> p = remove_tag_payload m (plex_upgrade_tag cfg)"
  have R: "(\<exists>(m, env) \<in> set ?movies. has_upgrade_tag cfg m \<and> radarr_id m \<noteq> 0
               \<and> meets_threshold cfg m
               \<and> n = radarr_id m \<and> p = remove_tag_payload m (plex_upgrade_tag cfg)) \<longleftrightarrow> ?R"
    by auto
  have s1: "UpdateMovie n p \<in> set (calls (clear_tags cfg False ?movies (start_state table cf 0))) \<longleftrightarrow> ?R"
    unfolding clear_tags_updates R by (simp add: start_state_def)
  show ?thesis
  proof (cases "?movies = []")
    case True
    then have "\<not> ?R"
      by (auto simp: filter_empty_conv)
    with True Pair show ?thesis
      by (simp add: job_upgrade_def start_state_def)
  next
    case False
    with Pair assms s1 show ?thesis
      by (simp add: job_upgrade_def Let_def search_loop_updates calls_finish_run
            split: option.splits)
  qed
qed

lemma example_unsynced_found:
  "merge_watchlists [p_heat2] [] = [p_heat2]"
  "find_in_radarr (build_radarr_index [example_record_unsynced]) (norm_imdb p_heat2) (tmdb_key p_heat2)
     = Some example_record_unsynced"
  "find_in_radarr (build_radarr_index [example_record]) (norm_imdb p_heat2) (tmdb_key p_heat2)
     = Some example_record"
proof -
  have n: "norm_imdb example_record_unsynced = ''tt0113277''" "norm_imdb example_record = ''tt0113277''"
    by (simp_all add: string_eval example_record_unsynced_def example_record_at_threshold_def
          example_record_def)
  show "merge_watchlists [p_heat2] [] = [p_heat2]"
    by (simp add: merge_watchlists_def merged_dict_def example_personal_key)
  show "find_in_radarr (build_radarr_index [example_record_unsynced]) (norm_imdb p_heat2) (tmdb_key p_heat2)
     = Some example_record_unsynced"
    by (simp add: find_in_radarr_def build_radarr_index_def n example_norm_imdb)
  show "find_in_radarr (build_radarr_index [example_record]) (norm_imdb p_heat2) (tmdb_key p_heat2)
     = Some example_record"
    by (simp add: find_in_radarr_def build_radarr_index_def n example_norm_imdb)
qed

text \<open>
  C4. A record is eligible for the upgrade tag exactly when its size in bytes is strictly
  less than the minimum size in gigabytes times \<open>1024 ^ 3\<close>. The tags of the update
  payload of the sync contain the upgrade tag exactly then (the friend tag being another
  tag). A sync run that is not a dry run issues that update for every item of the merged
  watchlist that resolves to a library record lacking the watchlist tag, unless the tags of
  the payload are, as a set, the tags the record has already; it is always issued when the
  watchlist tag and the upgrade tag differ. A record that carries the watchlist tag is
  skipped without a call. The updates that a sweep issues (not a dry run, the Radarr URL
  and key being configured) are exactly the removals of the tag from the records that carry
  it, have an id, and have a size not below the threshold; the payload of such an update
  does not carry the tag. At a threshold of 4 GB a record of exactly \<open>4 * 1024 ^ 3\<close>
  bytes is not eligible: it meets the threshold.
\<close>

theorem upgrade_tag_by_size:
  "(eligible_for_upgrade cfg r \<longleftrightarrow> of_int (dget (sizeOnDisk r) 0) < min_size_bytes cfg)
   \<and> (meets_threshold cfg r \<longleftrightarrow> \<not> of_int (dget (sizeOnDisk r) 0) < min_size_bytes cfg)
   \<and> tags (update_payload cfg r env imdb_id tmdb_id) = Some (payload_tags cfg r env)
   \<and> (friend_tag env \<noteq> Some (plex_upgrade_tag cfg)
      \<longrightarrow> (plex_upgrade_tag cfg \<in> set (payload_tags cfg r env)
            \<longleftrightarrow> of_int (dget (sizeOnDisk r) 0) < min_size_bytes cfg))
   \<and> (connected inp \<and> \<not> sync_dry_run inp
        \<and> i < length (merge_watchlists (personal_list inp) (friends_list inp))
        \<and> merge_watchlists (personal_list inp) (friends_list inp) ! i = movie
        \<and> find_in_radarr (build_radarr_index (library inp)) (norm_imdb movie) (tmdb_key movie) = Some r
        \<and> watchlist_tag cfg \<notin> set (dget (tags r) [])
      \<longrightarrow> (UpdateMovie (radarr_id r)
                (update_payload cfg r (sync_env inp i) (norm_imdb movie) (tmdb_key movie))
              \<in> set (calls (process_watchlist cfg lib inp persisted))
            \<or> set (dget (tags r) []) = set (payload_tags cfg r (sync_env inp i)))
          \<and> (watchlist_tag cfg \<noteq> plex_upgrade_tag cfg
              \<longrightarrow> UpdateMovie (radarr_id r)
                    (update_payload cfg r (sync_env inp i) (norm_imdb movie) (tmdb_key movie))
                  \<in> set (calls (process_watchlist cfg lib inp persisted))))
   \<and> (find_in_radarr radarr_index (norm_imdb movie) (tmdb_key movie) = Some r
        \<and> watchlist_tag cfg \<in> set (dget (tags r) [])
      \<longrightarrow> calls (process_movie cfg lib dry_run today radarr_index movie env s) = calls s)
   \<and> (radarr_id r \<noteq> 0 \<and> has_upgrade_tag cfg r
      \<longrightarrow> calls (clear_tag cfg False r env s)
            = (if of_int (dget (sizeOnDisk r) 0) < min_size_bytes cfg then calls s
               else calls s @ [UpdateMovie (radarr_id r) (remove_tag_payload r (plex_upgrade_tag cfg))]))
   \<and> (\<not> upgrade_dry_run sweep
      \<longrightarrow> (UpdateMovie n p \<in> set (calls (job_upgrade cfg lib sweep persisted'))
            \<longleftrightarrow> (\<exists>(m, e) \<in> set (all_radarr_movies sweep).
                   has_upgrade_tag cfg m \<and> radarr_id m \<noteq> 0
                   \<and> \<not> of_int (dget (sizeOnDisk m) 0) < min_size_bytes cfg
                   \<and> n = radarr_id m \<and> p = remove_tag_payload m (plex_upgrade_tag cfg))))
   \<and> plex_upgrade_tag cfg \<notin> set (dget (tags (remove_tag_payload r (plex_upgrade_tag cfg))) [])
   \<and> (min_file_size_gb cfg = Some 4 \<and> sizeOnDisk r = Some (4 * 1024 ^ 3)
      \<longrightarrow> \<not> eligible_for_upgrade cfg r \<and> meets_threshold cfg r)"
proof -
  have boundary: "\<not> eligible_for_upgrade cfg r \<and> meets_threshold cfg r"
    if "min_file_size_gb cfg = Some 4 \<and> sizeOnDisk r = Some (4 * 1024 ^ 3)"
    using that by (simp add: meets_threshold_iff eligible_for_upgrade_iff min_size_bytes_def dget_def)
  have step: "calls (clear_tag cfg False r env s)
            = (if of_int (dget (sizeOnDisk r) 0) < min_size_bytes cfg then calls s
               else calls s @ [UpdateMovie (radarr_id r) (remove_tag_payload r (plex_upgrade_tag cfg))])"
    if "radarr_id r \<noteq> 0 \<and> has_upgrade_tag cfg r"
    using that clear_tag_calls [of r cfg env s]
    by (simp add: meets_threshold_iff eligible_for_upgrade_iff)
  let ?u = "UpdateMovie (radarr_id r)
              (update_payload cfg r (sync_env inp i) (norm_imdb movie) (tmdb_key movie))"
  have sync: "(?u \<in> set (calls (process_watchlist cfg lib inp persisted))
              \<or> set (dget (tags r) []) = set (payload_tags cfg r (sync_env inp i)))
            \<and> (watchlist_tag cfg \<noteq> plex_upgrade_tag cfg
                \<longrightarrow> ?u \<in> set (calls (process_watchlist cfg lib inp persisted)))"
    if h: "connected inp \<and> \<not> sync_dry_run inp
        \<and> i < length (merge_watchlists (personal_list inp) (friends_list inp))
        \<and> merge_watchlists (personal_list inp) (friends_list inp) ! i = movie
        \<and> find_in_radarr (build_radarr_index (library inp)) (norm_imdb movie) (tmdb_key movie) = Some r
        \<and> watchlist_tag cfg \<notin> set (dget (tags r) [])"
  proof -
    let ?same = "set (dget (tags r) []) = set (payload_tags cfg r (sync_env inp i))"
    from h have f: "find_in_radarr (build_radarr_index (library inp)) (norm_imdb movie) (tmdb_key movie) = Some r"
      and w: "watchlist_tag cfg \<notin> set (dget (tags r) [])" and d: "\<not> sync_dry_run inp"
      and c: "connected inp" and l: "i < length (merge_watchlists (personal_list inp) (friends_list inp))"
      and m: "merge_watchlists (personal_list inp) (friends_list inp) ! i = movie"
      by simp_all
    have a: "?u \<in> set (calls (process_watchlist cfg lib inp persisted))" if "\<not> ?same"
    proof (rule process_watchlist_item [OF c l])
      fix s
      from process_movie_updates_or_same [OF f w d, of "sync_env inp i" lib "sync_today inp" s] that
      show "?u \<in> set (calls (process_movie cfg lib (sync_dry_run inp) (sync_today inp)
                   (build_radarr_index (library inp))
                   (merge_watchlists (personal_list inp) (friends_list inp) ! i) (sync_env inp i) s))"
        unfolding m by blast
    qed
    have b: "\<not> ?same" if "watchlist_tag cfg \<noteq> plex_upgrade_tag cfg"
      using watchlist_tag_in_payload_tags [OF that, of r "sync_env inp i"] w by auto
    from a b show ?thesis by blast
  qed
  have skip: "calls (process_movie cfg lib dry_run today radarr_index movie env s) = calls s"
    if "find_in_radarr radarr_index (norm_imdb movie) (tmdb_key movie) = Some r
        \<and> watchlist_tag cfg \<in> set (dget (tags r) [])"
    using that process_movie_skips_tagged by blast
  have sweep: "UpdateMovie n p \<in> set (calls (job_upgrade cfg lib sweep persisted'))
            \<longleftrightarrow> (\<exists>(m, e) \<in> set (all_radarr_movies sweep).
                   has_upgrade_tag cfg m \<and> radarr_id m \<noteq> 0
                   \<and> \<not> of_int (dget (sizeOnDisk m) 0) < min_size_bytes cfg
                   \<and> n = radarr_id m \<and> p = remove_tag_payload m (plex_upgrade_tag cfg))"
    if "\<not> upgrade_dry_run sweep"
    unfolding job_upgrade_updates [OF that]
    by (simp add: meets_threshold_iff eligible_for_upgrade_iff)
  show ?thesis
    using boundary step sync skip sweep
      eligible_for_upgrade_iff [of cfg r] meets_threshold_iff [of cfg r]
      upgrade_tag_in_payload_tags [of env cfg r] tags_update_payload [of cfg r env imdb_id tmdb_id]
      remove_tag_payload_clears [of "plex_upgrade_tag cfg" r]
    by blast
qed

theorem upgrade_tag_by_size_witness:
  "min_file_size_gb example_cfg = Some 4
   \<and> sizeOnDisk example_record_at_threshold = Some (4 * 1024 ^ 3)
   \<and> \<not> eligible_for_upgrade example_cfg example_record_at_threshold
   \<and> meets_threshold example_cfg example_record_at_threshold
   \<and> friend_tag (example_env 0) \<noteq> Some (plex_upgrade_tag example_cfg)
   \<and> plex_upgrade_tag example_cfg \<notin> set (payload_tags example_cfg example_record_at_threshold (example_env 0))
   \<and> plex_upgrade_tag example_cfg \<in> set (payload_tags example_cfg example_record (example_env 0))
   \<and> calls (clear_tag example_cfg False example_record_at_threshold (example_env 0) (start_state [] None 0))
       = [UpdateMovie 7 (remove_tag_payload example_record_at_threshold 2)]
   \<and> tags example_record_unsynced = Some [2]
   \<and> payload_tags example_cfg example_record_unsynced (example_env 0) = [1]
   \<and> UpdateMovie 7 (update_payload example_cfg example_record_unsynced (example_env 0)
                      (norm_imdb p_heat2) (tmdb_key p_heat2))
        \<in> set (calls (process_watchlist example_cfg example_lib example_sync_existing ([], None)))
   \<and> calls (process_movie example_cfg example_lib False ''0001-01-05''
               (build_radarr_index [example_record]) p_heat2 (example_env 0) (start_state [] None 0))
       = []
   \<and> UpdateMovie 7 (remove_tag_payload example_record_at_threshold 2)
        \<in> set (calls (job_upgrade example_cfg example_lib example_sweep_at_threshold ([], None)))
   \<and> UpdateMovie 7 (remove_tag_payload example_record 2)
        \<notin> set (calls (job_upgrade example_cfg example_lib example_upgrade_input ([], None)))"
proof -
  let ?r = example_record_at_threshold and ?e = "example_env 0" and ?u = example_record_unsynced
  have c: "min_file_size_gb example_cfg = Some 4" "plex_upgrade_tag example_cfg = 2"
    "watchlist_tag example_cfg = 1"
    by (simp_all add: example_cfg_def)
  have sz: "sizeOnDisk ?r = Some (4 * 1024 ^ 3)" "radarr_id ?r = 7"
    by (simp_all add: example_record_at_threshold_def example_record_def)
  have tg: "has_upgrade_tag example_cfg ?r"
    by (simp add: has_upgrade_tag_def c example_record_at_threshold_def example_record_def dget_def)
  have f: "friend_tag ?e \<noteq> Some (plex_upgrade_tag example_cfg)"
    by (simp add: friend_tag_def example_env_def)
  have at: "\<not> of_int (dget (sizeOnDisk ?r) 0) < min_size_bytes example_cfg"
    by (simp add: sz c min_size_bytes_def dget_def)
  have below: "of_int (dget (sizeOnDisk example_record) 0) < min_size_bytes example_cfg"
    by (simp add: c min_size_bytes_def dget_def example_record_def)
  have s0: "calls (start_state [] None 0) = []"
    by (simp add: start_state_def)
  have u: "tags ?u = Some [2]" "radarr_id ?u = 7" "watchlist_tag example_cfg \<notin> set (dget (tags ?u) [])"
    "watchlist_tag example_cfg \<noteq> plex_upgrade_tag example_cfg"
    "\<not> eligible_for_upgrade example_cfg ?u"
    by (simp_all add: example_record_unsynced_def example_record_at_threshold_def example_record_def
          c dget_def eligible_for_upgrade_iff min_size_bytes_def)
  have pt: "payload_tags example_cfg ?u ?e = [1]"
    by (simp add: payload_tags_def u c dget_def friend_tag_def example_env_def)
  have inp: "connected example_sync_existing" "\<not> sync_dry_run example_sync_existing"
    "personal_list example_sync_existing = [p_heat2]" "friends_list example_sync_existing = []"
    "library example_sync_existing = [?u]" "sync_env example_sync_existing 0 = ?e"
    by (simp_all add: example_sync_existing_def)
  have tagged: "watchlist_tag example_cfg \<in> set (dget (tags example_record) [])"
    "radarr_id example_record = 7" "has_upgrade_tag example_cfg example_record"
    by (simp_all add: example_record_def c dget_def has_upgrade_tag_def)
  have sw: "\<not> upgrade_dry_run example_sweep_at_threshold"
    "all_radarr_movies example_sweep_at_threshold = [(?r, ?e)]"
    "\<not> upgrade_dry_run example_upgrade_input"
    "all_radarr_movies example_upgrade_input = [(example_record, example_env (4 * microseconds_per_day))]"
    by (simp_all add: example_sweep_at_threshold_def example_upgrade_input_def)
  note inst = upgrade_tag_by_size [where cfg = example_cfg and env = ?e and s = "start_state [] None 0"]
  from inst [where r = ?r] c sz
  have r1: "\<not> eligible_for_upgrade example_cfg ?r \<and> meets_threshold example_cfg ?r"
    by blast
  from inst [where r = ?r] f at
  have r2: "plex_upgrade_tag example_cfg \<notin> set (payload_tags example_cfg ?r ?e)"
    by blast
  from inst [where r = example_record] f below
  have r3: "plex_upgrade_tag example_cfg \<in> set (payload_tags example_cfg example_record ?e)"
    by blast
  from inst [where r = ?r] sz(2) tg at
  have "calls (clear_tag example_cfg False ?r ?e (start_state [] None 0))
      = calls (start_state [] None 0)
        @ [UpdateMovie (radarr_id ?r) (remove_tag_payload ?r (plex_upgrade_tag example_cfg))]"
    by simp
  then have r4: "calls (clear_tag example_cfg False ?r ?e (start_state [] None 0))
      = [UpdateMovie 7 (remove_tag_payload ?r 2)]"
    by (simp add: s0 sz c)
  have len: "0 < length (merge_watchlists (personal_list example_sync_existing)
                 (friends_list example_sync_existing))"
    "merge_watchlists (personal_list example_sync_existing) (friends_list example_sync_existing) ! 0
       = p_heat2"
    "find_in_radarr (build_radarr_index (library example_sync_existing)) (norm_imdb p_heat2)
       (tmdb_key p_heat2) = Some ?u"
    by (simp_all add: inp example_unsynced_found)
  from inst [where r = ?u and inp = example_sync_existing and i = 0 and movie = p_heat2
      and lib = example_lib and persisted = "([], None)"] inp(1,2) len u(3,4)
  have "UpdateMovie (radarr_id ?u)
          (update_payload example_cfg ?u (sync_env example_sync_existing 0)
             (norm_imdb p_heat2) (tmdb_key p_heat2))
        \<in> set (calls (process_watchlist example_cfg example_lib example_sync_existing ([], None)))"
    by blast
  then have r5: "UpdateMovie 7 (update_payload example_cfg ?u ?e (norm_imdb p_heat2) (tmdb_key p_heat2))
        \<in> set (calls (process_watchlist example_cfg example_lib example_sync_existing ([], None)))"
    by (simp add: u inp)
  from inst [where r = example_record and movie = p_heat2
      and radarr_index = "build_radarr_index [example_record]" and lib = example_lib
      and dry_run = False and today = "''0001-01-05''"] example_unsynced_found(3) tagged(1)
  have "calls (process_movie example_cfg example_lib False ''0001-01-05''
               (build_radarr_index [example_record]) p_heat2 ?e (start_state [] None 0))
       = calls (start_state [] None 0)"
    by blast
  then have r6: "calls (process_movie example_cfg example_lib False ''0001-01-05''
               (build_radarr_index [example_record]) p_heat2 ?e (start_state [] None 0)) = []"
    by (simp add: s0)
  have ex: "\<exists>(m, e) \<in> set (all_radarr_movies example_sweep_at_threshold).
              has_upgrade_tag example_cfg m \<and> radarr_id m \<noteq> 0
              \<and> \<not> of_int (dget (sizeOnDisk m) 0) < min_size_bytes example_cfg
              \<and> 7 = radarr_id m \<and> remove_tag_payload ?r 2 = remove_tag_payload m (plex_upgrade_tag example_cfg)"
    using tg at by (simp add: sw sz c)
  from inst [where sweep = example_sweep_at_threshold and lib = example_lib and n = 7
      and p = "remove_tag_payload ?r 2" and persisted' = "([], None)"] sw(1) ex
  have r7: "UpdateMovie 7 (remove_tag_payload ?r 2)
        \<in> set (calls (job_upgrade example_cfg example_lib example_sweep_at_threshold ([], None)))"
    by blast
  have nex: "\<not> (\<exists>(m, e) \<in> set (all_radarr_movies example_upgrade_input).
              has_upgrade_tag example_cfg m \<and> radarr_id m \<noteq> 0
              \<and> \<not> of_int (dget (sizeOnDisk m) 0) < min_size_bytes example_cfg
              \<and> 7 = radarr_id m
              \<and> remove_tag_payload example_record 2 = remove_tag_payload m (plex_upgrade_tag example_cfg))"
    using below by (simp add: sw)
  from inst [where sweep = example_upgrade_input and lib = example_lib and n = 7
      and p = "remove_tag_payload example_record 2" and persisted' = "([], None)"] sw(3) nex
  have r8: "UpdateMovie 7 (remove_tag_payload example_record 2)
        \<notin> set (calls (job_upgrade example_cfg example_lib example_upgrade_input ([], None)))"
    by blast
  from c sz r1 f r2 r3 r4 u(1) pt r5 r6 r7 r8 show ?thesis by blast
qed

subsection \<open>Invariants of the search counters\<close>

lemma counts_written_append [simp]:
  "counts_written (xs @ ys) = counts_written xs @ counts_written ys"
  by (induction xs rule: counts_written.induct) auto

lemma run_inv_db [simp]: "run_inv L (s\<lparr>db := d\<rparr>) = run_inv L s"
  by (simp add: run_inv_def searches_succeeded_def)

lemma daily_inv_db [simp]: "daily_inv G today (s\<lparr>db := d\<rparr>) = daily_inv G today s"
  by (simp add: daily_inv_def)

lemma run_inv_other_call:
  "\<not> is_successful_search c \<Longrightarrow> run_inv L (s\<lparr>calls := calls s @ [c]\<rparr>) = run_inv L s"
  by (simp add: run_inv_def searches_succeeded_def)

lemma daily_inv_other_call:
  "counts_written [c] = [] \<Longrightarrow> daily_inv G today (s\<lparr>calls := calls s @ [c]\<rparr>) = daily_inv G today s"
  by (simp add: daily_inv_def)

lemmas daily_inv_unfold = daily_inv_def count_search_def increment_daily_search_count_def
  read_daily_search_count_def stored_count_def daily_limit_reached_def

lemmas run_inv_unfold = run_inv_def searches_succeeded_def count_search_def run_limit_reached_def

lemma run_inv_update_existing:
  "run_inv L s \<Longrightarrow> run_inv L (update_existing cfg dry_run env r payload s)"
  by (simp add: update_existing_def Let_def run_inv_other_call)

lemma daily_inv_update_existing:
  "daily_inv G today s \<Longrightarrow> daily_inv G today (update_existing cfg dry_run env r payload s)"
  by (simp add: update_existing_def Let_def daily_inv_other_call)

lemma run_inv_search_existing:
  assumes "run_inv L s" "per_run_search_limit cfg = Some L"
  shows "run_inv L (search_existing cfg dry_run today movie env imdb_id tmdb_id r s)"
  using assms by (auto simp: search_existing_def Let_def run_inv_unfold)

lemma daily_inv_search_existing:
  assumes "daily_inv G today s" "global_daily_search_limit cfg = Some G"
  shows "daily_inv G today (search_existing cfg dry_run today movie env imdb_id tmdb_id r s)"
  using assms by (auto simp: search_existing_def Let_def daily_inv_unfold split: option.splits)

lemma run_inv_handle_new_movie:
  assumes "run_inv L s" "per_run_search_limit cfg = Some L"
  shows "run_inv L (handle_new_movie cfg lib dry_run today movie env tmdb_id s)"
  using assms
  by (auto simp: handle_new_movie_def Let_def run_inv_unfold split: option.splits)

lemma daily_inv_handle_new_movie:
  assumes "daily_inv G today s" "global_daily_search_limit cfg = Some G"
  shows "daily_inv G today (handle_new_movie cfg lib dry_run today movie env tmdb_id s)"
  using assms
  by (auto simp: handle_new_movie_def Let_def daily_inv_unfold split: option.splits)

lemma run_inv_process_movie:
  assumes "run_inv L s" "per_run_search_limit cfg = Some L"
  shows "run_inv L (process_movie cfg lib dry_run today radarr_index movie env s)"
  using assms
  by (auto simp: process_movie_def handle_existing_movie_def Let_def
      intro!: run_inv_handle_new_movie run_inv_search_existing run_inv_update_existing
      split: option.splits)

lemma daily_inv_process_movie:
  assumes "daily_inv G today s" "global_daily_search_limit cfg = Some G"
  shows "daily_inv G today (process_movie cfg lib dry_run today radarr_index movie env s)"
  using assms
  by (auto simp: process_movie_def handle_existing_movie_def Let_def
      intro!: daily_inv_handle_new_movie daily_inv_search_existing daily_inv_update_existing
      split: option.splits)

lemma run_inv_process_movies:
  assumes "run_inv L s" "per_run_search_limit cfg = Some L"
  shows "run_inv L (process_movies cfg lib dry_run today radarr_index env i movies s)"
  using assms
  by (induction movies arbitrary: i s) (auto intro: run_inv_process_movie)

lemma daily_inv_process_movies:
  assumes "daily_inv G today s" "global_daily_search_limit cfg = Some G"
  shows "daily_inv G today (process_movies cfg lib dry_run today radarr_index env i movies s)"
  using assms
  by (induction movies arbitrary: i s) (auto intro: daily_inv_process_movie)

lemma daily_inv_start:
  assumes "0 \<le> G" "stored_count file \<le> G"
  shows "daily_inv G today (start_state table file (read_daily_search_count today file))"
  using assms
  by (auto simp: daily_inv_def start_state_def read_daily_search_count_def stored_count_def
      split: option.splits)

lemma counter_ok_finish_run: "daily_inv G today s \<Longrightarrow> counter_ok G (finish_run today s)"
  by (simp add: daily_inv_def counter_ok_def finish_run_def save_daily_search_count_def
        stored_count_def)

lemma counter_ok_start: "stored_count file \<le> G \<Longrightarrow> counter_ok G (start_state table file d)"
  by (simp add: counter_ok_def start_state_def)

lemma searches_finish_run [simp]: "searches_succeeded (finish_run today s) = searches_succeeded s"
  by (simp add: searches_succeeded_def finish_run_def)

lemma searches_start_state [simp]: "searches_succeeded (start_state table file d) = 0"
  by (simp add: searches_succeeded_def start_state_def)

lemma run_inv_start: "run_inv L (start_state table file d)"
  by (simp add: run_inv_def start_state_def searches_succeeded_def)

lemma process_watchlist_run_limit:
  assumes "per_run_search_limit cfg = Some L"
  shows "int (searches_succeeded (process_watchlist cfg lib inp persisted)) \<le> max 0 L"
proof (cases persisted)
  case (Pair table cf)
  show ?thesis
  proof (cases "connected inp")
    case True
    have "run_inv L (process_movies cfg lib (sync_dry_run inp) (sync_today inp)
            (build_radarr_index (library inp)) (sync_env inp) 0
            (merge_watchlists (personal_list inp) (friends_list inp))
            (start_state table cf (read_daily_search_count (sync_today inp) cf)))"
      using run_inv_process_movies [OF run_inv_start assms] .
    then show ?thesis
      using True Pair by (simp add: process_watchlist_def Let_def run_inv_def)
  next
    case False
    then show ?thesis using Pair by (simp add: process_watchlist_def)
  qed
qed

lemma process_watchlist_daily_limit:
  assumes "global_daily_search_limit cfg = Some G" "0 \<le> G" "stored_count file \<le> G"
  shows "counter_ok G (process_watchlist cfg lib inp (table, file))"
proof (cases "connected inp")
  case True
  have "daily_inv G (sync_today inp) (process_movies cfg lib (sync_dry_run inp) (sync_today inp)
            (build_radarr_index (library inp)) (sync_env inp) 0
            (merge_watchlists (personal_list inp) (friends_list inp))
            (start_state table file (read_daily_search_count (sync_today inp) file)))"
    using daily_inv_process_movies [OF daily_inv_start [OF assms(2,3)] assms(1)] .
  then show ?thesis
    using True by (simp add: process_watchlist_def Let_def counter_ok_finish_run)
next
  case False
  then show ?thesis using assms by (simp add: process_watchlist_def counter_ok_start)
qed

lemma clear_tag_keeps [simp]:
  "searches_succeeded (clear_tag cfg dry_run movie env s) = searches_succeeded s"
  "counter (clear_tag cfg dry_run movie env s) = counter s"
  "counts_written (calls (clear_tag cfg dry_run movie env s)) = counts_written (calls s)"
  by (simp_all add: clear_tag_def Let_def searches_succeeded_def)

lemma clear_tags_keeps [simp]:
  "searches_succeeded (clear_tags cfg dry_run movies s) = searches_succeeded s"
  "counter (clear_tags cfg dry_run movies s) = counter s"
  "counts_written (calls (clear_tags cfg dry_run movies s)) = counts_written (calls s)"
  by (induction movies arbitrary: s) auto

lemma searches_daily_update [simp]:
  "searches_succeeded (s\<lparr>daily_search_count := d\<rparr>) = searches_succeeded s"
  by (simp add: searches_succeeded_def)

lemma search_loop_searches:
  "int (searches_succeeded (search_loop cfg dry_run today limit i cands s))
     \<le> int (searches_succeeded s) + max 0 (limit - int i)"
proof (induction cands arbitrary: i s)
  case Nil
  then show ?case by simp
next
  case (Cons c cands)
  obtain movie size_bytes last_time env where c: "c = (movie, size_bytes, last_time, env)"
    by (cases c) auto
  show ?case
  proof (cases "int i \<ge> limit \<or> daily_limit_reached cfg s")
    case True
    then show ?thesis using c by auto
  next
    case False
    let ?s' = "(if \<not> dry_run
              then (let s1 = s\<lparr>calls := calls s @ [TriggerSearch (radarr_id movie) (search_result env)]\<rparr>
                    in if search_result env
                       then count_search today
                              (s1\<lparr>db := mark_movie_as_searched movie (searched_at env) (db s1)\<rparr>)
                       else s1)
              else s\<lparr>run_search_count := run_search_count s + 1\<rparr>)"
    have step: "int (searches_succeeded ?s') \<le> int (searches_succeeded s) + 1"
      by (simp add: searches_succeeded_def count_search_def Let_def)
    from False c have "search_loop cfg dry_run today limit i (c # cands) s
        = search_loop cfg dry_run today limit (Suc i) cands ?s'"
      by simp
    with Cons.IH [of "Suc i" ?s'] step False show ?thesis
      by (simp del: search_loop.simps)
  qed
qed

lemma daily_inv_run_count [simp]:
  "daily_inv G today (s\<lparr>run_search_count := r\<rparr>) = daily_inv G today s"
  by (simp add: daily_inv_def)

lemma search_loop_daily:
  assumes "daily_inv G today s" "global_daily_search_limit cfg = Some G"
  shows "daily_inv G today (search_loop cfg dry_run today limit i cands s)"
  using assms
proof (induction cands arbitrary: i s)
  case Nil
  then show ?case by simp
next
  case (Cons c cands)
  obtain movie size_bytes last_time env where c: "c = (movie, size_bytes, last_time, env)"
    by (cases c) auto
  show ?case
  proof (cases "int i \<ge> limit \<or> daily_limit_reached cfg s")
    case True
    then show ?thesis using c Cons.prems by auto
  next
    case False
    let ?s' = "(if \<not> dry_run
              then (let s1 = s\<lparr>calls := calls s @ [TriggerSearch (radarr_id movie) (search_result env)]\<rparr>
                    in if search_result env
                       then count_search today
                              (s1\<lparr>db := mark_movie_as_searched movie (searched_at env) (db s1)\<rparr>)
                       else s1)
              else s\<lparr>run_search_count := run_search_count s + 1\<rparr>)"
    have step: "daily_inv G today ?s'"
      using Cons.prems False
      by (auto simp: Let_def daily_inv_unfold split: option.splits)
    from False c have "search_loop cfg dry_run today limit i (c # cands) s
        = search_loop cfg dry_run today limit (Suc i) cands ?s'"
      by simp
    with Cons.IH [OF step Cons.prems(2), of "Suc i"] show ?thesis
      by (simp del: search_loop.simps)
  qed
qed

lemma job_upgrade_run_limit:
  assumes "per_run_search_limit cfg = Some L"
  shows "int (searches_succeeded (job_upgrade cfg lib inp persisted)) \<le> max 0 L"
proof (cases persisted)
  case (Pair table cf)
  let ?movies = "filter (\<lambda>(movie, env). has_upgrade_tag cfg movie) (all_radarr_movies inp)"
  let ?s1 = "clear_tags cfg (upgrade_dry_run inp) ?movies (start_state table cf 0)"
  let ?s2 = "?s1\<lparr>daily_search_count := read_daily_search_count (upgrade_today inp) (counter ?s1)\<rparr>"
  have "int (searches_succeeded (search_loop cfg (upgrade_dry_run inp) (upgrade_today inp) L 0 cands ?s2))
      \<le> max 0 L" for cands
    using search_loop_searches [of cfg "upgrade_dry_run inp" "upgrade_today inp" L 0 cands ?s2]
    by simp
  then show ?thesis
    using Pair assms by (simp add: job_upgrade_def Let_def)
qed

lemma job_upgrade_daily_limit:
  assumes "global_daily_search_limit cfg = Some G" "0 \<le> G" "stored_count cfile \<le> G"
  shows "counter_ok G (job_upgrade cfg lib inp (table, cfile))"
proof -
  let ?movies = "filter (\<lambda>(movie, env). has_upgrade_tag cfg movie) (all_radarr_movies inp)"
  let ?s1 = "clear_tags cfg (upgrade_dry_run inp) ?movies (start_state table cfile 0)"
  let ?s2 = "?s1\<lparr>daily_search_count := read_daily_search_count (upgrade_today inp) (counter ?s1)\<rparr>"
  have keep: "counter ?s1 = cfile" "counts_written (calls ?s1) = []"
    by (simp_all add: start_state_def)
  have inv: "daily_inv G (upgrade_today inp) ?s2"
    using assms(2,3)
    by (auto simp: daily_inv_def read_daily_search_count_def stored_count_def start_state_def
        split: option.splits)
  have ok2: "counter_ok G ?s2"
    using assms(3) by (simp add: counter_ok_def start_state_def)
  have loop: "counter_ok G (finish_run (upgrade_today inp)
      (search_loop cfg (upgrade_dry_run inp) (upgrade_today inp) L 0 cands ?s2))" for L cands
    using search_loop_daily [OF inv assms(1)] by (rule counter_ok_finish_run)
  show ?thesis
  proof (cases "?movies = []")
    case True
    then show ?thesis using assms(3) by (simp add: job_upgrade_def counter_ok_start)
  next
    case False
    show ?thesis
    proof (cases "per_run_search_limit cfg")
      case None
      with False ok2 show ?thesis by (simp add: job_upgrade_def Let_def)
    next
      case (Some L)
      with False loop [of L] show ?thesis by (simp add: job_upgrade_def Let_def)
    qed
  qed
qed

lemma run_jobs_run_limit:
  assumes "per_run_search_limit cfg = Some L"
  shows "\<forall>s \<in> set (run_jobs cfg lib js persisted). int (searches_succeeded s) \<le> max 0 L"
proof (induction js arbitrary: persisted)
  case Nil
  then show ?case by simp
next
  case (Cons j js)
  have "int (searches_succeeded (run_job cfg lib j persisted)) \<le> max 0 L"
    using process_watchlist_run_limit [OF assms] job_upgrade_run_limit [OF assms]
    by (cases j) (simp_all add: run_job_def)
  with Cons.IH show ?case by (simp add: Let_def)
qed

lemma run_jobs_daily_limit:
  assumes "global_daily_search_limit cfg = Some G" "0 \<le> G" "stored_count cfile \<le> G"
  shows "\<forall>s \<in> set (run_jobs cfg lib js (table, cfile)). counter_ok G s"
  using assms(3)
proof (induction js arbitrary: table cfile)
  case Nil
  then show ?case by simp
next
  case (Cons j js)
  have ok: "counter_ok G (run_job cfg lib j (table, cfile))"
    using process_watchlist_daily_limit [OF assms(1,2) Cons.prems]
      job_upgrade_daily_limit [OF assms(1,2) Cons.prems]
    by (cases j) (simp_all add: run_job_def)
  then have "stored_count (counter (run_job cfg lib j (table, cfile))) \<le> G"
    by (simp add: counter_ok_def)
  from Cons.IH [OF this] ok show ?case
    by (simp add: Let_def persisted_of_def)
qed

subsection \<open>One search per item through the sync\<close>

text \<open>Identifiers as the sync normalizes them are fixed points of \<open>strip\<close>.\<close>

lemma is_space_lower_char: "is_space (lower_char c) = is_space c"
proof (cases "map_of (zip ''ABCDEFGHIJKLMNOPQRSTUVWXYZ'' ''abcdefghijklmnopqrstuvwxyz'') c")
  case None
  then show ?thesis by (simp add: lower_char_def)
next
  case (Some d)
  then have "(c, d) \<in> set (zip ''ABCDEFGHIJKLMNOPQRSTUVWXYZ'' ''abcdefghijklmnopqrstuvwxyz'')"
    by (rule map_of_SomeD)
  then have "\<not> is_space c \<and> \<not> is_space d"
    by (auto simp: is_space_def)
  with Some show ?thesis by (simp add: lower_char_def)
qed

lemma py_strip_lower: "py_strip (py_lower x) = py_lower (py_strip x)"
proof -
  have comp: "is_space \<circ> lower_char = is_space"
    by (rule ext) (simp add: is_space_lower_char)
  show ?thesis
    by (simp add: py_strip_def py_lower_def dropWhile_map rev_map comp)
qed

lemma last_dropWhile_nonempty: "dropWhile P xs \<noteq> [] \<Longrightarrow> last (dropWhile P xs) = last xs"
  by (induction xs) (auto split: if_splits)

lemma py_strip_idem: "py_strip (py_strip x) = py_strip x"
proof -
  let ?y = "dropWhile is_space x"
  let ?z = "dropWhile is_space (rev ?y)"
  have "dropWhile is_space (rev ?z) = rev ?z"
  proof (cases "?z = []")
    case True
    show ?thesis unfolding True by simp
  next
    case False
    then have "last ?z = last (rev ?y)" by (rule last_dropWhile_nonempty)
    moreover have y: "?y \<noteq> []"
    proof
      assume a: "?y = []"
      have "?z = []" unfolding a by simp
      with False show False by blast
    qed
    ultimately have "hd (rev ?z) = hd ?y"
      using False by (simp add: hd_rev last_rev)
    moreover have "\<not> is_space (hd ?y)" using y by (rule hd_dropWhile)
    ultimately show ?thesis using False by (simp add: dropWhile_eq_self_iff)
  qed
  then show ?thesis by (simp add: py_strip_def)
qed

lemma norm_imdb_stripped: "py_strip (norm_imdb m) = norm_imdb m"
  by (simp add: norm_imdb_def py_strip_lower py_strip_idem)

lemma py_strip_Nil: "py_strip [] = []"
  by (simp add: py_strip_def)

lemma tmdb_key_stripped: "py_strip (tmdb_key m) = tmdb_key m"
  by (simp add: tmdb_key_def py_strip_idem py_strip_Nil split: option.splits)

lemma clean_id_stripped: "py_strip k = k \<Longrightarrow> k \<noteq> [] \<Longrightarrow> clean_id (Some k) = Some k"
  by (simp add: clean_id_def Let_def)

lemma find_after_update:
  assumes "find P table = Some ex" "\<And>r. Q r \<Longrightarrow> P r" "Q (U ex)" "\<And>r. T (U r)"
  shows "\<exists>row. find Q (map (\<lambda>r. if row_id r = row_id ex then U r else r) table) = Some row \<and> T row"
  using assms(1)
proof (induction table)
  case Nil
  then show ?case by simp
next
  case (Cons a table)
  show ?case
  proof (cases "P a")
    case True
    with Cons.prems have "a = ex" by simp
    with assms(3,4) show ?thesis by simp
  next
    case False
    with Cons.prems have rest: "find P table = Some ex" by simp
    from False assms(2) have "\<not> Q a" by blast
    with Cons.IH [OF rest] assms(4) show ?thesis by auto
  qed
qed

lemma find_after_insert:
  assumes "\<forall>r \<in> set table. \<not> Q r" "Q new"
  shows "find Q (table @ [new]) = Some new"
  using assms by (induction table) auto

lemma find_None_iff_all: "find P xs = None \<longleftrightarrow> (\<forall>x \<in> set xs. \<not> P x)"
  by (induction xs) auto

lemma mark_movie_as_searched_recorded:
  assumes nz: "\<forall>r \<in> set table. row_id r \<noteq> 0"
    and q: "(qi \<noteq> None \<or> qt \<noteq> None)"
      "qi \<noteq> None \<longrightarrow> qi = or_none (imdbId movie)"
      "qt \<noteq> None \<longrightarrow> qt = tmdb_text (tmdbId movie)"
  shows "\<exists>row. find (row_matches None qi qt) (mark_movie_as_searched movie ts table) = Some row
           \<and> last_radarr_search row = Some ts"
proof -
  let ?rk = "or_none (ratingKey movie)" and ?imdb = "or_none (imdbId movie)"
  let ?tmdb = "tmdb_text (tmdbId movie)"
  let ?P = "row_matches ?rk ?imdb ?tmdb" and ?Q = "row_matches None qi qt"
  let ?U = "\<lambda>r. r\<lparr>row_imdb_id := ?imdb, row_tmdb_id := ?tmdb,
                    row_title := Some (title_or_unknown (title movie)),
                    row_year := Some (year_or_0 (year movie)),
                    last_radarr_search := Some ts\<rparr>"
  have QP: "?Q r \<Longrightarrow> ?P r" for r
    using q unfolding row_matches_def by metis
  have QU: "?Q (?U r)" for r
    using q unfolding row_matches_def by (cases "qi = None") simp_all
  have some: "?rk \<noteq> None \<or> ?imdb \<noteq> None \<or> ?tmdb \<noteq> None"
    using q by auto
  show ?thesis
  proof (cases "find ?P table")
    case None
    then have noP: "\<forall>r \<in> set table. \<not> ?P r" by (simp add: find_None_iff_all)
    then have noQ: "\<forall>r \<in> set table. \<not> ?Q r" using QP by blast
    let ?new = "\<lparr>row_id = next_id table, row_rating_key = ?rk, row_imdb_id = ?imdb,
                 row_tmdb_id = ?tmdb, row_title = Some (title_or_unknown (title movie)),
                 row_year = Some (year_or_0 (year movie)),
                 last_radarr_search = Some ts, last_processed = None\<rparr>"
    have free: "\<not> (?rk \<noteq> None \<and> (\<exists>r \<in> set table. row_rating_key r = ?rk))"
      using noP by (auto simp: row_matches_def)
    have ex_none: "existing_row movie table = None"
      using None by (simp add: existing_row_def Let_def)
    have ins: "insert_row ?new table = table @ [?new]"
      using free by (auto simp: insert_row_def)
    have "mark_movie_as_searched movie ts table = table @ [?new]"
      by (simp add: mark_movie_as_searched_def ex_none ins Let_def)
    moreover have "?Q ?new"
      using q unfolding row_matches_def by (cases "qi = None") simp_all
    ultimately show ?thesis using find_after_insert [OF noQ] by simp
  next
    case (Some ex)
    then have "ex \<in> set table" by (auto simp: find_Some_iff)
    with nz have id: "row_id ex \<noteq> 0" by blast
    have "mark_movie_as_searched movie ts table
        = map (\<lambda>r. if row_id r = row_id ex then ?U r else r) table"
      using Some id some by (simp add: mark_movie_as_searched_def existing_row_def Let_def)
    moreover have "\<exists>row. find ?Q (map (\<lambda>r. if row_id r = row_id ex then ?U r else r) table) = Some row
        \<and> last_radarr_search row = Some ts"
      using find_after_update [where P = ?P and Q = ?Q and U = ?U
          and T = "\<lambda>r. last_radarr_search r = Some ts", OF Some QP QU]
      by simp
    ultimately show ?thesis by simp
  qed
qed


lemma get_plex_metadata_by_imdb:
  "k \<noteq> [] \<Longrightarrow> py_strip k = k \<Longrightarrow>
     get_plex_metadata None (Some k) None table = find (row_matches None (Some k) None) table"
  by (simp add: get_plex_metadata_def clean_id_def Let_def)

lemma get_plex_metadata_by_tmdb:
  "k \<noteq> [] \<Longrightarrow> py_strip k = k \<Longrightarrow>
     get_plex_metadata None None (Some k) table = find (row_matches None None (Some k)) table"
  by (simp add: get_plex_metadata_def clean_id_def Let_def)

lemma sync_lookup_after_search:
  assumes nz: "\<forall>row \<in> set table. row_id row \<noteq> 0" and ts: "ts \<noteq> []"
    and keyed: "norm_imdb movie \<noteq> [] \<or> tmdb_key movie \<noteq> []"
    and n1: "norm_imdb movie \<noteq> [] \<longrightarrow> imdbId movie = Some (norm_imdb movie)"
    and n2: "norm_imdb movie = [] \<longrightarrow> tmdb_text (tmdbId movie) = Some (tmdb_key movie)"
  shows "searched_before (sync_db_movie movie (norm_imdb movie) (tmdb_key movie)
           (mark_movie_as_searched movie ts table))"
proof (cases "norm_imdb movie \<noteq> []")
  case True
  with n1 have "or_none (imdbId movie) = Some (norm_imdb movie)"
    by (simp add: or_none_def)
  then obtain row where
    "find (row_matches None (Some (norm_imdb movie)) None) (mark_movie_as_searched movie ts table) = Some row"
    "last_radarr_search row = Some ts"
    using mark_movie_as_searched_recorded [OF nz, of "Some (norm_imdb movie)" None movie ts]
    by auto
  with True ts show ?thesis
    by (simp add: sync_db_movie_def get_plex_metadata_by_imdb norm_imdb_stripped
          searched_before_def or_none_def)
next
  case False
  with keyed n2 have k: "tmdb_key movie \<noteq> []" "tmdb_text (tmdbId movie) = Some (tmdb_key movie)"
    by simp_all
  then obtain row where
    "find (row_matches None None (Some (tmdb_key movie))) (mark_movie_as_searched movie ts table) = Some row"
    "last_radarr_search row = Some ts"
    using mark_movie_as_searched_recorded [OF nz, of None "Some (tmdb_key movie)" movie ts]
    by auto
  with False k ts show ?thesis
    by (simp add: sync_db_movie_def get_plex_metadata_by_tmdb tmdb_key_stripped
          searched_before_def or_none_def)
qed

lemma search_existing_denied:
  "searched_before (sync_db_movie movie imdb_id tmdb_id (db s)) \<Longrightarrow>
     search_existing cfg dry_run today movie env imdb_id tmdb_id r s = s"
  by (simp add: search_existing_def)

lemma search_existing_searched:
  assumes "\<not> dry_run" "eligible_for_upgrade cfg r"
    "\<not> searched_before (sync_db_movie movie imdb_id tmdb_id (db s))"
    "\<not> daily_limit_reached cfg s" "\<not> run_limit_reached cfg s" "search_result env"
  shows "TriggerSearch (radarr_id r) True
           \<in> set (calls (search_existing cfg dry_run today movie env imdb_id tmdb_id r s))"
    and "db (search_existing cfg dry_run today movie env imdb_id tmdb_id r s)
           = mark_movie_as_searched movie (searched_at env) (db s)"
  using assms by (simp_all add: search_existing_def count_search_def Let_def)

lemma handle_new_movie_searches:
  assumes "tmdb_id \<noteq> []" "py_int lib tmdb_id = Some n" "\<not> dry_run" "add_result env = Some added"
    "\<not> daily_limit_reached cfg s" "\<not> run_limit_reached cfg s"
  shows "TriggerSearch (radarr_id added) (search_result env)
           \<in> set (calls (handle_new_movie cfg lib dry_run today movie env tmdb_id s))"
  using assms
  by (auto simp add: handle_new_movie_def daily_limit_reached_def run_limit_reached_def
        count_search_def Let_def split: option.splits)

text \<open>The example run, evaluated step by step.\<close>

lemma example_ids_heat2:
  "or_none (ratingKey p_heat2) = Some ''r2''" "or_none (imdbId p_heat2) = Some ''tt0113277''"
  "tmdb_text (tmdbId p_heat2) = Some ''949''" "tmdb_key p_heat2 = ''949''"
  "title_or_unknown (title p_heat2) = ''Heat''" "year_or_0 (year p_heat2) = 1995"
  by (simp_all add: p_heat2_def or_none_def tmdb_text_def tmdb_key_def title_or_unknown_def
        year_or_0_def dget_def py_strip_def is_space_def)

lemma example_ids_record:
  "or_none (ratingKey example_record) = None" "or_none (imdbId example_record) = Some ''tt0113277''"
  "tmdb_text (tmdbId example_record) = Some ''949''"
  "title_or_unknown (title example_record) = ''Heat''" "year_or_0 (year example_record) = 1995"
  by (simp_all add: example_record_def or_none_def tmdb_text_def title_or_unknown_def
        year_or_0_def dget_def string_of_int_def string_of_nat.simps digit_char_def)

lemma example_save_first: "save_plex_metadata p_heat2 [] = [example_saved_row]"
  by (simp add: save_plex_metadata_def example_ids_heat2 next_id_def example_saved_row_def)

lemma example_save_again: "save_plex_metadata p_heat2 [example_searched_row] = [example_searched_row]"
  by (simp add: save_plex_metadata_def example_ids_heat2)
     (simp add: example_searched_row_def example_saved_row_def)

lemma example_mark_processed:
  "mark_movie_as_processed example_record ''0001-01-05T00:00:00'' [example_saved_row]
     = [example_saved_row\<lparr>last_processed := Some ''0001-01-05T00:00:00''\<rparr>]"
  "mark_movie_as_processed example_record ''0001-01-05T00:00:00'' [example_searched_row]
     = [example_searched_row]"
  by (simp_all add: mark_movie_as_processed_def existing_row_def example_ids_record row_matches_def)
     (simp_all add: example_searched_row_def example_saved_row_def)

lemma example_mark_searched:
  "mark_movie_as_searched example_record ''0001-01-05T00:00:01''
       [example_saved_row\<lparr>last_processed := Some ''0001-01-05T00:00:00''\<rparr>]
     = [example_searched_row]"
  "mark_movie_as_searched example_record ''0001-01-05T00:00:01'' [example_searched_row]
     = [example_searched_row]"
  by (simp_all add: mark_movie_as_searched_def existing_row_def example_ids_record row_matches_def)
     (simp_all add: example_searched_row_def example_saved_row_def)

lemma example_env_added_simps:
  "add_result example_env_added = Some example_record" "search_result example_env_added"
  "processed_at example_env_added = ''0001-01-05T00:00:00''"
  "searched_at example_env_added = ''0001-01-05T00:00:01''"
  by (simp_all add: example_env_added_def example_env_def)

lemma example_limits:
  "per_run_search_limit example_cfg = Some 3" "global_daily_search_limit example_cfg = Some 5"
  by (simp_all add: per_run_search_limit_def global_daily_search_limit_def example_cfg_def dget_def)

lemma example_sync_first:
  "db (process_watchlist example_cfg example_lib example_sync_input ([], None)) = [example_searched_row]"
  "counter (process_watchlist example_cfg example_lib example_sync_input ([], None))
     = Some (''0001-01-05'', 1)"
  "TriggerSearch 7 True
     \<in> set (calls (process_watchlist example_cfg example_lib example_sync_input ([], None)))"
  by (simp_all add: process_watchlist_def example_sync_input_def merge_watchlists_def
        merged_dict_def example_personal_key build_radarr_index_def start_state_def
        read_daily_search_count_def process_movie_def example_save_first example_norm_imdb
        example_ids_heat2 find_in_radarr_def handle_new_movie_def example_lib_def
        example_env_added_simps example_mark_processed example_mark_searched
        daily_limit_reached_def run_limit_reached_def example_limits count_search_def
        increment_daily_search_count_def finish_run_def save_daily_search_count_def Let_def)
     (simp add: example_record_def)


lemma example_sync_second:
  "TriggerSearch 7 True
     \<in> set (calls (process_watchlist example_cfg example_lib example_sync_input
                     ([example_searched_row], Some (''0001-01-05'', 1))))"
  by (simp add: process_watchlist_def example_sync_input_def merge_watchlists_def
        merged_dict_def example_personal_key build_radarr_index_def start_state_def
        read_daily_search_count_def process_movie_def example_save_again example_norm_imdb
        example_ids_heat2 find_in_radarr_def handle_new_movie_def example_lib_def
        example_env_added_simps example_mark_processed example_mark_searched
        daily_limit_reached_def run_limit_reached_def example_limits count_search_def
        increment_daily_search_count_def finish_run_def save_daily_search_count_def Let_def)
     (simp add: example_record_def)

lemma example_sync_lookup:
  "sync_db_movie p_heat2 (norm_imdb p_heat2) (tmdb_key p_heat2) [example_searched_row]
     = Some example_searched_row"
  by (simp add: sync_db_movie_def example_norm_imdb get_plex_metadata_def clean_id_def
        py_strip_def is_space_def row_matches_def)
     (simp add: example_searched_row_def example_saved_row_def)

text \<open>
  C3, as amended. For an item that resolves to an existing library record, the sync does
  not search when the cache row found for it (by normalized IMDb id, else by TMDB id, else
  by rating key) carries a non-empty last-search timestamp: the state is returned unchanged.
  When such an item is searched and the search call succeeds, \<open>mark_movie_as_searched\<close>
  records the timestamp so that the same lookup on the resulting cache finds it, and a
  further pass over the item on that cache, in this or a later run, changes nothing; this
  holds when the item carries an identifier, its IMDb id is stored in normalized form (or,
  lacking one, its TMDB id is), and row ids are non-zero, as SQLite assigns them. The branch
  that creates a new library record triggers its search within the limits whatever the
  cache holds.
\<close>

theorem sync_search_once_per_existing_item:
  "(searched_before (sync_db_movie movie imdb_id tmdb_id (db s0))
      \<longrightarrow> search_existing cfg dry_run0 today0 movie env0 imdb_id tmdb_id r0 s0 = s0)
   \<and> (\<not> dry_run \<and> eligible_for_upgrade cfg r
        \<and> \<not> searched_before (sync_db_movie movie (norm_imdb movie) (tmdb_key movie) (db s))
        \<and> \<not> daily_limit_reached cfg s \<and> \<not> run_limit_reached cfg s
        \<and> search_result env \<and> searched_at env \<noteq> []
        \<and> (\<forall>row \<in> set (db s). row_id row \<noteq> 0)
        \<and> (norm_imdb movie \<noteq> [] \<or> tmdb_key movie \<noteq> [])
        \<and> (norm_imdb movie \<noteq> [] \<longrightarrow> imdbId movie = Some (norm_imdb movie))
        \<and> (norm_imdb movie = [] \<longrightarrow> tmdb_text (tmdbId movie) = Some (tmdb_key movie))
      \<longrightarrow> TriggerSearch (radarr_id r) True
            \<in> set (calls (search_existing cfg dry_run today movie env
                            (norm_imdb movie) (tmdb_key movie) r s))
        \<and> searched_before (sync_db_movie movie (norm_imdb movie) (tmdb_key movie)
             (db (search_existing cfg dry_run today movie env
                    (norm_imdb movie) (tmdb_key movie) r s)))
        \<and> search_existing cfg dry_run' today' movie env' (norm_imdb movie) (tmdb_key movie) r'
             (search_existing cfg dry_run today movie env (norm_imdb movie) (tmdb_key movie) r s)
           = search_existing cfg dry_run today movie env (norm_imdb movie) (tmdb_key movie) r s)
   \<and> (tmdb_id1 \<noteq> [] \<and> py_int lib tmdb_id1 = Some n \<and> \<not> dry_run1
        \<and> add_result env1 = Some added
        \<and> \<not> daily_limit_reached cfg s1 \<and> \<not> run_limit_reached cfg s1
      \<longrightarrow> TriggerSearch (radarr_id added) (search_result env1)
            \<in> set (calls (handle_new_movie cfg lib dry_run1 today1 movie env1 tmdb_id1 s1)))"
proof -
  let ?s' = "search_existing cfg dry_run today movie env (norm_imdb movie) (tmdb_key movie) r s"
  have b: "TriggerSearch (radarr_id r) True \<in> set (calls ?s')
        \<and> searched_before (sync_db_movie movie (norm_imdb movie) (tmdb_key movie) (db ?s'))
        \<and> search_existing cfg dry_run' today' movie env' (norm_imdb movie) (tmdb_key movie) r' ?s' = ?s'"
    if h: "\<not> dry_run" "eligible_for_upgrade cfg r"
        "\<not> searched_before (sync_db_movie movie (norm_imdb movie) (tmdb_key movie) (db s))"
        "\<not> daily_limit_reached cfg s" "\<not> run_limit_reached cfg s"
        "search_result env" "searched_at env \<noteq> []"
        "\<forall>row \<in> set (db s). row_id row \<noteq> 0"
        "norm_imdb movie \<noteq> [] \<or> tmdb_key movie \<noteq> []"
        "norm_imdb movie \<noteq> [] \<longrightarrow> imdbId movie = Some (norm_imdb movie)"
        "norm_imdb movie = [] \<longrightarrow> tmdb_text (tmdbId movie) = Some (tmdb_key movie)"
  proof -
    note res = search_existing_searched [OF h(1-6)]
    have "searched_before (sync_db_movie movie (norm_imdb movie) (tmdb_key movie) (db ?s'))"
      using sync_lookup_after_search [OF h(8) h(7) h(9) h(10) h(11)] res(2) by simp
    with res(1) search_existing_denied show ?thesis by blast
  qed
  from b search_existing_denied [of movie imdb_id tmdb_id s0 cfg dry_run0 today0 env0 r0]
    handle_new_movie_searches [of tmdb_id1 lib n dry_run1 env1 added cfg s1 today1 movie]
  show ?thesis by blast
qed

theorem sync_search_once_per_existing_item_witness:
  "search_existing example_cfg False ''0001-01-06'' p_heat2 (example_env 0)
       (norm_imdb p_heat2) (tmdb_key p_heat2) example_record (start_state [example_searched_row] None 0)
     = start_state [example_searched_row] None 0
   \<and> \<not> searched_before (sync_db_movie p_heat2 (norm_imdb p_heat2) (tmdb_key p_heat2) [example_saved_row])
   \<and> TriggerSearch 7 True
        \<in> set (calls (search_existing example_cfg False ''0001-01-05'' p_heat2 (example_env 0)
                        (norm_imdb p_heat2) (tmdb_key p_heat2) example_record
                        (start_state [example_saved_row] None 0)))
   \<and> searched_before (sync_db_movie p_heat2 (norm_imdb p_heat2) (tmdb_key p_heat2)
        (db (search_existing example_cfg False ''0001-01-05'' p_heat2 (example_env 0)
               (norm_imdb p_heat2) (tmdb_key p_heat2) example_record
               (start_state [example_saved_row] None 0))))
   \<and> search_existing example_cfg False ''0001-01-06'' p_heat2 (example_env 0)
        (norm_imdb p_heat2) (tmdb_key p_heat2) example_record
        (search_existing example_cfg False ''0001-01-05'' p_heat2 (example_env 0)
           (norm_imdb p_heat2) (tmdb_key p_heat2) example_record
           (start_state [example_saved_row] None 0))
     = search_existing example_cfg False ''0001-01-05'' p_heat2 (example_env 0)
         (norm_imdb p_heat2) (tmdb_key p_heat2) example_record
         (start_state [example_saved_row] None 0)
   \<and> TriggerSearch 7 True
        \<in> set (calls (handle_new_movie example_cfg example_lib False ''0001-01-05'' p_heat2
                        example_env_added ''949'' (start_state [example_searched_row] None 0)))"
proof -
  let ?e = "example_env 0" and ?i = "norm_imdb p_heat2" and ?t = "tmdb_key p_heat2"
  let ?new = "start_state [example_saved_row] None 0"
  let ?old = "start_state [example_searched_row] None 0"
  have dbs: "db ?new = [example_saved_row]" "db ?old = [example_searched_row]"
    by (simp_all add: start_state_def)
  have old: "searched_before (sync_db_movie p_heat2 ?i ?t (db ?old))"
    unfolding dbs example_sync_lookup
    by (simp add: searched_before_def or_none_def example_searched_row_def)
  have new: "\<not> searched_before (sync_db_movie p_heat2 ?i ?t (db ?new))"
    unfolding dbs
    by (simp add: sync_db_movie_def example_norm_imdb get_plex_metadata_def clean_id_def
          py_strip_def is_space_def row_matches_def searched_before_def or_none_def
          example_saved_row_def Let_def)
  have elig: "eligible_for_upgrade example_cfg example_record"
    using example_below_threshold by (simp add: meets_threshold_iff)
  have lim: "\<not> daily_limit_reached example_cfg ?new" "\<not> run_limit_reached example_cfg ?new"
    "\<not> daily_limit_reached example_cfg ?old" "\<not> run_limit_reached example_cfg ?old"
    by (simp_all add: daily_limit_reached_def run_limit_reached_def example_limits start_state_def)
  have env: "search_result ?e" "searched_at ?e \<noteq> []"
    by (simp_all add: example_env_def)
  have ids: "\<forall>row \<in> set (db ?new). row_id row \<noteq> 0"
    unfolding dbs by (simp add: example_saved_row_def)
  have keyed: "?i \<noteq> [] \<or> ?t \<noteq> []" "?i \<noteq> [] \<longrightarrow> imdbId p_heat2 = Some ?i"
    "?i = [] \<longrightarrow> tmdb_text (tmdbId p_heat2) = Some ?t"
    by (simp_all add: example_norm_imdb) (simp add: p_heat2_def)
  have added: "''949'' \<noteq> []" "py_int example_lib ''949'' = Some 949"
    "add_result example_env_added = Some example_record" "radarr_id example_record = 7"
    "search_result example_env_added = True"
    by (simp_all add: example_lib_def example_env_added_simps example_record_def)
  note inst = sync_search_once_per_existing_item
    [where cfg = example_cfg and movie = p_heat2 and imdb_id = ?i and tmdb_id = ?t
       and ?tmdb_id1.0 = "''949''" and ?dry_run1.0 = False and ?today1.0 = "''0001-01-05''"
       and ?env1.0 = example_env_added and ?s1.0 = ?old
       and ?s0.0 = ?old and ?dry_run0.0 = False and ?today0.0 = "''0001-01-06''" and ?env0.0 = ?e
       and ?r0.0 = example_record
       and s = ?new and dry_run = False and today = "''0001-01-05''" and env = ?e
       and r = example_record
       and dry_run' = False and today' = "''0001-01-06''" and env' = ?e and r' = example_record
       and lib = example_lib and n = 949 and added = example_record]
  from inst old
  have r1: "search_existing example_cfg False ''0001-01-06'' p_heat2 ?e ?i ?t example_record ?old = ?old"
    by blast
  let ?s' = "search_existing example_cfg False ''0001-01-05'' p_heat2 ?e ?i ?t example_record ?new"
  from inst elig new lim(1,2) env ids keyed
  have r2: "TriggerSearch (radarr_id example_record) True \<in> set (calls ?s')
      \<and> searched_before (sync_db_movie p_heat2 ?i ?t (db ?s'))
      \<and> search_existing example_cfg False ''0001-01-06'' p_heat2 ?e ?i ?t example_record ?s' = ?s'"
    by blast
  from inst added(1-3) lim(3,4)
  have r3: "TriggerSearch (radarr_id example_record) (search_result example_env_added)
      \<in> set (calls (handle_new_movie example_cfg example_lib False ''0001-01-05'' p_heat2
                      example_env_added ''949'' ?old))"
    by blast
  from new have new': "\<not> searched_before (sync_db_movie p_heat2 ?i ?t [example_saved_row])"
    unfolding dbs .
  from r1 r2 r3 new' show ?thesis
    unfolding added(4,5) by blast
qed

text \<open>
  C3, as stated, fails: an item absent from the library is created and searched for; when
  the library no longer holds it at the next run, the item is created and searched for
  again although its cache row, found by the lookup of the sync, carries the timestamp of
  the first search.
\<close>

theorem sync_searches_recreated_item_again:
  "persisted_of (process_watchlist example_cfg example_lib example_sync_input ([], None))
     = ([example_searched_row], Some (''0001-01-05'', 1))
   \<and> TriggerSearch 7 True
        \<in> set (calls (process_watchlist example_cfg example_lib example_sync_input ([], None)))
   \<and> sync_db_movie p_heat2 (norm_imdb p_heat2) (tmdb_key p_heat2) [example_searched_row]
        = Some example_searched_row
   \<and> last_radarr_search example_searched_row = Some ''0001-01-05T00:00:01''
   \<and> TriggerSearch 7 True
        \<in> set (calls (process_watchlist example_cfg example_lib example_sync_input
                        ([example_searched_row], Some (''0001-01-05'', 1))))"
  using example_sync_first example_sync_second example_sync_lookup
  by (simp add: persisted_of_def example_searched_row_def)

subsection \<open>The search limits\<close>

lemma issued_db [simp]: "searches_issued (s\<lparr>db := d\<rparr>) = searches_issued s"
  by (simp add: searches_issued_def)

lemma issued_daily [simp]: "searches_issued (s\<lparr>daily_search_count := d\<rparr>) = searches_issued s"
  by (simp add: searches_issued_def)

lemma issued_run [simp]: "searches_issued (s\<lparr>run_search_count := d\<rparr>) = searches_issued s"
  by (simp add: searches_issued_def)

lemma issued_count_search [simp]: "searches_issued (count_search today s) = searches_issued s"
  by (simp add: searches_issued_def count_search_def)

lemma issued_finish_run [simp]: "searches_issued (finish_run today s) = searches_issued s"
  by (simp add: searches_issued_def finish_run_def)

lemma issued_start_state [simp]: "searches_issued (start_state table cf d) = 0"
  by (simp add: searches_issued_def start_state_def)

lemma issued_clear_tag [simp]: "searches_issued (clear_tag cfg dry_run movie env s) = searches_issued s"
  by (simp add: clear_tag_def Let_def searches_issued_def)

lemma issued_clear_tags [simp]: "searches_issued (clear_tags cfg dry_run movies s) = searches_issued s"
  by (induction movies arbitrary: s) auto

lemma search_loop_issued:
  "int (searches_issued (search_loop cfg dry_run today limit i cands s))
     \<le> int (searches_issued s) + max 0 (limit - int i)"
proof (induction cands arbitrary: i s)
  case Nil
  then show ?case by simp
next
  case (Cons c cands)
  obtain movie size_bytes last_time env where c: "c = (movie, size_bytes, last_time, env)"
    by (cases c) auto
  show ?case
  proof (cases "int i \<ge> limit \<or> daily_limit_reached cfg s")
    case True
    then show ?thesis using c by auto
  next
    case False
    let ?s' = "(if \<not> dry_run
              then (let s1 = s\<lparr>calls := calls s @ [TriggerSearch (radarr_id movie) (search_result env)]\<rparr>
                    in if search_result env
                       then count_search today
                              (s1\<lparr>db := mark_movie_as_searched movie (searched_at env) (db s1)\<rparr>)
                       else s1)
              else s\<lparr>run_search_count := run_search_count s + 1\<rparr>)"
    have step: "int (searches_issued ?s') \<le> int (searches_issued s) + 1"
      by (simp add: Let_def) (simp add: searches_issued_def)
    from False c have "search_loop cfg dry_run today limit i (c # cands) s
        = search_loop cfg dry_run today limit (Suc i) cands ?s'"
      by simp
    with Cons.IH [of "Suc i" ?s'] step False show ?thesis
      by (simp del: search_loop.simps)
  qed
qed

lemma job_upgrade_issued_limit:
  assumes "per_run_search_limit cfg = Some L"
  shows "int (searches_issued (job_upgrade cfg lib inp persisted)) \<le> max 0 L"
proof (cases persisted)
  case (Pair table cf)
  let ?movies = "filter (\<lambda>(movie, env). has_upgrade_tag cfg movie) (all_radarr_movies inp)"
  let ?s1 = "clear_tags cfg (upgrade_dry_run inp) ?movies (start_state table cf 0)"
  let ?s2 = "?s1\<lparr>daily_search_count := read_daily_search_count (upgrade_today inp) (counter ?s1)\<rparr>"
  have "int (searches_issued (search_loop cfg (upgrade_dry_run inp) (upgrade_today inp) L 0 cands ?s2))
      \<le> max 0 L" for cands
    using search_loop_issued [of cfg "upgrade_dry_run inp" "upgrade_today inp" L 0 cands ?s2]
    by simp
  then show ?thesis
    using Pair assms by (simp add: job_upgrade_def Let_def)
qed

lemmas counted_unfold = run_counted_def daily_counted_def searches_succeeded_def count_search_def

lemma counted_update_existing:
  "run_counted s \<Longrightarrow> run_counted (update_existing cfg dry_run env r payload s)"
  "daily_counted base s \<Longrightarrow> daily_counted base (update_existing cfg dry_run env r payload s)"
  by (simp_all add: update_existing_def Let_def counted_unfold)

lemma counted_search_existing:
  "run_counted s \<Longrightarrow> run_counted (search_existing cfg dry_run today movie env imdb_id tmdb_id r s)"
  "daily_counted base s \<Longrightarrow> daily_counted base (search_existing cfg dry_run today movie env imdb_id tmdb_id r s)"
  by (simp_all add: search_existing_def Let_def counted_unfold)

lemma counted_handle_new_movie:
  "run_counted s \<Longrightarrow> run_counted (handle_new_movie cfg lib dry_run today movie env tmdb_id s)"
  "daily_counted base s \<Longrightarrow> daily_counted base (handle_new_movie cfg lib dry_run today movie env tmdb_id s)"
  by (simp_all add: handle_new_movie_def Let_def counted_unfold split: option.splits)

lemma counted_db [simp]:
  "run_counted (s\<lparr>db := d\<rparr>) = run_counted s"
  "daily_counted base (s\<lparr>db := d\<rparr>) = daily_counted base s"
  by (simp_all add: counted_unfold)

lemma counted_process_movie:
  "run_counted s \<Longrightarrow> run_counted (process_movie cfg lib dry_run today radarr_index movie env s)"
  "daily_counted base s \<Longrightarrow> daily_counted base (process_movie cfg lib dry_run today radarr_index movie env s)"
  by (simp_all add: process_movie_def handle_existing_movie_def Let_def counted_update_existing
        counted_search_existing counted_handle_new_movie split: option.splits)

lemma counted_process_movies:
  "run_counted s \<Longrightarrow> run_counted (process_movies cfg lib dry_run today radarr_index env k movies s)"
  "daily_counted base s \<Longrightarrow> daily_counted base (process_movies cfg lib dry_run today radarr_index env k movies s)"
  by (induction movies arbitrary: k s) (simp_all add: counted_process_movie del: process_movie_def)

lemma process_watchlist_counted:
  assumes "connected inp"
  shows "run_search_count (process_watchlist cfg lib inp (table, cfile))
           = int (searches_succeeded (process_watchlist cfg lib inp (table, cfile)))"
    and "daily_search_count (process_watchlist cfg lib inp (table, cfile))
           = read_daily_search_count (sync_today inp) cfile
             + int (searches_succeeded (process_watchlist cfg lib inp (table, cfile)))"
    and "counter (process_watchlist cfg lib inp (table, cfile))
           = Some (sync_today inp, read_daily_search_count (sync_today inp) cfile
                     + int (searches_succeeded (process_watchlist cfg lib inp (table, cfile))))"
proof -
  let ?s0 = "start_state table cfile (read_daily_search_count (sync_today inp) cfile)"
  let ?s1 = "process_movies cfg lib (sync_dry_run inp) (sync_today inp)
               (build_radarr_index (library inp)) (sync_env inp) 0
               (merge_watchlists (personal_list inp) (friends_list inp)) ?s0"
  have "run_counted ?s0" "daily_counted (read_daily_search_count (sync_today inp) cfile) ?s0"
    by (simp_all add: counted_unfold start_state_def)
  then have c: "run_counted ?s1" "daily_counted (read_daily_search_count (sync_today inp) cfile) ?s1"
    by (simp_all add: counted_process_movies)
  have pw: "process_watchlist cfg lib inp (table, cfile) = finish_run (sync_today inp) ?s1"
    using assms by (simp add: process_watchlist_def Let_def)
  from c show "run_search_count (process_watchlist cfg lib inp (table, cfile))
           = int (searches_succeeded (process_watchlist cfg lib inp (table, cfile)))"
    unfolding pw by (simp add: run_counted_def finish_run_def searches_succeeded_def)
  from c show "daily_search_count (process_watchlist cfg lib inp (table, cfile))
           = read_daily_search_count (sync_today inp) cfile
             + int (searches_succeeded (process_watchlist cfg lib inp (table, cfile)))"
    unfolding pw by (simp add: daily_counted_def finish_run_def searches_succeeded_def)
  from c show "counter (process_watchlist cfg lib inp (table, cfile))
           = Some (sync_today inp, read_daily_search_count (sync_today inp) cfile
                     + int (searches_succeeded (process_watchlist cfg lib inp (table, cfile))))"
    unfolding pw
    by (simp add: daily_counted_def finish_run_def searches_succeeded_def save_daily_search_count_def)
qed

lemma search_loop_daily_counted:
  assumes "daily_counted base s"
  shows "daily_counted base (search_loop cfg dry_run today limit i cands s)"
  using assms
proof (induction cands arbitrary: i s)
  case Nil
  then show ?case by simp
next
  case (Cons c cands)
  obtain movie size_bytes last_time env where c: "c = (movie, size_bytes, last_time, env)"
    by (cases c) auto
  show ?case
  proof (cases "int i \<ge> limit \<or> daily_limit_reached cfg s")
    case True
    then show ?thesis using c Cons.prems by auto
  next
    case False
    let ?s' = "(if \<not> dry_run
              then (let s1 = s\<lparr>calls := calls s @ [TriggerSearch (radarr_id movie) (search_result env)]\<rparr>
                    in if search_result env
                       then count_search today
                              (s1\<lparr>db := mark_movie_as_searched movie (searched_at env) (db s1)\<rparr>)
                       else s1)
              else s\<lparr>run_search_count := run_search_count s + 1\<rparr>)"
    have step: "daily_counted base ?s'"
      using Cons.prems by (simp add: Let_def counted_unfold)
    from False c have "search_loop cfg dry_run today limit i (c # cands) s
        = search_loop cfg dry_run today limit (Suc i) cands ?s'"
      by simp
    with Cons.IH [OF step, of "Suc i"] show ?thesis
      by (simp del: search_loop.simps)
  qed
qed

lemma search_loop_run_counted:
  assumes "run_counted s" "\<not> dry_run"
  shows "run_counted (search_loop cfg dry_run today limit i cands s)"
  using assms(1)
proof (induction cands arbitrary: i s)
  case Nil
  then show ?case by simp
next
  case (Cons c cands)
  obtain movie size_bytes last_time env where c: "c = (movie, size_bytes, last_time, env)"
    by (cases c) auto
  show ?case
  proof (cases "int i \<ge> limit \<or> daily_limit_reached cfg s")
    case True
    then show ?thesis using c Cons.prems by auto
  next
    case False
    let ?s' = "(let s1 = s\<lparr>calls := calls s @ [TriggerSearch (radarr_id movie) (search_result env)]\<rparr>
               in if search_result env
                  then count_search today
                         (s1\<lparr>db := mark_movie_as_searched movie (searched_at env) (db s1)\<rparr>)
                  else s1)"
    have step: "run_counted ?s'"
      using Cons.prems by (simp add: Let_def counted_unfold)
    from False c assms(2) have "search_loop cfg dry_run today limit i (c # cands) s
        = search_loop cfg dry_run today limit (Suc i) cands ?s'"
      by simp
    with Cons.IH [OF step, of "Suc i"] show ?thesis
      by (simp del: search_loop.simps)
  qed
qed

lemma counted_clear_tags:
  "searches_succeeded (clear_tags cfg dry_run movies s) = searches_succeeded s"
  "run_search_count (clear_tags cfg dry_run movies s) = run_search_count s"
  by (induction movies arbitrary: s) (auto simp: clear_tag_def Let_def)

lemma job_upgrade_counted:
  assumes "filter (\<lambda>(m, e). has_upgrade_tag cfg m) (all_radarr_movies inp) \<noteq> []"
    and "per_run_search_limit cfg = Some L"
  shows "daily_search_count (job_upgrade cfg lib inp (table, cfile))
           = read_daily_search_count (upgrade_today inp) cfile
             + int (searches_succeeded (job_upgrade cfg lib inp (table, cfile)))"
    and "counter (job_upgrade cfg lib inp (table, cfile))
           = Some (upgrade_today inp, read_daily_search_count (upgrade_today inp) cfile
                     + int (searches_succeeded (job_upgrade cfg lib inp (table, cfile))))"
    and "\<not> upgrade_dry_run inp \<Longrightarrow>
         run_search_count (job_upgrade cfg lib inp (table, cfile))
           = int (searches_succeeded (job_upgrade cfg lib inp (table, cfile)))"
proof -
  let ?movies = "filter (\<lambda>(movie, env). has_upgrade_tag cfg movie) (all_radarr_movies inp)"
  let ?s1 = "clear_tags cfg (upgrade_dry_run inp) ?movies (start_state table cfile 0)"
  let ?s2 = "?s1\<lparr>daily_search_count := read_daily_search_count (upgrade_today inp) (counter ?s1)\<rparr>"
  let ?b = "read_daily_search_count (upgrade_today inp) cfile"
  have keep: "counter ?s1 = cfile" "searches_succeeded ?s1 = 0" "run_search_count ?s1 = 0"
    by (simp_all add: counted_clear_tags) (simp_all add: start_state_def)
  have s2: "daily_counted ?b ?s2" "run_counted ?s2"
    using keep by (simp_all add: daily_counted_def run_counted_def)
  let ?loop = "\<lambda>cands. search_loop cfg (upgrade_dry_run inp) (upgrade_today inp) L 0 cands ?s2"
  define cands where "cands =
    (if L \<le> 0 then []
     else if daily_limit_reached cfg ?s2 then []
     else prioritize (find_candidates cfg lib (db ?s2) ?movies))"
  have j: "job_upgrade cfg lib inp (table, cfile) = finish_run (upgrade_today inp) (?loop cands)"
    using assms by (simp add: job_upgrade_def Let_def cands_def)
  have d: "daily_counted ?b (?loop cands)"
    using search_loop_daily_counted [OF s2(1)] .
  from d show "daily_search_count (job_upgrade cfg lib inp (table, cfile))
           = ?b + int (searches_succeeded (job_upgrade cfg lib inp (table, cfile)))"
    unfolding j by (simp add: daily_counted_def finish_run_def searches_succeeded_def)
  from d show "counter (job_upgrade cfg lib inp (table, cfile))
           = Some (upgrade_today inp, ?b + int (searches_succeeded (job_upgrade cfg lib inp (table, cfile))))"
    unfolding j
    by (simp add: daily_counted_def finish_run_def searches_succeeded_def save_daily_search_count_def)
  show "run_search_count (job_upgrade cfg lib inp (table, cfile))
           = int (searches_succeeded (job_upgrade cfg lib inp (table, cfile)))"
    if "\<not> upgrade_dry_run inp"
    using search_loop_run_counted [OF s2(2) that, of cfg "upgrade_today inp" L 0 cands]
    unfolding j by (simp add: run_counted_def finish_run_def searches_succeeded_def)
qed

lemma search_existing_checks:
  assumes "global_daily_search_limit cfg = Some G \<and> G \<le> daily_search_count s
           \<or> per_run_search_limit cfg = Some L \<and> L \<le> run_search_count s"
  shows "search_existing cfg dry_run today movie env imdb_id tmdb_id r s = s"
  using assms by (auto simp: search_existing_def daily_limit_reached_def run_limit_reached_def)

lemma handle_new_movie_checks:
  assumes "global_daily_search_limit cfg = Some G \<and> G \<le> daily_search_count s
           \<or> per_run_search_limit cfg = Some L \<and> L \<le> run_search_count s"
  shows "searches_issued (handle_new_movie cfg lib dry_run today movie env tmdb_id s) = searches_issued s"
  using assms
  by (auto simp: handle_new_movie_def daily_limit_reached_def run_limit_reached_def Let_def
        searches_issued_def split: option.splits)

lemma search_loop_checks:
  assumes "limit \<le> int k \<or> global_daily_search_limit cfg = Some G \<and> G \<le> daily_search_count s"
  shows "search_loop cfg dry_run today limit k cands s = s"
proof (cases cands)
  case Nil
  then show ?thesis by simp
next
  case (Cons c rest)
  obtain movie size_bytes last_time env where c: "c = (movie, size_bytes, last_time, env)"
    by (cases c) auto
  from assms show ?thesis
    unfolding Cons c by (auto simp: daily_limit_reached_def)
qed

lemma read_daily_search_count_cases:
  "read_daily_search_count today None = 0"
  "read_daily_search_count today (Some (today, c)) = c"
  "d \<noteq> today \<Longrightarrow> read_daily_search_count today (Some (d, c)) = 0"
  by (simp_all add: read_daily_search_count_def)

text \<open>The example runs, evaluated step by step.\<close>

lemma example_limited:
  "per_run_search_limit example_cfg_limited = Some 1"
  "global_daily_search_limit example_cfg_limited = Some 2"
  by (simp_all add: per_run_search_limit_def global_daily_search_limit_def example_cfg_limited_def
        example_cfg_def dget_def)

lemma example_ronin:
  "norm_imdb p_ronin = ''tt0122690''" "personal_key p_ronin = Some ''tt0122690''"
  "tmdb_key p_ronin = ''8195''"
  by (simp_all add: personal_key_def tmdb_key_def string_eval p_ronin_def)

lemma example_two_merge: "merge_watchlists [p_heat2, p_ronin] [] = [p_heat2, p_ronin]"
  by (simp add: merge_watchlists_def merged_dict_def example_personal_key example_ronin)

lemma example_env_two_simps:
  "add_result (example_env_two ok 0) = Some example_record"
  "add_result (example_env_two ok (Suc 0)) = Some example_record_ronin"
  "search_result (example_env_two ok i) = ok"
  "radarr_id example_record = 7" "radarr_id example_record_ronin = 8"
  "py_int example_lib_two ''949'' = Some 949" "py_int example_lib_two ''8195'' = Some 8195"
  by (simp_all add: example_env_two_def example_env_def example_record_ronin_def example_record_def
        example_lib_two_def)

lemmas example_two_sync_eval = process_watchlist_def example_two_sync_def example_two_merge
  build_radarr_index_def start_state_def read_daily_search_count_def process_movie_def
  example_norm_imdb example_ronin example_ids_heat2 find_in_radarr_def handle_new_movie_def
  example_env_two_simps daily_limit_reached_def run_limit_reached_def example_limited
  count_search_def increment_daily_search_count_def finish_run_def save_daily_search_count_def
  Let_def

lemma example_two_sync_failing:
  "filter is_search_call
     (calls (process_watchlist example_cfg_limited example_lib_two (example_two_sync False) (table, None)))
   = [TriggerSearch 7 False, TriggerSearch 8 False]"
  "run_search_count
     (process_watchlist example_cfg_limited example_lib_two (example_two_sync False) (table, None)) = 0"
  by (simp_all add: example_two_sync_eval)

lemma example_two_sync_first:
  "filter is_search_call
     (calls (process_watchlist example_cfg_limited example_lib_two (example_two_sync True) (table, None)))
   = [TriggerSearch 7 True]"
  "counter (process_watchlist example_cfg_limited example_lib_two (example_two_sync True) (table, None))
   = Some (''0001-01-05'', 1)"
  by (simp_all add: example_two_sync_eval)

lemma example_two_sync_second:
  "filter is_search_call
     (calls (process_watchlist example_cfg_limited example_lib_two (example_two_sync True)
               (table, Some (''0001-01-05'', 1))))
   = [TriggerSearch 7 True]"
  "counter (process_watchlist example_cfg_limited example_lib_two (example_two_sync True)
               (table, Some (''0001-01-05'', 1)))
   = Some (''0001-01-05'', 2)"
  by (simp_all add: example_two_sync_eval)

lemma example_two_sync_third:
  "filter is_search_call
     (calls (process_watchlist example_cfg_limited example_lib_two (example_two_sync True)
               (table, Some (''0001-01-05'', 2))))
   = []"
  "counter (process_watchlist example_cfg_limited example_lib_two (example_two_sync True)
               (table, Some (''0001-01-05'', 2)))
   = Some (''0001-01-05'', 2)"
  by (simp_all add: example_two_sync_eval)


lemma never_searched: "last_search_time lib [] movie = datetime_min"
  by (simp add: last_search_time_def upgrade_db_record_def get_plex_metadata_def Let_def)

lemma example_two_sweep_records:
  "has_upgrade_tag example_cfg_limited example_record"
  "has_upgrade_tag example_cfg_limited example_record_ronin"
  "\<not> meets_threshold example_cfg_limited example_record"
  "\<not> meets_threshold example_cfg_limited example_record_ronin"
  "dget (sizeOnDisk example_record) 0 = 1000" "dget (sizeOnDisk example_record_ronin) 0 = 2000"
  by (simp_all add: has_upgrade_tag_def meets_threshold_def min_size_bytes_def example_cfg_limited_def
        example_cfg_def example_record_ronin_def example_record_def dget_def)

lemma example_two_candidates:
  "find_candidates example_cfg_limited example_lib_two []
     [(example_record, example_env_two ok 0), (example_record_ronin, example_env_two ok (Suc 0))]
   = [(example_record, 1000, datetime_min, example_env_two ok 0),
      (example_record_ronin, 2000, datetime_min, example_env_two ok (Suc 0))]"
proof -
  have recent: "\<not> searched_recently (now (example_env_two ok i)) datetime_min" for i
    by (simp add: searched_recently_def example_env_two_def example_env_def datetime_min_def
          microseconds_per_day_def microseconds_per_hour_def)
  show ?thesis
    by (simp add: Let_def never_searched recent example_two_sweep_records example_env_two_simps)
qed

lemma example_two_prioritized:
  "prioritize [(example_record, 1000, datetime_min, example_env_two ok 0),
               (example_record_ronin, 2000, datetime_min, example_env_two ok (Suc 0))]
   = [(example_record, 1000, datetime_min, example_env_two ok 0),
      (example_record_ronin, 2000, datetime_min, example_env_two ok (Suc 0))]"
  by (simp add: prioritize_def candidate_key_def)

lemma example_two_sweep_failing:
  "filter is_search_call
     (calls (job_upgrade example_cfg_limited example_lib_two (example_two_sweep False) ([], None)))
   = [TriggerSearch 7 False]"
  by (simp add: job_upgrade_def example_two_sweep_def example_two_sweep_records clear_tag_def
        start_state_def read_daily_search_count_def example_two_candidates example_two_prioritized
        daily_limit_reached_def example_limited example_env_two_simps count_search_def
        finish_run_def Let_def del: find_candidates.simps)

lemma example_two_sync_succeeded:
  "searches_succeeded
     (process_watchlist example_cfg_limited example_lib_two (example_two_sync True) (table, None)) = 1"
  "searches_succeeded
     (process_watchlist example_cfg_limited example_lib_two (example_two_sync True)
        (table, Some (''0001-01-05'', 1))) = 1"
  "searches_succeeded
     (process_watchlist example_cfg_limited example_lib_two (example_two_sync True)
        (table, Some (''0001-01-05'', 2))) = 0"
  by (simp_all add: searches_succeeded_def example_two_sync_eval)

lemma example_two_sweep_succeeded:
  "searches_succeeded
     (job_upgrade example_cfg_limited example_lib_two (example_two_sweep False) ([], None)) = 0"
  by (simp add: searches_succeeded_def job_upgrade_def example_two_sweep_def example_two_sweep_records
        clear_tag_def start_state_def read_daily_search_count_def example_two_candidates
        example_two_prioritized daily_limit_reached_def example_limited example_env_two_simps
        count_search_def finish_run_def Let_def del: find_candidates.simps)

text \<open>
  C1, as amended. The limits bound the searches that succeed, which are the ones the code
  counts. In every run of a sequence of sync and sweep runs that share the cache and the
  counter file, the number of successful searches is at most the per-run limit (when it is
  set; none under a negative limit), and a sweep issues at most that many search calls,
  successful or not. When the daily limit is set, is not negative, and the count stored in
  the counter file does not exceed it at the start, then after every run the stored count
  does not exceed the limit, and neither does any count written during the runs. The
  counters are incremented on success only: after a sync run that reached the library, and
  after a sweep that found tagged records under a per-run limit, the daily count and the
  stored count are the count read at the start of the run (0 when the file is missing or
  carries another date) plus the number of successful searches of the run, and the run
  count is that number (in a sweep, when it is not a dry run); each success adds one to
  both counters and writes the file. Every admission checks the counters first: with the
  daily count at the daily limit, or the run count at the per-run limit, the sync issues
  no search call for the item, and the sweep stops at the candidate whose index reaches
  the per-run limit or once the daily count is at the daily limit.
\<close>

theorem successful_searches_within_limits:
  "(per_run_search_limit cfg = Some L
      \<longrightarrow> (\<forall>s \<in> set (run_jobs cfg lib js (table, cfile)). int (searches_succeeded s) \<le> max 0 L)
          \<and> int (searches_issued (job_upgrade cfg lib sweep persisted)) \<le> max 0 L)
   \<and> (global_daily_search_limit cfg = Some G \<and> 0 \<le> G \<and> stored_count cfile \<le> G
      \<longrightarrow> (\<forall>s \<in> set (run_jobs cfg lib js (table, cfile)).
             stored_count (counter s) \<le> G
             \<and> (\<forall>c \<in> set (counts_written (calls s)). c \<le> G)))
   \<and> (connected inp
      \<longrightarrow> run_search_count (process_watchlist cfg lib inp (table, cfile))
            = int (searches_succeeded (process_watchlist cfg lib inp (table, cfile)))
          \<and> daily_search_count (process_watchlist cfg lib inp (table, cfile))
            = read_daily_search_count (sync_today inp) cfile
              + int (searches_succeeded (process_watchlist cfg lib inp (table, cfile)))
          \<and> counter (process_watchlist cfg lib inp (table, cfile))
            = Some (sync_today inp,
                    read_daily_search_count (sync_today inp) cfile
                    + int (searches_succeeded (process_watchlist cfg lib inp (table, cfile)))))
   \<and> (filter (\<lambda>(m, e). has_upgrade_tag cfg m) (all_radarr_movies sweep) \<noteq> []
        \<and> per_run_search_limit cfg = Some L
      \<longrightarrow> daily_search_count (job_upgrade cfg lib sweep (table, cfile))
            = read_daily_search_count (upgrade_today sweep) cfile
              + int (searches_succeeded (job_upgrade cfg lib sweep (table, cfile)))
          \<and> counter (job_upgrade cfg lib sweep (table, cfile))
            = Some (upgrade_today sweep,
                    read_daily_search_count (upgrade_today sweep) cfile
                    + int (searches_succeeded (job_upgrade cfg lib sweep (table, cfile))))
          \<and> (\<not> upgrade_dry_run sweep
              \<longrightarrow> run_search_count (job_upgrade cfg lib sweep (table, cfile))
                    = int (searches_succeeded (job_upgrade cfg lib sweep (table, cfile)))))
   \<and> read_daily_search_count today None = 0
   \<and> read_daily_search_count today (Some (today, c)) = c
   \<and> (d \<noteq> today \<longrightarrow> read_daily_search_count today (Some (d, c)) = 0)
   \<and> run_search_count (count_search today s) = run_search_count s + 1
   \<and> daily_search_count (count_search today s) = daily_search_count s + 1
   \<and> counter (count_search today s) = Some (today, read_daily_search_count today (counter s) + 1)
   \<and> (global_daily_search_limit cfg = Some G \<and> G \<le> daily_search_count s
        \<or> per_run_search_limit cfg = Some L \<and> L \<le> run_search_count s
      \<longrightarrow> search_existing cfg dry_run today movie env imdb_id tmdb_id r s = s
          \<and> searches_issued (handle_new_movie cfg lib dry_run today movie env tmdb_id s)
            = searches_issued s)
   \<and> (limit \<le> int k \<or> global_daily_search_limit cfg = Some G \<and> G \<le> daily_search_count s
      \<longrightarrow> search_loop cfg dry_run today limit k cands s = s)"
proof -
  have a: "(\<forall>s \<in> set (run_jobs cfg lib js (table, cfile)). int (searches_succeeded s) \<le> max 0 L)
          \<and> int (searches_issued (job_upgrade cfg lib sweep persisted)) \<le> max 0 L"
    if "per_run_search_limit cfg = Some L"
    using run_jobs_run_limit [OF that] job_upgrade_issued_limit [OF that] by blast
  have b: "\<forall>s \<in> set (run_jobs cfg lib js (table, cfile)).
             stored_count (counter s) \<le> G
             \<and> (\<forall>c \<in> set (counts_written (calls s)). c \<le> G)"
    if "global_daily_search_limit cfg = Some G \<and> 0 \<le> G \<and> stored_count cfile \<le> G"
    using that run_jobs_daily_limit [of cfg G cfile lib js table] by (auto simp: counter_ok_def)
  note c = process_watchlist_counted [where inp = inp and cfg = cfg and lib = lib
      and table = table and cfile = cfile]
  note d = job_upgrade_counted [where cfg = cfg and inp = sweep and L = L and lib = lib
      and table = table and cfile = cfile]
  have e: "read_daily_search_count today None = 0"
    "read_daily_search_count today (Some (today, c)) = c"
    "d \<noteq> today \<longrightarrow> read_daily_search_count today (Some (d, c)) = 0"
    by (simp_all add: read_daily_search_count_cases)
  have f: "search_existing cfg dry_run today movie env imdb_id tmdb_id r s = s
          \<and> searches_issued (handle_new_movie cfg lib dry_run today movie env tmdb_id s)
            = searches_issued s"
    if "global_daily_search_limit cfg = Some G \<and> G \<le> daily_search_count s
        \<or> per_run_search_limit cfg = Some L \<and> L \<le> run_search_count s"
    using search_existing_checks [OF that] handle_new_movie_checks [OF that] by simp
  have g: "search_loop cfg dry_run today limit k cands s = s"
    if "limit \<le> int k \<or> global_daily_search_limit cfg = Some G \<and> G \<le> daily_search_count s"
    using search_loop_checks [OF that] .
  have h: "run_search_count (count_search today s) = run_search_count s + 1"
    "daily_search_count (count_search today s) = daily_search_count s + 1"
    "counter (count_search today s) = Some (today, read_daily_search_count today (counter s) + 1)"
    by (simp_all add: count_search_def increment_daily_search_count_def)
  from a b c d e f g h show ?thesis
    by blast
qed

theorem successful_searches_within_limits_witness:
  "per_run_search_limit example_cfg_limited = Some 1
   \<and> global_daily_search_limit example_cfg_limited = Some 2
   \<and> map searches_succeeded
        (run_jobs example_cfg_limited example_lib_two
           [Sync (example_two_sync True), Sync (example_two_sync True), Sync (example_two_sync True)]
           ([], None)) = [1, 1, 0]
   \<and> map counter
        (run_jobs example_cfg_limited example_lib_two
           [Sync (example_two_sync True), Sync (example_two_sync True), Sync (example_two_sync True)]
           ([], None))
      = [Some (''0001-01-05'', 1), Some (''0001-01-05'', 2), Some (''0001-01-05'', 2)]
   \<and> int (searches_succeeded
        (run_jobs example_cfg_limited example_lib_two
           [Sync (example_two_sync True), Sync (example_two_sync True), Sync (example_two_sync True)]
           ([], None) ! 0)) \<le> max 0 1
   \<and> stored_count (counter
        (run_jobs example_cfg_limited example_lib_two
           [Sync (example_two_sync True), Sync (example_two_sync True), Sync (example_two_sync True)]
           ([], None) ! 2)) \<le> 2
   \<and> searches_issued
        (job_upgrade example_cfg_limited example_lib_two (example_two_sweep False) ([], None)) = 1
   \<and> int (searches_issued
        (job_upgrade example_cfg_limited example_lib_two (example_two_sweep False) ([], None)))
      \<le> max 0 1
   \<and> counter (process_watchlist example_cfg_limited example_lib_two (example_two_sync True)
                 ([], Some (''0001-01-05'', 1)))
      = Some (''0001-01-05'', 2)
   \<and> counter (job_upgrade example_cfg_limited example_lib_two (example_two_sweep False) ([], None))
      = Some (''0001-01-05'', 0)
   \<and> run_search_count
        (job_upgrade example_cfg_limited example_lib_two (example_two_sweep False) ([], None)) = 0
   \<and> read_daily_search_count ''0001-01-05'' (Some (''0001-01-04'', 2)) = 0
   \<and> search_existing example_cfg_limited False ''0001-01-05'' p_heat2 (example_env_two True 0)
        (norm_imdb p_heat2) (tmdb_key p_heat2) example_record
        ((start_state [] None 0)\<lparr>run_search_count := 1\<rparr>)
      = (start_state [] None 0)\<lparr>run_search_count := 1\<rparr>
   \<and> search_loop example_cfg_limited False ''0001-01-05'' 1 1
        [(example_record_ronin, 2000, datetime_min, example_env_two True 1)] (start_state [] None 0)
      = start_state [] None 0"
proof -
  let ?cfg = example_cfg_limited and ?lib = example_lib_two and ?d = "''0001-01-05''"
  let ?inp = "example_two_sync True" and ?sweep = "example_two_sweep False"
  let ?js = "[Sync ?inp, Sync ?inp, Sync ?inp]"
  let ?s1 = "process_watchlist ?cfg ?lib ?inp ([], None)"
  let ?s2 = "process_watchlist ?cfg ?lib ?inp (db ?s1, Some (?d, 1))"
  let ?s3 = "process_watchlist ?cfg ?lib ?inp (db ?s2, Some (?d, 2))"
  let ?lim = "(start_state [] None 0)\<lparr>run_search_count := 1\<rparr>"
  have runs: "run_jobs ?cfg ?lib ?js ([], None) = [?s1, ?s2, ?s3]"
    by (simp add: run_job_def persisted_of_def Let_def example_two_sync_first(2)
          example_two_sync_second(2))
  have succ: "map searches_succeeded [?s1, ?s2, ?s3] = [1, 1, 0]"
    by (simp add: example_two_sync_succeeded)
  have ctr: "map counter [?s1, ?s2, ?s3] = [Some (?d, 1), Some (?d, 2), Some (?d, 2)]"
    by (simp add: example_two_sync_first(2) example_two_sync_second(2) example_two_sync_third(2))
  have mem: "?s1 \<in> set (run_jobs ?cfg ?lib ?js ([], None))" "?s3 \<in> set (run_jobs ?cfg ?lib ?js ([], None))"
    unfolding runs by simp_all
  have st: "(0::int) \<le> 2" "stored_count None \<le> 2"
    by (simp_all add: stored_count_def)
  have inp: "connected ?inp" "sync_today ?inp = ?d"
    by (simp_all add: example_two_sync_def)
  have sw: "filter (\<lambda>(m, e). has_upgrade_tag ?cfg m) (all_radarr_movies ?sweep) \<noteq> []"
    "upgrade_today ?sweep = ?d"
    by (simp_all add: example_two_sweep_def example_two_sweep_records)
  have day: "''0001-01-04'' \<noteq> ?d"
    by simp
  have lim: "per_run_search_limit ?cfg = Some 1 \<and> 1 \<le> run_search_count ?lim"
    by (simp add: example_limited start_state_def)
  have idx: "(1::int) \<le> int 1"
    by simp
  note inst = successful_searches_within_limits [where cfg = ?cfg and lib = ?lib and L = 1 and G = 2]
  from inst [where js = ?js and table = "[]" and cfile = None] example_limited st mem
  have r1: "int (searches_succeeded ?s1) \<le> max 0 1" "stored_count (counter ?s3) \<le> 2"
    by blast+
  from inst [where sweep = ?sweep and persisted = "([], None)"] example_limited(1)
  have r2: "int (searches_issued (job_upgrade ?cfg ?lib ?sweep ([], None))) \<le> max 0 1"
    by blast
  from inst [where inp = ?inp and table = "[]" and cfile = "Some (?d, 1)"] inp(1)
  have "counter (process_watchlist ?cfg ?lib ?inp ([], Some (?d, 1)))
      = Some (sync_today ?inp, read_daily_search_count (sync_today ?inp) (Some (?d, 1))
          + int (searches_succeeded (process_watchlist ?cfg ?lib ?inp ([], Some (?d, 1)))))"
    by blast
  moreover from inst [where today = ?d and c = 1]
  have "read_daily_search_count ?d (Some (?d, 1)) = 1"
    by blast
  ultimately have r3: "counter (process_watchlist ?cfg ?lib ?inp ([], Some (?d, 1))) = Some (?d, 2)"
    by (simp add: inp example_two_sync_succeeded)
  from inst [where sweep = ?sweep and table = "[]" and cfile = None] sw(1) example_limited(1)
  have "counter (job_upgrade ?cfg ?lib ?sweep ([], None))
      = Some (upgrade_today ?sweep, read_daily_search_count (upgrade_today ?sweep) None
          + int (searches_succeeded (job_upgrade ?cfg ?lib ?sweep ([], None))))"
    by blast
  moreover from inst [where today = ?d]
  have "read_daily_search_count ?d None = 0"
    by blast
  ultimately have r4: "counter (job_upgrade ?cfg ?lib ?sweep ([], None)) = Some (?d, 0)"
    by (simp add: sw example_two_sweep_succeeded)
  have wet: "\<not> upgrade_dry_run ?sweep"
    by (simp add: example_two_sweep_def)
  from inst [where sweep = ?sweep and table = "[]" and cfile = None] sw(1) example_limited(1) wet
  have "run_search_count (job_upgrade ?cfg ?lib ?sweep ([], None))
      = int (searches_succeeded (job_upgrade ?cfg ?lib ?sweep ([], None)))"
    by blast
  then have r4': "run_search_count (job_upgrade ?cfg ?lib ?sweep ([], None)) = 0"
    by (simp add: example_two_sweep_succeeded)
  from inst [where today = ?d and d = "''0001-01-04''" and c = 2] day
  have r5: "read_daily_search_count ?d (Some (''0001-01-04'', 2)) = 0"
    by blast
  from inst [where s = ?lim and dry_run = False and today = ?d and movie = p_heat2
      and env = "example_env_two True 0" and imdb_id = "norm_imdb p_heat2"
      and tmdb_id = "tmdb_key p_heat2" and r = example_record] lim
  have r6: "search_existing ?cfg False ?d p_heat2 (example_env_two True 0)
        (norm_imdb p_heat2) (tmdb_key p_heat2) example_record ?lim = ?lim"
    by blast
  from inst [where limit = 1 and k = 1 and dry_run = False and today = ?d
      and cands = "[(example_record_ronin, 2000, datetime_min, example_env_two True 1)]"
      and s = "start_state [] None 0"] idx
  have r7: "search_loop ?cfg False ?d 1 1
        [(example_record_ronin, 2000, datetime_min, example_env_two True 1)] (start_state [] None 0)
      = start_state [] None 0"
    by blast
  have issued: "searches_issued (job_upgrade ?cfg ?lib ?sweep ([], None)) = 1"
    by (simp add: searches_issued_def example_two_sweep_failing)
  from r1 have r1': "int (searches_succeeded (run_jobs ?cfg ?lib ?js ([], None) ! 0)) \<le> max 0 1"
    "stored_count (counter (run_jobs ?cfg ?lib ?js ([], None) ! 2)) \<le> 2"
    unfolding runs by simp_all
  from succ ctr have lists: "map searches_succeeded (run_jobs ?cfg ?lib ?js ([], None)) = [1, 1, 0]"
    "map counter (run_jobs ?cfg ?lib ?js ([], None)) = [Some (?d, 1), Some (?d, 2), Some (?d, 2)]"
    unfolding runs by simp_all
  from example_limited lists r1' issued r2 r3 r4 r4' r5 r6 r7 show ?thesis
    by blast
qed

text \<open>
  C1, as stated, fails: under a per-run limit of 1, a sync run in which the searches fail
  admits and issues a search call for each of its two items; nothing is counted, so the
  run count stays at 0.
\<close>

theorem sync_issues_searches_beyond_limit:
  "per_run_search_limit example_cfg_limited = Some 1
   \<and> filter is_search_call
        (calls (process_watchlist example_cfg_limited example_lib_two (example_two_sync False) ([], None)))
      = [TriggerSearch 7 False, TriggerSearch 8 False]
   \<and> searches_issued
        (process_watchlist example_cfg_limited example_lib_two (example_two_sync False) ([], None)) = 2
   \<and> run_search_count
        (process_watchlist example_cfg_limited example_lib_two (example_two_sync False) ([], None)) = 0"
  by (simp add: example_limited example_two_sync_failing searches_issued_def)

end
